theory Spec2Isabelle
  imports Complex_Main
begin

section \<open>Values, exceptions and observable effects\<close>

text \<open>
  The program is TypeScript running in a browser. JavaScript numbers are modelled as
  \<^typ>\<open>real\<close> (coordinates, pressure, tilt) or \<^typ>\<open>int\<close> (identifiers, button masks);
  no claim depends on rounding. A value whose static type is not enforced at run time
  (a tool's \<open>name\<close>) is a \<open>jsval\<close>. A thrown exception is a value \<open>exn\<close>.
\<close>

datatype jsval = JUndefined | JNull | JStr string | JOther string

text \<open>
  \<open>JOther r\<close> is any value that is neither \<open>undefined\<close>, \<open>null\<close> nor a string
  (a number, a boolean, an object), given by its string conversion \<open>r\<close>.
\<close>

fun to_string :: "jsval \<Rightarrow> string" where
  "to_string JUndefined = ''undefined''"
| "to_string JNull = ''null''"
| "to_string (JStr s) = s"
| "to_string (JOther r) = r"

datatype exn = Error string

text \<open>The hooks of the \<open>Tool\<close> interface that the ToolSystem calls.\<close>

datatype hook =
  OnPointerDown | OnPointerMove | OnPointerUp | OnKeyDown | OnKeyUp | OnActivate | OnDeactivate

text \<open>
  Calls that leave the modelled classes, in the order they happen: console output, the
  call of a tool's hook (recorded with the \<open>name\<close> of the tool it is called on),
  \<open>window.paperManager.notifyProjectChanged()\<close>, and the two DOM calls of the
  pointer router.
\<close>

datatype event =
  ConsoleLog string
| ConsoleWarn string
| ConsoleError string "exn option"
| Invoke hook jsval
| ProjectChanged
| PreventDefault
| SetPointerCapture int

section \<open>Canonical events (tool-system.ts, input-manager.ts)\<close>

type_synonym point = "real \<times> real"

text \<open>
  What the router reads of the element an event was delivered to:
  whether \<open>closest('[draggable="true"]')\<close> and \<open>closest(".outline-panel")\<close> find an
  element, and whether the element has a \<open>setPointerCapture\<close> method.
\<close>

record Element =
  closest_draggable :: bool
  closest_outline_panel :: bool
  has_setPointerCapture :: bool

text \<open>
  The DOM \<open>PointerEvent\<close>, with the fields the source reads. \<open>ev_pressure\<close> is
  \<open>None\<close> when the property is \<open>undefined\<close> or \<open>null\<close> (the case the source's
  \<open>??\<close> tests for).
\<close>

record RawPointerEvent =
  etype :: string
  target :: "Element option"
  clientX :: real
  clientY :: real
  ev_pressure :: "real option"
  ev_buttons :: int
  ev_pointerId :: int
  ev_pointerType :: string
  ev_tiltX :: real
  ev_tiltY :: real

record PointerData =
  point :: point
  pressure :: real
  buttons :: int
  pointerId :: int
  pointerType :: string
  tiltX :: real
  tiltY :: real
  native :: RawPointerEvent

record RawKeyEvent =
  ev_key :: string
  ev_code :: string
  ctrlKey :: bool
  shiftKey :: bool
  altKey :: bool
  metaKey :: bool

record KeyData =
  key :: string
  code :: string
  ctrl :: bool
  shift :: bool
  alt :: bool
  meta :: bool
  key_native :: RawKeyEvent

section \<open>PointerSessionManager (pointer-session.ts)\<close>

text \<open>
  The private \<open>sessions\<close> map, from pointerId to the array collected so far. The arrays
  are written by the manager only, so an array is modelled by its contents.
\<close>

record PointerSessionManager =
  sessions :: "int \<rightharpoonup> PointerData list"

definition start :: "PointerData \<Rightarrow> PointerSessionManager \<Rightarrow> PointerSessionManager" where
  "start data m = m\<lparr>sessions := (sessions m)(pointerId data \<mapsto> [data])\<rparr>"

definition move :: "PointerData \<Rightarrow> PointerSessionManager \<Rightarrow> PointerSessionManager" where
  "move data m =
     (case sessions m (pointerId data) of
        None \<Rightarrow> m
      | Some arr \<Rightarrow> m\<lparr>sessions := (sessions m)(pointerId data \<mapsto> arr @ [data])\<rparr>)"

text \<open>\<open>end\<close> of the source; it returns the array (or \<open>undefined\<close>) and the new manager.\<close>

definition end_session ::
  "PointerData \<Rightarrow> PointerSessionManager \<Rightarrow> PointerData list option \<times> PointerSessionManager" where
  "end_session data m =
     (case sessions m (pointerId data) of
        None \<Rightarrow> (None, m)
      | Some arr \<Rightarrow> (Some (arr @ [data]), m\<lparr>sessions := (sessions m)(pointerId data := None)\<rparr>))"

definition get :: "int \<Rightarrow> PointerSessionManager \<Rightarrow> PointerData list option" where
  "get pid m = sessions m pid"

text \<open>Delivering a list of move events, first to last.\<close>

fun moves :: "PointerData list \<Rightarrow> PointerSessionManager \<Rightarrow> PointerSessionManager" where
  "moves [] m = m"
| "moves (e # es) m = moves es (move e m)"

section \<open>Programs that may throw\<close>

text \<open>
  A method is a function from the state before the call to its outcome and the state
  after it: \<open>Inr v\<close> when it returns \<open>v\<close>, \<open>Inl x\<close> when the exception \<open>x\<close> leaves it.
  \<open>try_catch\<close> and \<open>try_finally\<close> are the two statements of the language.
\<close>

type_synonym ('s, 'a) prog = "'s \<Rightarrow> (exn + 'a) \<times> 's"

definition ret :: "'a \<Rightarrow> ('s, 'a) prog" where
  "ret v s = (Inr v, s)"

definition throw :: "exn \<Rightarrow> ('s, 'a) prog" where
  "throw x s = (Inl x, s)"

definition and_then :: "('s, 'a) prog \<Rightarrow> ('a \<Rightarrow> ('s, 'b) prog) \<Rightarrow> ('s, 'b) prog" where
  "and_then m f s = (case m s of (Inl x, s') \<Rightarrow> (Inl x, s') | (Inr v, s') \<Rightarrow> f v s')"

definition seq :: "('s, unit) prog \<Rightarrow> ('s, 'b) prog \<Rightarrow> ('s, 'b) prog" where
  "seq m n = and_then m (\<lambda>_. n)"

definition try_catch :: "('s, 'a) prog \<Rightarrow> (exn \<Rightarrow> ('s, 'a) prog) \<Rightarrow> ('s, 'a) prog" where
  "try_catch m h s = (case m s of (Inl x, s') \<Rightarrow> h x s' | (Inr v, s') \<Rightarrow> (Inr v, s'))"

text \<open>
  \<open>try { m } finally { fin }\<close>: \<open>fin\<close> runs on every exit of \<open>m\<close>; the outcome is that of
  \<open>m\<close> unless \<open>fin\<close> itself throws.
\<close>

definition try_finally :: "('s, 'a) prog \<Rightarrow> ('s, unit) prog \<Rightarrow> ('s, 'a) prog" where
  "try_finally m fin s =
     (case m s of (r, s') \<Rightarrow>
        (case fin s' of (Inl y, s'') \<Rightarrow> (Inl y, s'') | (Inr _, s'') \<Rightarrow> (r, s'')))"

section \<open>ToolSystem (tool-system.ts)\<close>

text \<open>
  A hook is code supplied by a tool's author. The tool loader hands that code the
  ToolSystem itself, so while a hook runs it can do three kinds of things: act on the
  state outside the modelled classes (the scene graph, the tool's own fields, the DOM),
  of type \<open>'w\<close>; use the session manager through \<open>toolSystem.sessionManager\<close>; and call
  the public methods of the ToolSystem, which run to completion before the hook goes on.
  It reads the ToolSystem through \<open>getActiveToolName()\<close> and the session manager through
  its methods; the \<open>snapshot\<close> is what these return at the moment of reading. A hook
  does not assign to the properties of a tool object, and what it only starts (a timer,
  a promise) is not part of its run.
\<close>

record snapshot =
  activeName :: jsval
  liveSessions :: PointerSessionManager

text \<open>
  The public methods of the ToolSystem that change something or call a hook, as a hook
  calls them. The argument of \<open>Register\<close> is \<open>None\<close> for \<open>null\<close> or \<open>undefined\<close> and
  otherwise the number of a tool object in the table \<open>toolObjects\<close> of the page.
\<close>

datatype api =
  Activate string
| Register "nat option"
| DispatchPointer string PointerData
| DispatchKey string KeyData

text \<open>
  One run of a hook, as the tree of what it does next: return; throw; change the outside
  state; change the session manager; go one of two ways on what it reads; call a method
  of the ToolSystem (an exception leaving that method leaves the hook too); or run a
  block under \<open>try\<close> with a \<open>catch\<close> block, and go on after either.
\<close>

datatype 'w script =
  Return
| Throw exn
| Act "snapshot \<Rightarrow> 'w \<Rightarrow> 'w" "'w script"
| Touch "PointerSessionManager \<Rightarrow> PointerSessionManager" "'w script"
| Test "snapshot \<Rightarrow> 'w \<Rightarrow> bool" "'w script" "'w script"
| Call api "'w script"
| Try "'w script" "'w script" "'w script"

record 'w Tool =
  name :: jsval
  onPointerDown :: "(PointerData \<Rightarrow> 'w script) option"
  onPointerMove :: "(PointerData \<Rightarrow> 'w script) option"
  onPointerUp :: "(PointerData \<Rightarrow> 'w script) option"
  onKeyDown :: "(KeyData \<Rightarrow> 'w script) option"
  onKeyUp :: "(KeyData \<Rightarrow> 'w script) option"
  onActivate :: "'w script option"
  onDeactivate :: "'w script option"
  onColorChange :: "(string \<times> string \<Rightarrow> 'w script) option"

record 'w ToolSystem =
  tools :: "string \<rightharpoonup> 'w Tool"
  activeTool :: "'w Tool option"

text \<open>
  The state of the page: the ToolSystem, the session manager that the InputManager
  creates and installs in the ToolSystem (one object, two references), the state
  \<open>world\<close> that hooks act on, the tool objects that hooks can hand to \<open>register\<close>, the
  \<open>trace\<close> of outside calls so far, and what the pointer router reads from \<open>window\<close> and
  the canvas: the canvas rectangle's \<open>left\<close> and \<open>top\<close>, \<open>window.view.viewToProject\<close>
  when \<open>window.view\<close> exists, and whether \<open>window.paperManager?.notifyProjectChanged\<close>
  exists.
\<close>

record 'w page =
  toolSystem :: "'w ToolSystem"
  sessionManager :: PointerSessionManager
  world :: 'w
  toolObjects :: "nat \<Rightarrow> 'w Tool"
  trace :: "event list"
  canvasOrigin :: point
  viewToProject :: "(point \<Rightarrow> point) option"
  paperManager :: bool

definition emit :: "event \<Rightarrow> ('w page, unit) prog" where
  "emit ev s = (Inr (), s\<lparr>trace := trace s @ [ev]\<rparr>)"

text \<open>\<open>this.activeTool?.name ?? null\<close>.\<close>

definition getActiveTool :: "'w page \<Rightarrow> 'w Tool option" where
  "getActiveTool s = activeTool (toolSystem s)"

definition getActiveToolName :: "'w page \<Rightarrow> jsval" where
  "getActiveToolName s =
     (case activeTool (toolSystem s) of
        None \<Rightarrow> JNull
      | Some t \<Rightarrow> (case name t of JUndefined \<Rightarrow> JNull | v \<Rightarrow> v))"

text \<open>What a hook running in the state \<open>s\<close> reads of the modelled classes.\<close>

definition snapshotOf :: "'w page \<Rightarrow> snapshot" where
  "snapshotOf s = \<lparr>activeName = getActiveToolName s, liveSessions = sessionManager s\<rparr>"

text \<open>
  Running a hook, with \<open>re\<close> the ToolSystem as the hook finds it: what each of its
  methods does when called from here.
\<close>

primrec run :: "(api \<Rightarrow> ('w page, unit) prog) \<Rightarrow> 'w script \<Rightarrow> ('w page, unit) prog" where
  "run re Return = ret ()"
| "run re (Throw x) = throw x"
| "run re (Act f k) = (\<lambda>s. run re k (s\<lparr>world := f (snapshotOf s) (world s)\<rparr>))"
| "run re (Touch g k) = (\<lambda>s. run re k (s\<lparr>sessionManager := g (sessionManager s)\<rparr>))"
| "run re (Test p k1 k2) = (\<lambda>s. if p (snapshotOf s) (world s) then run re k1 s else run re k2 s)"
| "run re (Call a k) = seq (re a) (run re k)"
| "run re (Try b h k) = seq (try_catch (run re b) (\<lambda>err. run re h)) (run re k)"

text \<open>The call \<open>t.h(...)\<close> of a hook \<open>k\<close> of the tool \<open>t\<close>.\<close>

definition call ::
  "(api \<Rightarrow> ('w page, unit) prog) \<Rightarrow> hook \<Rightarrow> 'w Tool \<Rightarrow> 'w script \<Rightarrow> ('w page, unit) prog" where
  "call re h t k = seq (emit (Invoke h (name t))) (run re k)"

text \<open>\<open>t.h?.(e)\<close>: nothing happens when the tool has no such hook.\<close>

definition call_opt ::
  "(api \<Rightarrow> ('w page, unit) prog) \<Rightarrow> hook \<Rightarrow> 'w Tool \<Rightarrow> ('e \<Rightarrow> 'w script) option \<Rightarrow> 'e
     \<Rightarrow> ('w page, unit) prog" where
  "call_opt re h t fo e = (case fo of None \<Rightarrow> ret () | Some f \<Rightarrow> call re h t (f e))"

text \<open>
  \<open>register(tool)\<close>. The argument is \<open>None\<close> for \<open>null\<close> or \<open>undefined\<close>
  (the source's \<open>!tool\<close>).
\<close>

definition register :: "'w Tool option \<Rightarrow> ('w page, unit) prog" where
  "register tool s =
     (case tool of
        None \<Rightarrow> throw (Error ''Tool must have a non-empty name property'') s
      | Some t \<Rightarrow>
          (case name t of
             JStr n \<Rightarrow>
               if n = [] then throw (Error ''Tool must have a non-empty name property'') s
               else ret () (s\<lparr>toolSystem := (toolSystem s)\<lparr>tools := (tools (toolSystem s))(n \<mapsto> t)\<rparr>\<rparr>)
           | _ \<Rightarrow> throw (Error ''Tool must have a non-empty name property'') s))"

text \<open>
  The bodies of \<open>activate\<close>, \<open>dispatchPointer\<close> and \<open>dispatchKey\<close>, with \<open>re\<close> the
  ToolSystem as the hooks they call find it.
\<close>

definition activateWith :: "(api \<Rightarrow> ('w page, unit) prog) \<Rightarrow> string \<Rightarrow> ('w page, unit) prog" where
  "activateWith re nm s =
     (case tools (toolSystem s) nm of
        None \<Rightarrow>
          emit (ConsoleWarn (''ToolSystem: Cannot activate unknown tool \"'' @ nm @ ''\"'')) s
      | Some next \<Rightarrow>
          seq
            (case activeTool (toolSystem s) of
               None \<Rightarrow> ret ()
             | Some cur \<Rightarrow>
                 (case onDeactivate cur of
                    None \<Rightarrow> ret ()
                  | Some k \<Rightarrow>
                      try_catch (call re OnDeactivate cur k)
                        (\<lambda>err. emit (ConsoleError ''Tool onDeactivate error'' (Some err)))))
            (seq
              (\<lambda>s'. ret () (s'\<lparr>toolSystem := (toolSystem s')\<lparr>activeTool := Some next\<rparr>\<rparr>))
              (case onActivate next of
                 None \<Rightarrow> ret ()
               | Some k \<Rightarrow>
                   try_catch (call re OnActivate next k)
                     (\<lambda>err. emit (ConsoleError ''Tool onActivate error'' (Some err)))))
            s)"

text \<open>
  The \<open>catch\<close> clause of the two dispatch methods: it reads \<open>this.activeTool.name\<close> when
  it runs, after the hook.
\<close>

definition reportHandlerError :: "string \<Rightarrow> exn \<Rightarrow> ('w page, unit) prog" where
  "reportHandlerError kind err s =
     (case activeTool (toolSystem s) of
        None \<Rightarrow> throw (Error ''TypeError: this.activeTool is null'') s
      | Some t \<Rightarrow>
          emit (ConsoleError
            (''Tool ('' @ to_string (name t) @ '') '' @ kind @ '' handler error'')
            (Some err)) s)"

definition dispatchPointerWith ::
  "(api \<Rightarrow> ('w page, unit) prog) \<Rightarrow> string \<Rightarrow> PointerData \<Rightarrow> ('w page, unit) prog" where
  "dispatchPointerWith re type e s =
     (case activeTool (toolSystem s) of
        None \<Rightarrow> ret () s
      | Some t \<Rightarrow>
          try_catch
            (if type = ''pointerdown'' then call_opt re OnPointerDown t (onPointerDown t) e
             else if type = ''pointermove'' then call_opt re OnPointerMove t (onPointerMove t) e
             else if type = ''pointerup'' then call_opt re OnPointerUp t (onPointerUp t) e
             else ret ())
            (reportHandlerError ''pointer'')
            s)"

definition dispatchKeyWith ::
  "(api \<Rightarrow> ('w page, unit) prog) \<Rightarrow> string \<Rightarrow> KeyData \<Rightarrow> ('w page, unit) prog" where
  "dispatchKeyWith re type e s =
     (case activeTool (toolSystem s) of
        None \<Rightarrow> ret () s
      | Some t \<Rightarrow>
          try_catch
            (if type = ''keydown'' then call_opt re OnKeyDown t (onKeyDown t) e
             else if type = ''keyup'' then call_opt re OnKeyUp t (onKeyUp t) e
             else ret ())
            (reportHandlerError ''key'')
            s)"

text \<open>
  A method of the ToolSystem called with room for \<open>d\<close> nested calls on the stack. With
  no room left the call throws \<open>RangeError\<close>; otherwise the method runs, and a hook it
  calls finds the ToolSystem with one call less to spare.
\<close>

primrec serve :: "nat \<Rightarrow> api \<Rightarrow> ('w page, unit) prog" where
  "serve 0 a = throw (Error ''RangeError: Maximum call stack size exceeded'')"
| "serve (Suc d) a =
     (case a of
        Activate nm \<Rightarrow> activateWith (serve d) nm
      | Register i \<Rightarrow> (\<lambda>s. register (map_option (toolObjects s) i) s)
      | DispatchPointer type e \<Rightarrow> dispatchPointerWith (serve d) type e
      | DispatchKey type e \<Rightarrow> dispatchKeyWith (serve d) type e)"

text \<open>
  The methods as the page calls them, the hooks they run having room for \<open>d\<close> nested
  calls of the ToolSystem.
\<close>

definition activate :: "nat \<Rightarrow> string \<Rightarrow> ('w page, unit) prog" where
  "activate d = activateWith (serve d)"

definition dispatchPointer :: "nat \<Rightarrow> string \<Rightarrow> PointerData \<Rightarrow> ('w page, unit) prog" where
  "dispatchPointer d = dispatchPointerWith (serve d)"

definition dispatchKey :: "nat \<Rightarrow> string \<Rightarrow> KeyData \<Rightarrow> ('w page, unit) prog" where
  "dispatchKey d = dispatchKeyWith (serve d)"

section \<open>InputManager (input-manager.ts)\<close>

text \<open>
  The handlers of the InputManager are called by the browser; \<open>d\<close> is the room on the
  stack that the hooks they reach have for nested calls of the ToolSystem.
\<close>

definition makePointerData :: "'w page \<Rightarrow> RawPointerEvent \<Rightarrow> PointerData" where
  "makePointerData s ev =
     (let viewPoint = (clientX ev - fst (canvasOrigin s), clientY ev - snd (canvasOrigin s));
          projectPoint = (case viewToProject s of Some f \<Rightarrow> f viewPoint | None \<Rightarrow> viewPoint)
      in \<lparr>point = projectPoint,
          pressure = (case ev_pressure ev of Some p \<Rightarrow> p | None \<Rightarrow> 0),
          buttons = ev_buttons ev,
          pointerId = ev_pointerId ev,
          pointerType = ev_pointerType ev,
          tiltX = ev_tiltX ev,
          tiltY = ev_tiltY ev,
          native = ev\<rparr>)"

definition shouldIgnore :: "RawPointerEvent \<Rightarrow> bool" where
  "shouldIgnore ev =
     (case target ev of
        None \<Rightarrow> False
      | Some t \<Rightarrow> closest_draggable t \<or> closest_outline_panel t)"

text \<open>
  \<open>(ev.target as HTMLElement).setPointerCapture?.(ev.pointerId)\<close>: a \<open>null\<close> target makes
  the property access throw; an element without the method is skipped.
\<close>

definition capturePointer :: "RawPointerEvent \<Rightarrow> ('w page, unit) prog" where
  "capturePointer ev =
     (case target ev of
        None \<Rightarrow> throw (Error ''TypeError: ev.target is null'')
      | Some t \<Rightarrow>
          if has_setPointerCapture t then emit (SetPointerCapture (ev_pointerId ev)) else ret ())"

text \<open>\<open>window.paperManager?.notifyProjectChanged?.()\<close>.\<close>

definition notifyProjectChanged :: "('w page, unit) prog" where
  "notifyProjectChanged s = (if paperManager s then emit ProjectChanged s else ret () s)"

text \<open>The normalised event type of \<open>routePointer\<close>: cancel becomes up.\<close>

definition normalisedType :: "RawPointerEvent \<Rightarrow> string" where
  "normalisedType ev = (if etype ev = ''pointercancel'' then ''pointerup'' else etype ev)"

text \<open>The session bookkeeping of \<open>routePointer\<close>; the array \<open>end\<close> returns is dropped.\<close>

definition trackSession :: "string \<Rightarrow> PointerData \<Rightarrow> ('w page, unit) prog" where
  "trackSession type data s =
     (if type = ''pointerdown'' then ret () (s\<lparr>sessionManager := start data (sessionManager s)\<rparr>)
      else if type = ''pointermove'' then ret () (s\<lparr>sessionManager := move data (sessionManager s)\<rparr>)
      else if type = ''pointerup'' then
        ret () (s\<lparr>sessionManager := snd (end_session data (sessionManager s))\<rparr>)
      else ret () s)"

definition routePointer :: "nat \<Rightarrow> RawPointerEvent \<Rightarrow> ('w page, unit) prog" where
  "routePointer d ev s =
     (if shouldIgnore ev then ret () s
      else
        seq (emit PreventDefault)
         (seq (if etype ev = ''pointerdown'' then capturePointer ev else ret ())
           (\<lambda>s1.
              (let data = makePointerData s1 ev;
                   type = normalisedType ev
               in seq (trackSession type data)
                    (seq (dispatchPointer d type data)
                      (if type = ''pointerdown'' \<or> type = ''pointerup''
                       then notifyProjectChanged else ret ()))
                    s1)))
         s)"

definition makeKeyData :: "RawKeyEvent \<Rightarrow> KeyData" where
  "makeKeyData ev =
     \<lparr>key = ev_key ev, code = ev_code ev, ctrl = ctrlKey ev, shift = shiftKey ev,
      alt = altKey ev, meta = metaKey ev, key_native = ev\<rparr>"

definition handleKeyDown :: "nat \<Rightarrow> RawKeyEvent \<Rightarrow> ('w page, unit) prog" where
  "handleKeyDown d ev = dispatchKey d ''keydown'' (makeKeyData ev)"

definition handleKeyUp :: "nat \<Rightarrow> RawKeyEvent \<Rightarrow> ('w page, unit) prog" where
  "handleKeyUp d ev = dispatchKey d ''keyup'' (makeKeyData ev)"

section \<open>OverlayCanvas (overlay-canvas.ts)\<close>

text \<open>
  A canvas element: its CSS box, its bitmap size and the bitmap itself, as the RGBA
  bytes \<open>getImageData\<close> returns. \<open>blank w h\<close> is the bitmap of a canvas of that size on
  which nothing is drawn (transparent black), which is also what
  \<open>clearRect(0, 0, w, h)\<close> leaves. The 2D context is used with its default transform and
  no clipping region, as the tools of the repository do. A bitmap size is the integer
  part of the number assigned to it; the rectangles of \<open>getBoundingClientRect\<close> have
  non-negative sizes. The overlay's \<open>scale\<close> is a fraction above 0 (0.25 unless the tool
  says otherwise); at 0 the factor \<open>1 / scale\<close> would be \<open>Infinity\<close> in JavaScript and is 0
  here, and nothing below depends on the factor.
\<close>

record DOMRect =
  rleft :: real
  rtop :: real
  rwidth :: real
  rheight :: real

definition blank :: "nat \<Rightarrow> nat \<Rightarrow> nat list" where
  "blank w h = replicate (4 * w * h) 0"

record Canvas =
  style_box :: "DOMRect option"
  width :: nat
  height :: nat
  pixels :: "nat list"

record Ctx =
  imageSmoothingEnabled :: bool

record OverlayCanvas =
  canvas :: "Canvas option"
  ctx :: "Ctx option"
  resizeListener :: bool
  scale :: real
  potraceOptions :: "(string \<times> real) list"

text \<open>The constructor: no canvas, no context, no listener yet.\<close>

definition newOverlayCanvas :: "real \<Rightarrow> (string \<times> real) list \<Rightarrow> OverlayCanvas" where
  "newOverlayCanvas k opts =
     \<lparr>canvas = None, ctx = None, resizeListener = False, scale = k, potraceOptions = opts\<rparr>"

text \<open>Items of the scene graph, as far as \<open>traceToPaper\<close> tells them apart.\<close>

datatype 'g Item =
  Path 'g "string option" "string option"
| CompoundPath "'g Item list" "string option" "string option"
| Group "'g Item list"
| Leaf

text \<open>
  The state an overlay runs in: the object itself; the host canvas
  (\<open>document.getElementById("paper-canvas")\<close>, given by its bounding rectangle) ; whether
  \<open>getContext("2d")\<close> yields a context; the number of overlay canvases attached to
  \<open>document.body\<close> and of \<open>paperCanvasResized\<close> listeners; the console; the Tracer
  \<open>window.potrace\<close> (\<open>None\<close> unless it is a function) with the outcome it resolves or
  rejects to; the functions \<open>importSVG\<close> and \<open>scale\<close> of the scene-graph library; the
  children of the active project; and \<open>window.globalColors\<close>.
\<close>

record 'g bridge =
  overlay :: OverlayCanvas
  paperCanvas :: "DOMRect option"
  context2d :: bool
  bodyOverlays :: nat
  resizeHandlers :: nat
  console :: "event list"
  potrace :: "(Canvas \<Rightarrow> (string \<times> real) list \<Rightarrow> exn + string) option"
  importSVG :: "string \<Rightarrow> exn + 'g Item option"
  scaleItem :: "real \<Rightarrow> 'g Item \<Rightarrow> 'g Item"
  project :: "'g Item list"
  globalColors :: "(string \<times> string) option"

definition say :: "event \<Rightarrow> ('g bridge, unit) prog" where
  "say ev s = (Inr (), s\<lparr>console := console s @ [ev]\<rparr>)"

definition destroy :: "('g bridge, unit) prog" where
  "destroy s =
     (let s1 = (case canvas (overlay s) of
                  None \<Rightarrow> s
                | Some _ \<Rightarrow> s\<lparr>bodyOverlays := bodyOverlays s - 1,
                               overlay := (overlay s)\<lparr>canvas := None, ctx := None\<rparr>\<rparr>);
          s2 = (if resizeListener (overlay s1)
                then s1\<lparr>resizeHandlers := resizeHandlers s1 - 1,
                        overlay := (overlay s1)\<lparr>resizeListener := False\<rparr>\<rparr>
                else s1)
      in (Inr (), s2))"

definition updateSize :: "('g bridge, unit) prog" where
  "updateSize s =
     (case (paperCanvas s, canvas (overlay s)) of
        (Some rect, Some c) \<Rightarrow>
          (let w = nat \<lfloor>rwidth rect * scale (overlay s)\<rfloor>;
               h = nat \<lfloor>rheight rect * scale (overlay s)\<rfloor>;
               c' = c\<lparr>style_box := Some rect, width := w, height := h, pixels := blank w h\<rparr>;
               x' = (case ctx (overlay s) of
                       None \<Rightarrow> None
                     | Some x \<Rightarrow> Some (x\<lparr>imageSmoothingEnabled := False\<rparr>))
           in (Inr (), s\<lparr>overlay := (overlay s)\<lparr>canvas := Some c', ctx := x'\<rparr>\<rparr>))
      | _ \<Rightarrow> (Inr (), s))"

text \<open>A new \<open>canvas\<close> element is 300 by 150 and blank.\<close>

definition newCanvas :: Canvas where
  "newCanvas = \<lparr>style_box = None, width = 300, height = 150, pixels = blank 300 150\<rparr>"

definition create :: "('g bridge, Ctx option) prog" where
  "create s =
     (case paperCanvas s of
        None \<Rightarrow> seq (say (ConsoleWarn ''Paper canvas not found'')) (ret None) s
      | Some _ \<Rightarrow>
          seq destroy
           (seq (\<lambda>s1. (Inr (), s1\<lparr>bodyOverlays := bodyOverlays s1 + 1,
                                   overlay := (overlay s1)\<lparr>canvas := Some newCanvas\<rparr>\<rparr>))
             (seq updateSize
               (seq (\<lambda>s2. (Inr (), s2\<lparr>overlay := (overlay s2)
                              \<lparr>ctx := (if context2d s2
                                       then Some \<lparr>imageSmoothingEnabled = False\<rparr> else None)\<rparr>\<rparr>))
                 (seq (\<lambda>s3. (Inr (), s3\<lparr>resizeHandlers := resizeHandlers s3 + 1,
                                         overlay := (overlay s3)\<lparr>resizeListener := True\<rparr>\<rparr>))
                   (seq (say (ConsoleLog ''Overlay canvas created''))
                     (\<lambda>s4. ret (ctx (overlay s4)) s4))))))
           s)"

definition paperToOverlay :: "OverlayCanvas \<Rightarrow> point \<Rightarrow> point" where
  "paperToOverlay ov p = (fst p * scale ov, snd p * scale ov)"

definition getContext :: "OverlayCanvas \<Rightarrow> Ctx option" where
  "getContext ov = ctx ov"

definition getCanvas :: "OverlayCanvas \<Rightarrow> Canvas option" where
  "getCanvas ov = canvas ov"

definition clear :: "('g bridge, unit) prog" where
  "clear s =
     (case (ctx (overlay s), canvas (overlay s)) of
        (Some _, Some c) \<Rightarrow>
          (Inr (), s\<lparr>overlay := (overlay s)
                     \<lparr>canvas := Some (c\<lparr>pixels := blank (width c) (height c)\<rparr>)\<rparr>\<rparr>)
      | _ \<Rightarrow> (Inr (), s))"

definition getImageData :: "OverlayCanvas \<Rightarrow> nat list option" where
  "getImageData ov =
     (case (ctx ov, canvas ov) of (Some _, Some c) \<Rightarrow> Some (pixels c) | _ \<Rightarrow> None)"

definition getScale :: "OverlayCanvas \<Rightarrow> real" where
  "getScale ov = scale ov"

text \<open>
  \<open>applyColour\<close> of \<open>traceToPaper\<close>: paths and compound paths take the two colours, any
  other item passes them to its children.
\<close>

fun applyColour :: "string \<Rightarrow> string \<Rightarrow> 'g Item \<Rightarrow> 'g Item" where
  "applyColour primary secondary (Path g _ _) = Path g (Some primary) (Some secondary)"
| "applyColour primary secondary (CompoundPath cs _ _) =
     CompoundPath cs (Some primary) (Some secondary)"
| "applyColour primary secondary (Group cs) = Group (map (applyColour primary secondary) cs)"
| "applyColour primary secondary Leaf = Leaf"

text \<open>\<open>window.globalColors?.primary || "#007acc"\<close> and the same for \<open>secondary\<close>.\<close>

definition primaryColour :: "'g bridge \<Rightarrow> string" where
  "primaryColour s =
     (case globalColors s of
        None \<Rightarrow> ''#007acc''
      | Some (p, _) \<Rightarrow> if p = [] then ''#007acc'' else p)"

definition secondaryColour :: "'g bridge \<Rightarrow> string" where
  "secondaryColour s =
     (case globalColors s of
        None \<Rightarrow> ''#ff6b6b''
      | Some (_, q) \<Rightarrow> if q = [] then ''#ff6b6b'' else q)"

text \<open>
  \<open>traceToPaper\<close> is asynchronous: while it awaits the Tracer, the page goes on running.
  What can happen to the overlay in that time is a list of \<open>activity\<close>: the
  owning tool creates, destroys or clears the overlay or paints on it through the
  context \<open>create\<close> gave it, the host canvas takes a new bounding rectangle, which
  fires \<open>paperCanvasResized\<close>, or the host canvas is taken out of the document.
\<close>

datatype activity =
  DoCreate | DoDestroy | DoClear | DoPaint "nat list \<Rightarrow> nat list" | DoResize DOMRect
| DoRemoveHost

definition paint :: "(nat list \<Rightarrow> nat list) \<Rightarrow> ('g bridge, unit) prog" where
  "paint f s =
     (case (ctx (overlay s), canvas (overlay s)) of
        (Some _, Some c) \<Rightarrow>
          (Inr (), s\<lparr>overlay := (overlay s)\<lparr>canvas := Some (c\<lparr>pixels := f (pixels c)\<rparr>)\<rparr>\<rparr>)
      | _ \<Rightarrow> (Inr (), s))"

definition resized :: "DOMRect \<Rightarrow> ('g bridge, unit) prog" where
  "resized r s =
     (let s1 = s\<lparr>paperCanvas := Some r\<rparr>
      in if resizeListener (overlay s1) then updateSize s1 else (Inr (), s1))"

fun perform :: "activity \<Rightarrow> 'g bridge \<Rightarrow> 'g bridge" where
  "perform DoCreate s = snd (create s)"
| "perform DoDestroy s = snd (destroy s)"
| "perform DoClear s = snd (clear s)"
| "perform (DoPaint f) s = snd (paint f s)"
| "perform (DoResize r) s = snd (resized r s)"
| "perform DoRemoveHost s = s\<lparr>paperCanvas := None\<rparr>"

fun meanwhile :: "activity list \<Rightarrow> 'g bridge \<Rightarrow> 'g bridge" where
  "meanwhile [] s = s"
| "meanwhile (a # as) s = meanwhile as (perform a s)"

text \<open>
  \<open>await window.potrace(canvasEl, options)\<close>: the Tracer is handed the canvas, the
  page runs \<open>during\<close>, and the call resolves to the SVG text or throws.
\<close>

definition awaitPotrace ::
  "activity list \<Rightarrow> (Canvas \<Rightarrow> (string \<times> real) list \<Rightarrow> exn + string) \<Rightarrow> Canvas
     \<Rightarrow> ('g bridge, string) prog" where
  "awaitPotrace during tracer canvasEl s =
     (tracer canvasEl (potraceOptions (overlay s)), meanwhile during s)"

text \<open>
  \<open>paper.project.importSVG(svg)\<close>, then the rescaling and colouring of what it
  returned. The imported item is a child of the project, so the project sees both.
\<close>

definition importTraced :: "string \<Rightarrow> ('g bridge, 'g Item option) prog" where
  "importTraced svg s =
     (case importSVG s svg of
        Inl err \<Rightarrow> (Inl err, s)
      | Inr None \<Rightarrow> (Inr None, s)
      | Inr (Some imported) \<Rightarrow>
          (let scaled = scaleItem s (1 / getScale (overlay s)) imported;
               coloured = applyColour (primaryColour s) (secondaryColour s) scaled
           in (Inr (Some coloured), s\<lparr>project := project s @ [coloured]\<rparr>)))"

text \<open>The \<open>try\<close> block of \<open>traceToPaper\<close>.\<close>

definition tracing :: "activity list \<Rightarrow> ('g bridge, 'g Item option) prog" where
  "tracing during s =
     (case getCanvas (overlay s) of
        None \<Rightarrow> seq (say (ConsoleWarn ''OverlayCanvas: No canvas to trace'')) (ret None) s
      | Some canvasEl \<Rightarrow>
          (case potrace s of
             None \<Rightarrow>
               seq (say (ConsoleError ''OverlayCanvas: Potrace is not initialised'' None))
                 (ret None) s
           | Some tracer \<Rightarrow>
               and_then (awaitPotrace during tracer canvasEl) importTraced s))"

text \<open>The \<open>try\<close> block with its \<open>catch\<close> clause.\<close>

definition guardedTracing :: "activity list \<Rightarrow> ('g bridge, 'g Item option) prog" where
  "guardedTracing during =
     try_catch (tracing during)
       (\<lambda>err. seq (say (ConsoleError ''OverlayCanvas: Potrace vectorisation failed'' (Some err)))
                (ret None))"

definition traceToPaper :: "activity list \<Rightarrow> ('g bridge, 'g Item option) prog" where
  "traceToPaper during = try_finally (guardedTracing during) clear"

section \<open>Observations used in the statements\<close>

text \<open>
  The hook a dispatch of the given type selects on a tool, applied to the event, and the
  \<open>hook\<close> it is recorded under.
\<close>

definition pointerHook :: "'w Tool \<Rightarrow> string \<Rightarrow> PointerData \<Rightarrow> 'w script option" where
  "pointerHook t type e =
     (if type = ''pointerdown'' then map_option (\<lambda>f. f e) (onPointerDown t)
      else if type = ''pointermove'' then map_option (\<lambda>f. f e) (onPointerMove t)
      else if type = ''pointerup'' then map_option (\<lambda>f. f e) (onPointerUp t)
      else None)"

definition pointerKind :: "string \<Rightarrow> hook" where
  "pointerKind type =
     (if type = ''pointerdown'' then OnPointerDown
      else if type = ''pointermove'' then OnPointerMove else OnPointerUp)"

definition keyHook :: "'w Tool \<Rightarrow> string \<Rightarrow> KeyData \<Rightarrow> 'w script option" where
  "keyHook t type e =
     (if type = ''keydown'' then map_option (\<lambda>f. f e) (onKeyDown t)
      else if type = ''keyup'' then map_option (\<lambda>f. f e) (onKeyUp t)
      else None)"

definition keyKind :: "string \<Rightarrow> hook" where
  "keyKind type = (if type = ''keydown'' then OnKeyDown else OnKeyUp)"

text \<open>
  The state in which a hook of the tool \<open>t\<close> starts to run: its call is the last entry of
  the trace. The call of an optional hook, and that call under the \<open>try\<close> of \<open>activate\<close>,
  whose \<open>catch\<close> reports \<open>console.error(msg, err)\<close>. The first step of \<open>activate\<close> for a
  registered name: the guarded call of the deactivation hook of the tool that is active,
  if any.
\<close>

definition invoked :: "hook \<Rightarrow> 'w Tool \<Rightarrow> 'w page \<Rightarrow> 'w page" where
  "invoked h t s = s\<lparr>trace := trace s @ [Invoke h (name t)]\<rparr>"

definition hookCall ::
  "(api \<Rightarrow> ('w page, unit) prog) \<Rightarrow> hook \<Rightarrow> 'w Tool \<Rightarrow> 'w script option
     \<Rightarrow> ('w page, unit) prog" where
  "hookCall re h t ko = (case ko of None \<Rightarrow> ret () | Some k \<Rightarrow> call re h t k)"

definition guardedHook ::
  "(api \<Rightarrow> ('w page, unit) prog) \<Rightarrow> hook \<Rightarrow> 'w Tool \<Rightarrow> 'w script option \<Rightarrow> string
     \<Rightarrow> ('w page, unit) prog" where
  "guardedHook re h t ko msg =
     try_catch (hookCall re h t ko) (\<lambda>err. emit (ConsoleError msg (Some err)))"

definition deactivation :: "nat \<Rightarrow> ('w page, unit) prog" where
  "deactivation d s =
     (case activeTool (toolSystem s) of
        None \<Rightarrow> ret () s
      | Some cur \<Rightarrow>
          guardedHook (serve d) OnDeactivate cur (onDeactivate cur) ''Tool onDeactivate error'' s)"

text \<open>
  A hook that makes no call of the ToolSystem, and one that leaves the session manager
  alone; an absent hook does neither. The deactivation hook of the tool that is active,
  if any.
\<close>

primrec noCalls :: "'w script \<Rightarrow> bool" where
  "noCalls Return = True"
| "noCalls (Throw x) = True"
| "noCalls (Act f k) = noCalls k"
| "noCalls (Touch g k) = noCalls k"
| "noCalls (Test p k1 k2) = (noCalls k1 \<and> noCalls k2)"
| "noCalls (Call a k) = False"
| "noCalls (Try b h k) = (noCalls b \<and> noCalls h \<and> noCalls k)"

primrec noTouch :: "'w script \<Rightarrow> bool" where
  "noTouch Return = True"
| "noTouch (Throw x) = True"
| "noTouch (Act f k) = noTouch k"
| "noTouch (Touch g k) = False"
| "noTouch (Test p k1 k2) = (noTouch k1 \<and> noTouch k2)"
| "noTouch (Call a k) = noTouch k"
| "noTouch (Try b h k) = (noTouch b \<and> noTouch h \<and> noTouch k)"

definition callFree :: "'w script option \<Rightarrow> bool" where
  "callFree ko = (case ko of None \<Rightarrow> True | Some k \<Rightarrow> noCalls k)"

definition touchFree :: "'w script option \<Rightarrow> bool" where
  "touchFree ko = (case ko of None \<Rightarrow> True | Some k \<Rightarrow> noTouch k)"

text \<open>
  What a hook without calls of the ToolSystem does, as a function of what it reads and
  acts on: the active tool's name, which it cannot change, the session manager and the
  outside state. (At a call, which such a hook does not have, this goes on with what
  follows the call.) The same for an optional hook; the page after an optional
  hook without calls has run on it, and how the hook ended.
\<close>

primrec locally ::
  "'w script \<Rightarrow> jsval \<Rightarrow> (PointerSessionManager \<times> 'w, unit) prog" where
  "locally Return an = ret ()"
| "locally (Throw x) an = throw x"
| "locally (Act f k) an =
     (\<lambda>mw. locally k an (fst mw, f \<lparr>activeName = an, liveSessions = fst mw\<rparr> (snd mw)))"
| "locally (Touch g k) an = (\<lambda>mw. locally k an (g (fst mw), snd mw))"
| "locally (Test p k1 k2) an =
     (\<lambda>mw. if p \<lparr>activeName = an, liveSessions = fst mw\<rparr> (snd mw)
           then locally k1 an mw else locally k2 an mw)"
| "locally (Call a k) an = locally k an"
| "locally (Try b h k) an =
     seq (try_catch (locally b an) (\<lambda>err. locally h an)) (locally k an)"

definition hookLocally ::
  "'w script option \<Rightarrow> jsval \<Rightarrow> (PointerSessionManager \<times> 'w, unit) prog" where
  "hookLocally ko an = (case ko of None \<Rightarrow> ret () | Some k \<Rightarrow> locally k an)"

definition afterHook :: "'w script option \<Rightarrow> 'w page \<Rightarrow> 'w page" where
  "afterHook ko s =
     s\<lparr>sessionManager :=
         fst (snd (hookLocally ko (getActiveToolName s) (sessionManager s, world s))),
       world := snd (snd (hookLocally ko (getActiveToolName s) (sessionManager s, world s)))\<rparr>"

definition outcomeOf :: "'w script option \<Rightarrow> 'w page \<Rightarrow> exn + unit" where
  "outcomeOf ko s = fst (hookLocally ko (getActiveToolName s) (sessionManager s, world s))"

text \<open>
  What the guarded call of an optional hook that ended with \<open>r\<close> and made no calls adds
  to the trace: the call itself and, when the hook threw, the report
  \<open>console.error(msg, err)\<close>.
\<close>

definition hookEvents ::
  "hook \<Rightarrow> jsval \<Rightarrow> 'w script option \<Rightarrow> string \<Rightarrow> exn + unit \<Rightarrow> event list" where
  "hookEvents h nm ko msg r =
     (case ko of
        None \<Rightarrow> []
      | Some _ \<Rightarrow> Invoke h nm # (case r of Inl x \<Rightarrow> [ConsoleError msg (Some x)] | Inr _ \<Rightarrow> []))"

definition deactivationHook :: "'w page \<Rightarrow> 'w script option" where
  "deactivationHook s =
     (case activeTool (toolSystem s) of None \<Rightarrow> None | Some cur \<Rightarrow> onDeactivate cur)"

text \<open>
  The page with the active slot set; the hook calls of a trace, in order; the calls an
  optional hook adds to them; whether a tool's \<open>name\<close> is a non-empty string; and the page
  with another registry.
\<close>

definition setActive :: "'w Tool \<Rightarrow> 'w page \<Rightarrow> 'w page" where
  "setActive next s = s\<lparr>toolSystem := (toolSystem s)\<lparr>activeTool := Some next\<rparr>\<rparr>"

fun hookCalls :: "event list \<Rightarrow> (hook \<times> jsval) list" where
  "hookCalls [] = []"
| "hookCalls (Invoke h nm # evs) = (h, nm) # hookCalls evs"
| "hookCalls (_ # evs) = hookCalls evs"

definition oneCall :: "hook \<Rightarrow> jsval \<Rightarrow> 'w script option \<Rightarrow> (hook \<times> jsval) list" where
  "oneCall h nm ko = (case ko of None \<Rightarrow> [] | Some _ \<Rightarrow> [(h, nm)])"

fun nonEmptyString :: "jsval \<Rightarrow> bool" where
  "nonEmptyString (JStr n) = (n \<noteq> [])"
| "nonEmptyString _ = False"

definition withTools :: "(string \<rightharpoonup> 'w Tool) \<Rightarrow> 'w page \<Rightarrow> 'w page" where
  "withTools T s = s\<lparr>toolSystem := (toolSystem s)\<lparr>tools := T\<rparr>\<rparr>"

text \<open>
  What no method of the ToolSystem and no hook changes between a state and a later one:
  what the router reads of the window, the table of tool objects, the number of
  project-changed notifications in the trace, the part of the trace that was there, and
  that a tool is active.
\<close>

definition steady :: "'w page \<Rightarrow> 'w page \<Rightarrow> bool" where
  "steady s s' =
     (paperManager s' = paperManager s \<and>
      canvasOrigin s' = canvasOrigin s \<and>
      viewToProject s' = viewToProject s \<and>
      toolObjects s' = toolObjects s \<and>
      count_list (trace s') ProjectChanged = count_list (trace s) ProjectChanged \<and>
      take (length (trace s)) (trace s') = trace s \<and>
      length (trace s) \<le> length (trace s') \<and>
      (activeTool (toolSystem s) \<noteq> None \<longrightarrow> activeTool (toolSystem s') \<noteq> None))"

definition keeps :: "('w page, 'a) prog \<Rightarrow> bool" where
  "keeps m = (\<forall>s. steady s (snd (m s)))"

text \<open>
  The steps of \<open>routePointer\<close> for an event that is not ignored, up to and including the
  dispatch to the tool.
\<close>

definition upToDispatch :: "nat \<Rightarrow> RawPointerEvent \<Rightarrow> ('w page, unit) prog" where
  "upToDispatch d ev =
     seq (emit PreventDefault)
      (seq (if etype ev = ''pointerdown'' then capturePointer ev else ret ())
        (\<lambda>s1.
           (let data = makePointerData s1 ev;
                type = normalisedType ev
            in seq (trackSession type data) (dispatchPointer d type data) s1)))"

text \<open>
  A canvas with its bitmap erased: the same element, of the same size, every byte 0;
  and the state in which that has been done to the overlay's canvas, if it has one.
  The states the overlay class can be in: a canvas for which no 2D context could be had
  has never been drawn on.
\<close>

definition erased :: "Canvas \<Rightarrow> Canvas" where
  "erased c = c\<lparr>pixels := replicate (4 * width c * height c) 0\<rparr>"

definition wiped :: "'g bridge \<Rightarrow> 'g bridge" where
  "wiped s = s\<lparr>overlay := (overlay s)\<lparr>canvas := map_option erased (canvas (overlay s))\<rparr>\<rparr>"

definition overlayInv :: "'g bridge \<Rightarrow> bool" where
  "overlayInv s =
     (case canvas (overlay s) of
        None \<Rightarrow> True
      | Some c \<Rightarrow> ctx (overlay s) \<noteq> None \<or> pixels c = blank (width c) (height c))"

text \<open>
  The state in which the \<open>finally\<close> clause of \<open>traceToPaper\<close> finds the overlay: the one
  the page has reached during the wait for the Tracer, if the Tracer was called, and
  the one of the call otherwise. The item \<open>traceToPaper\<close> makes of an imported one.
\<close>

definition beforeClear :: "activity list \<Rightarrow> 'g bridge \<Rightarrow> 'g bridge" where
  "beforeClear during s =
     (if canvas (overlay s) \<noteq> None \<and> potrace s \<noteq> None then meanwhile during s else s)"

definition traced :: "'g bridge \<Rightarrow> 'g Item \<Rightarrow> 'g Item" where
  "traced s imported =
     applyColour (primaryColour s) (secondaryColour s)
       (scaleItem s (1 / getScale (overlay s)) imported)"

text \<open>Whether a call returned (rather than threw).\<close>

fun returned :: "exn + 'a \<Rightarrow> bool" where
  "returned (Inr _) = True"
| "returned (Inl _) = False"

text \<open>
  Calls on the session tracker as data, to speak of the calls made for other pointers
  between those for one pointer: \<open>interleaved\<close> delivers, for each step, some calls and
  then one move event.
\<close>

datatype tracker_call = Start PointerData | Move PointerData | End PointerData

fun subject :: "tracker_call \<Rightarrow> int" where
  "subject (Start e) = pointerId e"
| "subject (Move e) = pointerId e"
| "subject (End e) = pointerId e"

fun deliver :: "tracker_call \<Rightarrow> PointerSessionManager \<Rightarrow> PointerSessionManager" where
  "deliver (Start e) m = start e m"
| "deliver (Move e) m = move e m"
| "deliver (End e) m = snd (end_session e m)"

fun deliverAll :: "tracker_call list \<Rightarrow> PointerSessionManager \<Rightarrow> PointerSessionManager" where
  "deliverAll [] m = m"
| "deliverAll (c # cs) m = deliverAll cs (deliver c m)"

fun interleaved ::
  "(tracker_call list \<times> PointerData) list \<Rightarrow> PointerSessionManager \<Rightarrow> PointerSessionManager" where
  "interleaved [] m = m"
| "interleaved ((cs, e) # steps) m = interleaved steps (move e (deliverAll cs m))"

section \<open>Sample inputs\<close>

definition rawPen :: "string \<Rightarrow> real \<Rightarrow> RawPointerEvent" where
  "rawPen ty x =
     \<lparr>etype = ty,
      target = Some \<lparr>closest_draggable = False, closest_outline_panel = False,
                     has_setPointerCapture = True\<rparr>,
      clientX = x, clientY = 40, ev_pressure = Some (3 / 4), ev_buttons = 1,
      ev_pointerId = 7, ev_pointerType = ''pen'', ev_tiltX = 0, ev_tiltY = 0\<rparr>"

definition penAt :: "string \<Rightarrow> real \<Rightarrow> PointerData" where
  "penAt ty x =
     \<lparr>point = (x, 40), pressure = 3 / 4, buttons = 1, pointerId = 7, pointerType = ''pen'',
      tiltX = 0, tiltY = 0, native = rawPen ty x\<rparr>"

definition noSessions :: PointerSessionManager where
  "noSessions = \<lparr>sessions = Map.empty\<rparr>"

text \<open>
  Sample tools act on a log of lines. A logging hook appends its tag and the active
  tool's name as it reads it; a failing hook appends its tag and throws; a switching
  hook appends its tag, calls \<open>toolSystem.activate\<close> with a name, and throws.
\<close>

definition logging :: "string \<Rightarrow> string list script" where
  "logging tag = Act (\<lambda>snap w. w @ [tag @ '' while '' @ to_string (activeName snap)]) Return"

definition failing :: "string \<Rightarrow> string list script" where
  "failing tag = Act (\<lambda>snap w. w @ [tag]) (Throw (Error tag))"

definition switching :: "string \<Rightarrow> string \<Rightarrow> string list script" where
  "switching tag nm = Act (\<lambda>snap w. w @ [tag]) (Call (Activate nm) (Throw (Error tag)))"

definition pointerLogging :: "string \<Rightarrow> PointerData \<Rightarrow> string list script" where
  "pointerLogging tag e = logging tag"

definition pointerFailing :: "string \<Rightarrow> PointerData \<Rightarrow> string list script" where
  "pointerFailing tag e = failing tag"

definition keyLogging :: "string \<Rightarrow> KeyData \<Rightarrow> string list script" where
  "keyLogging tag e = logging tag"

definition keyFailing :: "string \<Rightarrow> KeyData \<Rightarrow> string list script" where
  "keyFailing tag e = failing tag"

definition brush :: "string list Tool" where
  "brush =
     \<lparr>name = JStr ''Brush'',
      onPointerDown = Some (pointerLogging ''Brush.down''),
      onPointerMove = Some (pointerLogging ''Brush.move''),
      onPointerUp = Some (pointerLogging ''Brush.up''),
      onKeyDown = Some (keyLogging ''Brush.keydown''),
      onKeyUp = None,
      onActivate = Some (logging ''Brush.activate''),
      onDeactivate = Some (logging ''Brush.deactivate''),
      onColorChange = None\<rparr>"

definition brush2 :: "string list Tool" where
  "brush2 =
     \<lparr>name = JStr ''Brush'',
      onPointerDown = Some (pointerLogging ''Brush2.down''),
      onPointerMove = None,
      onPointerUp = None,
      onKeyDown = None,
      onKeyUp = None,
      onActivate = Some (logging ''Brush2.activate''),
      onDeactivate = Some (logging ''Brush2.deactivate''),
      onColorChange = None\<rparr>"

definition faulty :: "string list Tool" where
  "faulty =
     \<lparr>name = JStr ''Faulty'',
      onPointerDown = Some (pointerFailing ''Faulty.down''),
      onPointerMove = None,
      onPointerUp = None,
      onKeyDown = Some (keyFailing ''Faulty.keydown''),
      onKeyUp = None,
      onActivate = Some (failing ''Faulty.activate''),
      onDeactivate = Some (failing ''Faulty.deactivate''),
      onColorChange = None\<rparr>"

definition unnamed :: "string list Tool" where
  "unnamed = brush\<lparr>name := JStr []\<rparr>"

text \<open>
  A tool whose hooks activate the tool \<open>Brush\<close> and then throw, and a third tool named
  \<open>Brush\<close> whose activation hook activates the tool \<open>Faulty\<close>.
\<close>

definition relay :: "string list Tool" where
  "relay =
     \<lparr>name = JStr ''Relay'',
      onPointerDown = Some (\<lambda>e. switching ''Relay.down'' ''Brush''),
      onPointerMove = None,
      onPointerUp = None,
      onKeyDown = Some (\<lambda>e. switching ''Relay.keydown'' ''Brush''),
      onKeyUp = None,
      onActivate = Some (switching ''Relay.activate'' ''Brush''),
      onDeactivate = None,
      onColorChange = None\<rparr>"

definition brush3 :: "string list Tool" where
  "brush3 =
     \<lparr>name = JStr ''Brush'',
      onPointerDown = None,
      onPointerMove = None,
      onPointerUp = None,
      onKeyDown = None,
      onKeyUp = None,
      onActivate = Some (Call (Activate ''Faulty'') Return),
      onDeactivate = Some (logging ''Brush3.deactivate''),
      onColorChange = None\<rparr>"

definition keyA :: KeyData where
  "keyA =
     \<lparr>key = ''a'', code = ''KeyA'', ctrl = False, shift = False, alt = False, meta = False,
      key_native = \<lparr>ev_key = ''a'', ev_code = ''KeyA'', ctrlKey = False, shiftKey = False,
                    altKey = False, metaKey = False\<rparr>\<rparr>"

definition idlePage :: "string list page" where
  "idlePage =
     \<lparr>toolSystem =
        \<lparr>tools = [''Brush'' \<mapsto> brush, ''Faulty'' \<mapsto> faulty, ''Relay'' \<mapsto> relay],
         activeTool = None\<rparr>,
      sessionManager = noSessions,
      world = [],
      toolObjects = (\<lambda>i. brush2),
      trace = [],
      canvasOrigin = (0, 0),
      viewToProject = None,
      paperManager = True\<rparr>"

definition brushPage :: "string list page" where
  "brushPage = setActive brush idlePage"

definition faultyPage :: "string list page" where
  "faultyPage = setActive faulty idlePage"

definition relayPage :: "string list page" where
  "relayPage = setActive relay idlePage"

text \<open>An event without a pressure reading.\<close>

definition rawNoPressure :: RawPointerEvent where
  "rawNoPressure = (rawPen ''pointerdown'' 0)\<lparr>ev_pressure := None\<rparr>"

text \<open>
  A two-by-one overlay with one painted pixel over an eight-by-four host canvas, with a
  Tracer that resolves, one that rejects, and none; an overlay that was never created
  because the host canvas is missing; and the painted overlay after the host canvas
  has been taken out of the document.
\<close>

definition okTracer :: "Canvas \<Rightarrow> (string \<times> real) list \<Rightarrow> exn + string" where
  "okTracer c opts = Inr ''<svg/>''"

definition badTracer :: "Canvas \<Rightarrow> (string \<times> real) list \<Rightarrow> exn + string" where
  "badTracer c opts = Inl (Error ''potrace failed'')"

definition importsPath :: "string \<Rightarrow> exn + unit Item option" where
  "importsPath svg = Inr (Some (Path () None None))"

definition keepItem :: "real \<Rightarrow> unit Item \<Rightarrow> unit Item" where
  "keepItem k it = it"

definition paintedCanvas :: Canvas where
  "paintedCanvas =
     \<lparr>style_box = Some \<lparr>rleft = 0, rtop = 0, rwidth = 8, rheight = 4\<rparr>,
      width = 2, height = 1, pixels = [255, 0, 0, 255, 0, 0, 0, 0]\<rparr>"

definition paintedBridge :: "unit bridge" where
  "paintedBridge =
     \<lparr>overlay =
        \<lparr>canvas = Some paintedCanvas,
         ctx = Some \<lparr>imageSmoothingEnabled = False\<rparr>,
         resizeListener = True,
         scale = 1 / 4,
         potraceOptions = [(''turdsize'', 2)]\<rparr>,
      paperCanvas = Some \<lparr>rleft = 0, rtop = 0, rwidth = 8, rheight = 4\<rparr>,
      context2d = True,
      bodyOverlays = 1,
      resizeHandlers = 1,
      console = [],
      potrace = Some okTracer,
      importSVG = importsPath,
      scaleItem = keepItem,
      project = [],
      globalColors = None\<rparr>"

definition rejectingBridge :: "unit bridge" where
  "rejectingBridge = paintedBridge\<lparr>potrace := Some badTracer\<rparr>"

definition untracedBridge :: "unit bridge" where
  "untracedBridge = paintedBridge\<lparr>potrace := None\<rparr>"

definition hostlessBridge :: "unit bridge" where
  "hostlessBridge =
     paintedBridge
       \<lparr>overlay := (overlay paintedBridge)\<lparr>canvas := None, ctx := None, resizeListener := False\<rparr>,
        paperCanvas := None, bodyOverlays := 0, resizeHandlers := 0\<rparr>"

definition orphanBridge :: "unit bridge" where
  "orphanBridge = paintedBridge\<lparr>paperCanvas := None\<rparr>"

definition scribble :: "nat list \<Rightarrow> nat list" where
  "scribble px = map (\<lambda>b. 255) px"


section \<open>The pointer session tracker\<close>

lemma moves_same_pointer:
  "sessions m p = Some arr \<Longrightarrow> list_all (\<lambda>e. pointerId e = p) es \<Longrightarrow>
     moves es m = m\<lparr>sessions := (sessions m)(p \<mapsto> arr @ es)\<rparr>"
proof (induction es arbitrary: m arr)
  case Nil
  then show ?case by (simp add: map_upd_triv)
next
  case (Cons e es)
  have "sessions (move e m) p = Some (arr @ [e])"
    using Cons.prems by (simp add: move_def)
  moreover have "list_all (\<lambda>e. pointerId e = p) es"
    using Cons.prems by simp
  ultimately have "moves es (move e m) =
      (move e m)\<lparr>sessions := (sessions (move e m))(p \<mapsto> (arr @ [e]) @ es)\<rparr>"
    by (rule Cons.IH)
  with Cons.prems show ?case
    by (auto simp: move_def fun_eq_iff)
qed

text \<open>
  C2. Whatever the tracker held before, after \<open>start(e0)\<close>, the moves \<open>es\<close> in order and
  \<open>end(en)\<close>, all for the pointer \<open>p\<close>, \<open>end\<close> returns \<open>e0\<close>, the moves and \<open>en\<close> in
  that order, the tracker is the one before \<open>start\<close> without an entry for \<open>p\<close>, and
  \<open>get(p)\<close> is absent. \<open>end\<close> for a pointer with no session returns absent and leaves the
  tracker as it was.
\<close>

theorem session_returned_in_order:
  "(pointerId e0 = p \<and> list_all (\<lambda>e. pointerId e = p) es \<and> pointerId en = p \<longrightarrow>
      end_session en (moves es (start e0 m)) =
        (Some (e0 # es @ [en]), m\<lparr>sessions := (sessions m)(p := None)\<rparr>) \<and>
      get p (snd (end_session en (moves es (start e0 m)))) = None) \<and>
   (get (pointerId e) m = None \<longrightarrow> end_session e m = (None, m))"
proof (intro conjI impI)
  assume h: "pointerId e0 = p \<and> list_all (\<lambda>e. pointerId e = p) es \<and> pointerId en = p"
  have s0: "sessions (start e0 m) p = Some [e0]"
    using h by (simp add: start_def)
  have mv: "moves es (start e0 m) =
      (start e0 m)\<lparr>sessions := (sessions (start e0 m))(p \<mapsto> [e0] @ es)\<rparr>"
    using moves_same_pointer[OF s0] h by blast
  show "end_session en (moves es (start e0 m)) =
        (Some (e0 # es @ [en]), m\<lparr>sessions := (sessions m)(p := None)\<rparr>)"
    unfolding mv using h by (auto simp: end_session_def start_def fun_eq_iff)
  then show "get p (snd (end_session en (moves es (start e0 m)))) = None"
    by (simp add: get_def)
next
  assume "get (pointerId e) m = None"
  then show "end_session e m = (None, m)"
    by (simp add: end_session_def get_def)
qed

theorem session_returned_in_order_witness:
  "(pointerId (penAt ''pointerdown'' 0) = 7 \<and>
    list_all (\<lambda>e. pointerId e = 7) [penAt ''pointermove'' 1, penAt ''pointermove'' 2] \<and>
    pointerId (penAt ''pointerup'' 3) = 7) \<and>
   end_session (penAt ''pointerup'' 3)
      (moves [penAt ''pointermove'' 1, penAt ''pointermove'' 2]
         (start (penAt ''pointerdown'' 0) noSessions)) =
     (Some [penAt ''pointerdown'' 0, penAt ''pointermove'' 1, penAt ''pointermove'' 2,
            penAt ''pointerup'' 3],
      noSessions\<lparr>sessions := (sessions noSessions)(7 := None)\<rparr>) \<and>
   get 7 (snd (end_session (penAt ''pointerup'' 3)
      (moves [penAt ''pointermove'' 1, penAt ''pointermove'' 2]
         (start (penAt ''pointerdown'' 0) noSessions)))) = None \<and>
   get (pointerId (penAt ''pointerup'' 3)) noSessions = None \<and>
   end_session (penAt ''pointerup'' 3) noSessions = (None, noSessions)"
proof -
  have h1: "pointerId (penAt ''pointerdown'' 0) = 7 \<and>
    list_all (\<lambda>e. pointerId e = 7) [penAt ''pointermove'' 1, penAt ''pointermove'' 2] \<and>
    pointerId (penAt ''pointerup'' 3) = 7"
    by (simp add: penAt_def)
  have h2: "get (pointerId (penAt ''pointerup'' 3)) noSessions = None"
    by (simp add: get_def noSessions_def)
  note t = session_returned_in_order[of "penAt ''pointerdown'' 0" 7
        "[penAt ''pointermove'' 1, penAt ''pointermove'' 2]" "penAt ''pointerup'' 3"
        noSessions "penAt ''pointerup'' 3"]
  show ?thesis
    using t h1 h2 unfolding append_Cons append_Nil by blast
qed

text \<open>
  The same with the calls for other pointers in between: they leave the session of \<open>p\<close>
  alone, so \<open>end\<close> still returns the events of \<open>p\<close> in order.
\<close>

lemma deliver_other_pointer:
  "subject c \<noteq> p \<Longrightarrow> sessions (deliver c m) p = sessions m p"
  by (cases c) (auto simp: start_def move_def end_session_def split: option.splits)

lemma deliverAll_other_pointers:
  "list_all (\<lambda>c. subject c \<noteq> p) cs \<Longrightarrow> sessions (deliverAll cs m) p = sessions m p"
  by (induction cs arbitrary: m) (simp_all add: deliver_other_pointer)

lemma interleaved_session:
  "sessions m p = Some arr \<Longrightarrow>
   list_all (\<lambda>(cs, e). pointerId e = p \<and> list_all (\<lambda>c. subject c \<noteq> p) cs) steps \<Longrightarrow>
     sessions (interleaved steps m) p = Some (arr @ map snd steps)"
proof (induction steps arbitrary: m arr)
  case Nil
  then show ?case by simp
next
  case (Cons st steps)
  obtain cs e where st: "st = (cs, e)"
    by (cases st)
  have own: "pointerId e = p" and foreign: "list_all (\<lambda>c. subject c \<noteq> p) cs"
    and rest: "list_all (\<lambda>(cs, e). pointerId e = p \<and> list_all (\<lambda>c. subject c \<noteq> p) cs) steps"
    using Cons.prems(2) st by simp_all
  have "sessions (deliverAll cs m) p = Some arr"
    using deliverAll_other_pointers[OF foreign] Cons.prems(1) by simp
  then have "sessions (move e (deliverAll cs m)) p = Some (arr @ [e])"
    using own by (simp add: move_def)
  from Cons.IH[OF this rest] show ?case
    by (simp add: st)
qed

lemma session_in_order_among_other_pointers:
  assumes "pointerId e0 = p" and "pointerId en = p"
    and "list_all (\<lambda>(cs, e). pointerId e = p \<and> list_all (\<lambda>c. subject c \<noteq> p) cs) steps"
    and "list_all (\<lambda>c. subject c \<noteq> p) last_calls"
  shows "fst (end_session en (deliverAll last_calls (interleaved steps (start e0 m)))) =
           Some (e0 # map snd steps @ [en])"
    and "get p (snd (end_session en (deliverAll last_calls (interleaved steps (start e0 m))))) = None"
proof -
  have "sessions (start e0 m) p = Some [e0]"
    using assms(1) by (simp add: start_def)
  from interleaved_session[OF this assms(3)]
  have "sessions (deliverAll last_calls (interleaved steps (start e0 m))) p =
      Some (e0 # map snd steps)"
    using deliverAll_other_pointers[OF assms(4)] by simp
  then show "fst (end_session en (deliverAll last_calls (interleaved steps (start e0 m)))) =
           Some (e0 # map snd steps @ [en])"
    and "get p (snd (end_session en (deliverAll last_calls (interleaved steps (start e0 m))))) = None"
    using assms(2) by (simp_all add: end_session_def get_def)
qed

section \<open>The tool host\<close>

subsection \<open>What every hook leaves as it is\<close>

lemma snapshotOf_trace [simp]: "snapshotOf (s\<lparr>trace := tr\<rparr>) = snapshotOf s"
  by (simp add: snapshotOf_def getActiveToolName_def)

lemma snapshotOf_world [simp]: "snapshotOf (s\<lparr>world := w\<rparr>) = snapshotOf s"
  by (simp add: snapshotOf_def getActiveToolName_def)

lemma snapshotOf_withTools [simp]: "snapshotOf (withTools T s) = snapshotOf s"
  by (simp add: snapshotOf_def getActiveToolName_def withTools_def)

lemma steady_refl [simp]: "steady s s"
  by (simp add: steady_def)

lemma steady_trans:
  assumes "steady s s1" and "steady s1 s2"
  shows "steady s s2"
proof -
  have l1: "length (trace s) \<le> length (trace s1)" and l2: "length (trace s1) \<le> length (trace s2)"
    and t1: "take (length (trace s)) (trace s1) = trace s"
    and t2: "take (length (trace s1)) (trace s2) = trace s1"
    using assms by (simp_all add: steady_def)
  have "take (length (trace s)) (trace s2) =
      take (length (trace s)) (take (length (trace s1)) (trace s2))"
    using l1 by (simp add: min_absorb1)
  then have "take (length (trace s)) (trace s2) = trace s"
    by (simp add: t1 t2)
  then show ?thesis
    using assms l1 l2 by (auto simp: steady_def)
qed

lemma steady_world [simp]: "steady s (s\<lparr>world := w\<rparr>)"
  by (simp add: steady_def)

lemma steady_sessions [simp]: "steady s (s\<lparr>sessionManager := m\<rparr>)"
  by (simp add: steady_def)

lemma steady_emit: "ev \<noteq> ProjectChanged \<Longrightarrow> steady s (s\<lparr>trace := trace s @ [ev]\<rparr>)"
  by (simp add: steady_def)

lemma keeps_ret [simp]: "keeps (ret v)"
  by (simp add: keeps_def ret_def)

lemma keeps_throw [simp]: "keeps (throw x)"
  by (simp add: keeps_def throw_def)

lemma keeps_emit: "ev \<noteq> ProjectChanged \<Longrightarrow> keeps (emit ev)"
  by (simp add: keeps_def emit_def steady_emit)

lemma keeps_seq:
  assumes "keeps m" and "keeps n"
  shows "keeps (seq m n)"
proof -
  have "steady s (snd (seq m n s))" for s
  proof (cases "m s")
    case (Pair r s1)
    have a: "steady s s1"
      using assms(1) Pair by (auto simp: keeps_def dest: spec[where x=s])
    have b: "steady s1 (snd (n s1))"
      using assms(2) by (simp add: keeps_def)
    show ?thesis
      using a steady_trans[OF a b] Pair
      by (cases r) (simp_all add: seq_def and_then_def)
  qed
  then show ?thesis
    by (simp add: keeps_def)
qed

lemma keeps_try_catch:
  assumes "keeps m" and "\<And>x. keeps (h x)"
  shows "keeps (try_catch m h)"
proof -
  have "steady s (snd (try_catch m h s))" for s
  proof (cases "m s")
    case (Pair r s1)
    have a: "steady s s1"
      using assms(1) Pair by (auto simp: keeps_def dest: spec[where x=s])
    have b: "steady s1 (snd (h x s1))" for x
      using assms(2)[of x] by (simp add: keeps_def)
    show ?thesis
      using a steady_trans[OF a b] Pair
      by (cases r) (simp_all add: try_catch_def)
  qed
  then show ?thesis
    by (simp add: keeps_def)
qed

lemma keeps_step:
  assumes "keeps m" and "\<And>s. steady s (f s)"
  shows "keeps (\<lambda>s. m (f s))"
  using assms steady_trans by (fastforce simp: keeps_def)

lemma keeps_run:
  assumes "\<And>a. keeps (re a)"
  shows "keeps (run re k)"
proof (induction k)
  case (Act f k)
  then show ?case
    using keeps_step[of "run re k" "\<lambda>s. s\<lparr>world := f (snapshotOf s) (world s)\<rparr>"] by simp
next
  case (Touch g k)
  then show ?case
    using keeps_step[of "run re k" "\<lambda>s. s\<lparr>sessionManager := g (sessionManager s)\<rparr>"] by simp
next
  case (Test p k1 k2)
  then show ?case
    by (simp add: keeps_def)
next
  case (Call a k)
  then show ?case
    by (simp add: keeps_seq assms)
next
  case (Try b h k)
  then show ?case
    by (simp add: keeps_seq keeps_try_catch)
qed simp_all

lemma keeps_call:
  "(\<And>a. keeps (re a)) \<Longrightarrow> keeps (call re h t k)"
  by (simp add: call_def keeps_seq keeps_emit keeps_run)

lemma keeps_call_opt:
  "(\<And>a. keeps (re a)) \<Longrightarrow> keeps (call_opt re h t fo e)"
  by (cases fo) (simp_all add: call_opt_def keeps_call)

lemma keeps_hookCall:
  "(\<And>a. keeps (re a)) \<Longrightarrow> keeps (hookCall re h t ko)"
  by (cases ko) (simp_all add: hookCall_def keeps_call)

lemma keeps_guardedHook:
  "(\<And>a. keeps (re a)) \<Longrightarrow> keeps (guardedHook re h t ko msg)"
  by (simp add: guardedHook_def keeps_try_catch keeps_hookCall keeps_emit)

lemma keeps_report: "keeps (reportHandlerError kind err)"
  by (auto simp: keeps_def reportHandlerError_def throw_def emit_def steady_emit
      split: option.splits)

lemma keeps_register: "keeps (register tool)"
  by (auto simp: keeps_def register_def throw_def ret_def steady_def
      split: option.splits jsval.splits)

lemma steady_setActive: "steady s (s\<lparr>toolSystem := (toolSystem s)\<lparr>activeTool := Some nx\<rparr>\<rparr>)"
  by (simp add: steady_def)

lemma keeps_activateWith:
  assumes "\<And>a. keeps (re a)"
  shows "keeps (activateWith re nm)"
proof -
  have g: "keeps (try_catch (call re h t k) (\<lambda>err. emit (ConsoleError msg (Some err))))"
    for h t k msg
    by (simp add: keeps_try_catch keeps_call assms keeps_emit)
  have slot: "keeps (\<lambda>s'. ret () (s'\<lparr>toolSystem := (toolSystem s')\<lparr>activeTool := Some nx\<rparr>\<rparr>))"
    for nx :: "'a Tool"
    by (simp add: keeps_def ret_def steady_setActive)
  have "steady s (snd (activateWith re nm s))" for s
  proof (cases "tools (toolSystem s) nm")
    case None
    then show ?thesis
      by (simp add: activateWith_def emit_def steady_emit)
  next
    case (Some nx)
    have d: "keeps (case activeTool (toolSystem s) of
               None \<Rightarrow> ret ()
             | Some cur \<Rightarrow>
                 (case onDeactivate cur of
                    None \<Rightarrow> ret ()
                  | Some k \<Rightarrow>
                      try_catch (call re OnDeactivate cur k)
                        (\<lambda>err. emit (ConsoleError ''Tool onDeactivate error'' (Some err)))))"
      by (simp add: g split: option.splits)
    have a: "keeps (case onActivate nx of
                 None \<Rightarrow> ret ()
               | Some k \<Rightarrow>
                   try_catch (call re OnActivate nx k)
                     (\<lambda>err. emit (ConsoleError ''Tool onActivate error'' (Some err))))"
      by (simp add: g split: option.splits)
    from keeps_seq[OF d keeps_seq[OF slot a]] show ?thesis
      using Some by (simp add: activateWith_def keeps_def)
  qed
  then show ?thesis
    by (simp add: keeps_def)
qed

lemma keeps_dispatchPointerWith:
  assumes "\<And>a. keeps (re a)"
  shows "keeps (dispatchPointerWith re type e)"
proof -
  have "steady s (snd (dispatchPointerWith re type e s))" for s
  proof (cases "activeTool (toolSystem s)")
    case None
    then show ?thesis
      by (simp add: dispatchPointerWith_def ret_def)
  next
    case (Some t)
    have "keeps (try_catch
            (if type = ''pointerdown'' then call_opt re OnPointerDown t (onPointerDown t) e
             else if type = ''pointermove'' then call_opt re OnPointerMove t (onPointerMove t) e
             else if type = ''pointerup'' then call_opt re OnPointerUp t (onPointerUp t) e
             else ret ())
            (reportHandlerError ''pointer''))"
      by (simp add: keeps_try_catch keeps_call_opt assms keeps_report)
    then show ?thesis
      using Some by (simp add: dispatchPointerWith_def keeps_def)
  qed
  then show ?thesis
    by (simp add: keeps_def)
qed

lemma keeps_dispatchKeyWith:
  assumes "\<And>a. keeps (re a)"
  shows "keeps (dispatchKeyWith re type e)"
proof -
  have "steady s (snd (dispatchKeyWith re type e s))" for s
  proof (cases "activeTool (toolSystem s)")
    case None
    then show ?thesis
      by (simp add: dispatchKeyWith_def ret_def)
  next
    case (Some t)
    have "keeps (try_catch
            (if type = ''keydown'' then call_opt re OnKeyDown t (onKeyDown t) e
             else if type = ''keyup'' then call_opt re OnKeyUp t (onKeyUp t) e
             else ret ())
            (reportHandlerError ''key''))"
      by (simp add: keeps_try_catch keeps_call_opt assms keeps_report)
    then show ?thesis
      using Some by (simp add: dispatchKeyWith_def keeps_def)
  qed
  then show ?thesis
    by (simp add: keeps_def)
qed

lemma keeps_serve: "keeps (serve d a)"
proof (induction d arbitrary: a)
  case 0
  then show ?case
    by simp
next
  case (Suc d)
  have r: "keeps (\<lambda>s. register (map_option (toolObjects s) i) s)" for i
    using keeps_register by (auto simp: keeps_def)
  show ?case
    by (cases a)
       (simp_all add: keeps_activateWith keeps_dispatchPointerWith keeps_dispatchKeyWith Suc r)
qed

lemma steady_run: "steady s (snd (run (serve d) k s))"
  using keeps_run[of "serve d" k, OF keeps_serve] by (auto simp: keeps_def)

lemma steady_activate: "steady s (snd (activate d nm s))"
  using keeps_activateWith[of "serve d" nm, OF keeps_serve] by (auto simp: keeps_def activate_def)

lemma steady_dispatchPointer: "steady s (snd (dispatchPointer d type e s))"
  using keeps_dispatchPointerWith[of "serve d" type e, OF keeps_serve]
  by (auto simp: keeps_def dispatchPointer_def)


subsection \<open>The methods, step by step\<close>

lemma guardedHook_none [simp]: "guardedHook re h t None msg s = (Inr (), s)"
  by (simp add: guardedHook_def hookCall_def try_catch_def ret_def)

lemma guardedHook_some:
  "guardedHook re h t (Some k) msg s =
     (case run re k (invoked h t s) of
        (Inl x, s') \<Rightarrow> (Inr (), s'\<lparr>trace := trace s' @ [ConsoleError msg (Some x)]\<rparr>)
      | (Inr v, s') \<Rightarrow> (Inr (), s'))"
  by (simp add: guardedHook_def hookCall_def call_def try_catch_def seq_def and_then_def
      emit_def invoked_def split: prod.splits sum.splits)

lemma guardedHook_returns: "fst (guardedHook re h t ko msg s) = Inr ()"
  by (cases ko) (simp_all add: guardedHook_some split: prod.splits sum.splits)

lemma deactivation_returns: "fst (deactivation d s) = Inr ()"
  by (simp add: deactivation_def ret_def guardedHook_returns split: option.splits)

lemma steady_guardedHook: "steady s (snd (guardedHook (serve d) h t ko msg s))"
  using keeps_guardedHook[of "serve d" h t ko msg, OF keeps_serve] by (auto simp: keeps_def)

lemma steady_deactivation: "steady s (snd (deactivation d s))"
  by (simp add: deactivation_def ret_def steady_guardedHook split: option.splits)

lemma guardedHook_first:
  "take (Suc (length (trace s))) (trace (snd (guardedHook (serve d) h t (Some k) msg s))) =
     trace s @ [Invoke h (name t)]"
proof -
  obtain r s' where r: "run (serve d) k (invoked h t s) = (r, s')"
    by fastforce
  have st: "steady (invoked h t s) s'"
    using steady_run[of "invoked h t s" d k] r by simp
  have len: "length (trace (invoked h t s)) = Suc (length (trace s))"
    by (simp add: invoked_def)
  have tk: "take (Suc (length (trace s))) (trace s') = trace s @ [Invoke h (name t)]"
    using st len by (simp add: steady_def invoked_def)
  have le: "Suc (length (trace s)) \<le> length (trace s')"
    using st len by (simp add: steady_def)
  show ?thesis
    using tk le by (cases r) (simp_all add: guardedHook_some r)
qed

lemma activate_unknown:
  "tools (toolSystem s) nm = None \<Longrightarrow>
     activate d nm s =
       (Inr (), s\<lparr>trace := trace s @
          [ConsoleWarn (''ToolSystem: Cannot activate unknown tool \"'' @ nm @ ''\"'')]\<rparr>)"
  by (simp add: activate_def activateWith_def emit_def)

lemma activate_registered:
  assumes "tools (toolSystem s) nm = Some nx"
  shows "activate d nm s =
     guardedHook (serve d) OnActivate nx (onActivate nx) ''Tool onActivate error''
       (setActive nx (snd (deactivation d s)))"
proof -
  have dd: "(case activeTool (toolSystem s) of
               None \<Rightarrow> ret ()
             | Some cur \<Rightarrow>
                 (case onDeactivate cur of
                    None \<Rightarrow> ret ()
                  | Some k \<Rightarrow>
                      try_catch (call (serve d) OnDeactivate cur k)
                        (\<lambda>err. emit (ConsoleError ''Tool onDeactivate error'' (Some err))))) s
           = deactivation d s"
    by (simp add: deactivation_def guardedHook_def hookCall_def ret_def try_catch_def
        split: option.splits)
  have aa: "(case onActivate nx of
                 None \<Rightarrow> ret ()
               | Some k \<Rightarrow>
                   try_catch (call (serve d) OnActivate nx k)
                     (\<lambda>err. emit (ConsoleError ''Tool onActivate error'' (Some err)))) s'
           = guardedHook (serve d) OnActivate nx (onActivate nx) ''Tool onActivate error'' s'"
    for s'
    by (simp add: guardedHook_def hookCall_def ret_def try_catch_def split: option.splits)
  obtain s1 where s1: "deactivation d s = (Inr (), s1)"
    using deactivation_returns[of d s] by (cases "deactivation d s") auto
  show ?thesis
    unfolding activate_def activateWith_def using assms
    by (simp add: seq_def and_then_def dd[unfolded activate_def] aa s1 ret_def setActive_def)
qed

lemma activate_returns: "fst (activate d nm s) = Inr ()"
  by (cases "tools (toolSystem s) nm")
     (simp_all add: activate_unknown activate_registered guardedHook_returns)

lemma dispatchPointer_idle:
  "activeTool (toolSystem s) = None \<Longrightarrow> dispatchPointer d type e s = (Inr (), s)"
  by (simp add: dispatchPointer_def dispatchPointerWith_def ret_def)

lemma dispatchKey_idle:
  "activeTool (toolSystem s) = None \<Longrightarrow> dispatchKey d type e s = (Inr (), s)"
  by (simp add: dispatchKey_def dispatchKeyWith_def ret_def)

lemma dispatchPointer_active:
  assumes "activeTool (toolSystem s) = Some t"
  shows "dispatchPointer d type e s =
     try_catch (hookCall (serve d) (pointerKind type) t (pointerHook t type e))
       (reportHandlerError ''pointer'') s"
proof -
  have "(if type = ''pointerdown'' then call_opt (serve d) OnPointerDown t (onPointerDown t) e
         else if type = ''pointermove'' then call_opt (serve d) OnPointerMove t (onPointerMove t) e
         else if type = ''pointerup'' then call_opt (serve d) OnPointerUp t (onPointerUp t) e
         else ret ()) =
        hookCall (serve d) (pointerKind type) t (pointerHook t type e)"
    by (auto simp: pointerHook_def pointerKind_def call_opt_def hookCall_def
        split: option.splits)
  then show ?thesis
    using assms by (simp add: dispatchPointer_def dispatchPointerWith_def)
qed

lemma dispatchKey_active:
  assumes "activeTool (toolSystem s) = Some t"
  shows "dispatchKey d type e s =
     try_catch (hookCall (serve d) (keyKind type) t (keyHook t type e))
       (reportHandlerError ''key'') s"
proof -
  have "(if type = ''keydown'' then call_opt (serve d) OnKeyDown t (onKeyDown t) e
         else if type = ''keyup'' then call_opt (serve d) OnKeyUp t (onKeyUp t) e
         else ret ()) =
        hookCall (serve d) (keyKind type) t (keyHook t type e)"
    by (auto simp: keyHook_def keyKind_def call_opt_def hookCall_def split: option.splits)
  then show ?thesis
    using assms by (simp add: dispatchKey_def dispatchKeyWith_def)
qed

text \<open>
  The dispatch to an optional hook of the active tool \<open>t\<close>, by how the hook ends: the
  report of a throw names the tool that is active when the hook has ended.
\<close>

lemma guarded_dispatch:
  "try_catch (hookCall (serve d) h t ko) (reportHandlerError kind) s =
     (case ko of
        None \<Rightarrow> (Inr (), s)
      | Some k \<Rightarrow>
          (case run (serve d) k (invoked h t s) of
             (Inl x, s') \<Rightarrow> reportHandlerError kind x s'
           | (Inr v, s') \<Rightarrow> (Inr (), s')))"
  by (simp add: hookCall_def call_def try_catch_def seq_def and_then_def emit_def ret_def
      invoked_def split: option.splits prod.splits sum.splits)

lemma report_active:
  "activeTool (toolSystem s) = Some t \<Longrightarrow>
     reportHandlerError kind x s =
       (Inr (), s\<lparr>trace := trace s @
          [ConsoleError (''Tool ('' @ to_string (name t) @ '') '' @ kind @ '' handler error'')
             (Some x)]\<rparr>)"
  by (simp add: reportHandlerError_def emit_def)

lemma guarded_dispatch_returns:
  assumes "activeTool (toolSystem s) \<noteq> None"
  shows "fst (try_catch (hookCall (serve d) h t ko) (reportHandlerError kind) s) = Inr ()"
proof (cases ko)
  case None
  then show ?thesis
    by (simp add: guarded_dispatch)
next
  case (Some k)
  obtain r s' where r: "run (serve d) k (invoked h t s) = (r, s')"
    by fastforce
  have "steady (invoked h t s) s'"
    using steady_run[of "invoked h t s" d k] r by simp
  then have "activeTool (toolSystem s') \<noteq> None"
    using assms by (simp add: steady_def invoked_def)
  then obtain t' where "activeTool (toolSystem s') = Some t'"
    by auto
  then show ?thesis
    by (cases r) (simp_all add: guarded_dispatch Some r report_active)
qed

lemma dispatchPointer_returns: "fst (dispatchPointer d type e s) = Inr ()"
proof (cases "activeTool (toolSystem s)")
  case None
  then show ?thesis
    by (simp add: dispatchPointer_idle)
next
  case (Some t)
  then show ?thesis
    using guarded_dispatch_returns[of s d "pointerKind type" t "pointerHook t type e" "''pointer''"]
    by (simp add: dispatchPointer_active)
qed


lemma guarded_dispatch_first:
  assumes "activeTool (toolSystem s) \<noteq> None"
  shows "take (Suc (length (trace s)))
       (trace (snd (try_catch (hookCall (serve d) h t (Some k)) (reportHandlerError kind) s))) =
     trace s @ [Invoke h (name t)]"
proof -
  obtain r s' where r: "run (serve d) k (invoked h t s) = (r, s')"
    by fastforce
  have st: "steady (invoked h t s) s'"
    using steady_run[of "invoked h t s" d k] r by simp
  have len: "length (trace (invoked h t s)) = Suc (length (trace s))"
    by (simp add: invoked_def)
  have tk: "take (Suc (length (trace s))) (trace s') = trace s @ [Invoke h (name t)]"
    using st len by (simp add: steady_def invoked_def)
  have le: "Suc (length (trace s)) \<le> length (trace s')"
    using st len by (simp add: steady_def)
  have "activeTool (toolSystem s') \<noteq> None"
    using st assms by (simp add: steady_def invoked_def)
  then obtain t' where "activeTool (toolSystem s') = Some t'"
    by auto
  then show ?thesis
    using tk le by (cases r) (simp_all add: guarded_dispatch r report_active)
qed

subsection \<open>Hooks that make no call of the ToolSystem\<close>

lemma getActiveToolName_cong:
  "toolSystem s' = toolSystem s \<Longrightarrow> getActiveToolName s' = getActiveToolName s"
  by (simp add: getActiveToolName_def)

lemma getActiveToolName_update [simp]:
  "getActiveToolName (s\<lparr>trace := tr\<rparr>) = getActiveToolName s"
  "getActiveToolName (s\<lparr>world := w\<rparr>) = getActiveToolName s"
  "getActiveToolName (s\<lparr>sessionManager := m\<rparr>) = getActiveToolName s"
  by (simp_all add: getActiveToolName_def)

lemma run_locally:
  "noCalls k \<Longrightarrow>
     run re k s =
       (fst (locally k (getActiveToolName s) (sessionManager s, world s)),
        s\<lparr>sessionManager := fst (snd (locally k (getActiveToolName s) (sessionManager s, world s))),
          world := snd (snd (locally k (getActiveToolName s) (sessionManager s, world s)))\<rparr>)"
proof (induction k arbitrary: s)
  case Return
  then show ?case
    by (simp add: ret_def)
next
  case (Throw x)
  then show ?case
    by (simp add: throw_def)
next
  case (Act f k)
  then show ?case
    by (simp add: snapshotOf_def getActiveToolName_def)
next
  case (Touch g k)
  then show ?case
    by (simp add: getActiveToolName_def)
next
  case (Test p k1 k2)
  then show ?case
    by (simp add: snapshotOf_def)
next
  case (Call a k)
  then show ?case
    by simp
next
  case (Try b h k)
  let ?an = "getActiveToolName s"
  obtain r1 m1 w1 where l1: "locally b ?an (sessionManager s, world s) = (r1, (m1, w1))"
    by (metis prod.exhaust)
  have r1: "run re b s = (r1, s\<lparr>sessionManager := m1, world := w1\<rparr>)"
    using Try.IH(1)[of s] Try.prems by (simp add: l1)
  let ?s1 = "s\<lparr>sessionManager := m1, world := w1\<rparr>"
  have an1: "getActiveToolName ?s1 = ?an"
    by (simp add: getActiveToolName_def)
  obtain r2 m2 w2 where l2: "locally h ?an (m1, w1) = (r2, (m2, w2))"
    by (metis prod.exhaust)
  have r2: "run re h ?s1 = (r2, s\<lparr>sessionManager := m2, world := w2\<rparr>)"
    using Try.IH(2)[of ?s1] Try.prems by (simp add: l2 an1)
  let ?s2 = "s\<lparr>sessionManager := m2, world := w2\<rparr>"
  have an2: "getActiveToolName ?s2 = ?an"
    by (simp add: getActiveToolName_def)
  have k1: "run re k ?s1 =
       (fst (locally k ?an (m1, w1)),
        s\<lparr>sessionManager := fst (snd (locally k ?an (m1, w1))),
          world := snd (snd (locally k ?an (m1, w1)))\<rparr>)"
    using Try.IH(3)[of ?s1] Try.prems by (simp add: an1)
  have k2: "run re k ?s2 =
       (fst (locally k ?an (m2, w2)),
        s\<lparr>sessionManager := fst (snd (locally k ?an (m2, w2))),
          world := snd (snd (locally k ?an (m2, w2)))\<rparr>)"
    using Try.IH(3)[of ?s2] Try.prems by (simp add: an2)
  show ?case
    by (cases r1; cases r2)
       (simp_all add: seq_def and_then_def try_catch_def l1 l2 r1 r2 k1 k2)
qed

lemma guardedHook_callFree:
  assumes "callFree ko"
  shows "guardedHook re h t ko msg s =
     (Inr (), (afterHook ko s)\<lparr>trace := trace s @ hookEvents h (name t) ko msg (outcomeOf ko s)\<rparr>)"
proof (cases ko)
  case None
  then show ?thesis
    by (simp add: afterHook_def hookLocally_def hookEvents_def ret_def)
next
  case (Some k)
  then have nc: "noCalls k"
    using assms by (simp add: callFree_def)
  have an: "getActiveToolName (invoked h t s) = getActiveToolName s"
    by (simp add: invoked_def getActiveToolName_def)
  show ?thesis
    by (cases "fst (locally k (getActiveToolName s) (sessionManager s, world s))")
       (simp_all add: Some guardedHook_some run_locally[OF nc] an afterHook_def hookLocally_def
          hookEvents_def outcomeOf_def invoked_def)
qed

lemma dispatch_callFree:
  assumes "callFree ko" and "activeTool (toolSystem s) = Some t"
  shows "try_catch (hookCall re h t ko) (reportHandlerError kind) s =
     (Inr (), (afterHook ko s)\<lparr>trace := trace s @
        hookEvents h (name t) ko
          (''Tool ('' @ to_string (name t) @ '') '' @ kind @ '' handler error'')
          (outcomeOf ko s)\<rparr>)"
proof (cases ko)
  case None
  then show ?thesis
    by (simp add: hookCall_def try_catch_def afterHook_def hookLocally_def hookEvents_def ret_def)
next
  case (Some k)
  then have nc: "noCalls k"
    using assms by (simp add: callFree_def)
  have an: "getActiveToolName (invoked h t s) = getActiveToolName s"
    by (simp add: invoked_def getActiveToolName_def)
  show ?thesis
    using assms(2)
    by (cases "fst (locally k (getActiveToolName s) (sessionManager s, world s))")
       (simp_all add: Some hookCall_def call_def try_catch_def seq_def and_then_def emit_def
          run_locally[OF nc] afterHook_def hookLocally_def
          hookEvents_def outcomeOf_def reportHandlerError_def getActiveToolName_def)
qed

lemma afterHook_frame [simp]:
  "toolSystem (afterHook ko s) = toolSystem s"
  "trace (afterHook ko s) = trace s"
  "paperManager (afterHook ko s) = paperManager s"
  "toolObjects (afterHook ko s) = toolObjects s"
  by (simp_all add: afterHook_def)

lemma afterHook_withTools [simp]:
  "afterHook ko (withTools T s) = withTools T (afterHook ko s)"
  "outcomeOf ko (withTools T s) = outcomeOf ko s"
  by (simp_all add: afterHook_def outcomeOf_def withTools_def getActiveToolName_def)

lemma hookCalls_append [simp]: "hookCalls (xs @ ys) = hookCalls xs @ hookCalls ys"
  by (induction xs rule: hookCalls.induct) simp_all

lemma hookCalls_hookEvents [simp]:
  "hookCalls (hookEvents h nm ko msg r) = oneCall h nm ko"
  by (simp add: hookEvents_def oneCall_def split: option.splits sum.splits)

lemma register_valid:
  "name t = JStr n \<Longrightarrow> n \<noteq> [] \<Longrightarrow>
     register (Some t) s = (Inr (), withTools ((tools (toolSystem s))(n \<mapsto> t)) s)"
  by (simp add: register_def ret_def withTools_def)

lemma register_invalid:
  "(case tool of None \<Rightarrow> True | Some t \<Rightarrow> \<not> nonEmptyString (name t)) \<Longrightarrow>
     register tool s = (Inl (Error ''Tool must have a non-empty name property''), s)"
  by (cases tool; cases "name (the tool)")
     (simp_all add: register_def throw_def)

lemma getActiveTool_setActive [simp]: "getActiveTool (setActive nx s) = Some nx"
  by (simp add: getActiveTool_def setActive_def)

lemma deactivationHook_withTools [simp]: "deactivationHook (withTools T s) = deactivationHook s"
  by (simp add: deactivationHook_def withTools_def)

subsection \<open>The sample pages\<close>


lemma brushPage_fields:
  "activeTool (toolSystem brushPage) = Some brush"
  "tools (toolSystem brushPage) = [''Brush'' \<mapsto> brush, ''Faulty'' \<mapsto> faulty, ''Relay'' \<mapsto> relay]"
  "sessionManager brushPage = noSessions"
  "world brushPage = []"
  "trace brushPage = []"
  "paperManager brushPage = True"
  "canvasOrigin brushPage = (0, 0)"
  "viewToProject brushPage = None"
  "getActiveToolName brushPage = JStr ''Brush''"
  by (simp_all add: brushPage_def setActive_def idlePage_def getActiveToolName_def brush_def)


lemma relayPage_fields:
  "activeTool (toolSystem relayPage) = Some relay"
  "tools (toolSystem relayPage) = [''Brush'' \<mapsto> brush, ''Faulty'' \<mapsto> faulty, ''Relay'' \<mapsto> relay]"
  "sessionManager relayPage = noSessions"
  "world relayPage = []"
  "trace relayPage = []"
  "paperManager relayPage = True"
  "getActiveToolName relayPage = JStr ''Relay''"
  by (simp_all add: relayPage_def setActive_def idlePage_def getActiveToolName_def relay_def)

subsection \<open>Activation of an unknown name\<close>

text \<open>
  C7. \<open>activate\<close> with a name that is not in the registry returns after one
  \<open>console.warn\<close>: the active tool and its name are what they were, no hook is called,
  and the state the hooks act on is untouched.
\<close>

theorem activate_unknown_name:
  "(tools (toolSystem s) nm = None \<longrightarrow>
    activate d nm s =
      (Inr (), s\<lparr>trace := trace s @
             [ConsoleWarn (''ToolSystem: Cannot activate unknown tool \"'' @ nm @ ''\"'')]\<rparr>) \<and>
    getActiveToolName (snd (activate d nm s)) = getActiveToolName s \<and>
    getActiveTool (snd (activate d nm s)) = getActiveTool s \<and>
    hookCalls (trace (snd (activate d nm s))) = hookCalls (trace s) \<and>
    world (snd (activate d nm s)) = world s)"
  by (simp add: activate_unknown getActiveToolName_def getActiveTool_def)

theorem activate_unknown_name_witness:
  "(tools (toolSystem brushPage) ''Eraser'' = None) \<and>
(activate 2 ''Eraser'' brushPage =
  (Inr (), brushPage\<lparr>trace := trace brushPage @
         [ConsoleWarn (''ToolSystem: Cannot activate unknown tool \"'' @ ''Eraser'' @ ''\"'')]\<rparr>) \<and>
getActiveToolName (snd (activate 2 ''Eraser'' brushPage)) = getActiveToolName brushPage \<and>
getActiveTool (snd (activate 2 ''Eraser'' brushPage)) = getActiveTool brushPage \<and>
hookCalls (trace (snd (activate 2 ''Eraser'' brushPage))) = hookCalls (trace brushPage) \<and>
world (snd (activate 2 ''Eraser'' brushPage)) = world brushPage)"
proof -
  have h: "tools (toolSystem brushPage) ''Eraser'' = None"
    by (simp add: brushPage_fields)
  show ?thesis
    using activate_unknown_name[where s=brushPage and nm="''Eraser''" and d=2] h by blast
qed

subsection \<open>Registration\<close>

lemma dispatchPointer_withTools:
  assumes "callFree (case getActiveTool s of None \<Rightarrow> None | Some a \<Rightarrow> pointerHook a type e)"
  shows "dispatchPointer d type e (withTools T s) =
     (fst (dispatchPointer d type e s), withTools T (snd (dispatchPointer d type e s)))"
proof (cases "activeTool (toolSystem s)")
  case None
  then show ?thesis
    by (simp add: dispatchPointer_idle withTools_def)
next
  case (Some t)
  then have a: "activeTool (toolSystem (withTools T s)) = Some t"
    by (simp add: withTools_def)
  have cf: "callFree (pointerHook t type e)"
    using assms Some by (simp add: getActiveTool_def)
  show ?thesis
    by (simp add: dispatchPointer_active[OF a] dispatchPointer_active[OF Some]
        dispatch_callFree[OF cf a] dispatch_callFree[OF cf Some])
       (simp add: withTools_def)
qed

lemma dispatchKey_withTools:
  assumes "callFree (case getActiveTool s of None \<Rightarrow> None | Some a \<Rightarrow> keyHook a type e)"
  shows "dispatchKey d type e (withTools T s) =
     (fst (dispatchKey d type e s), withTools T (snd (dispatchKey d type e s)))"
proof (cases "activeTool (toolSystem s)")
  case None
  then show ?thesis
    by (simp add: dispatchKey_idle withTools_def)
next
  case (Some t)
  then have a: "activeTool (toolSystem (withTools T s)) = Some t"
    by (simp add: withTools_def)
  have cf: "callFree (keyHook t type e)"
    using assms Some by (simp add: getActiveTool_def)
  show ?thesis
    by (simp add: dispatchKey_active[OF a] dispatchKey_active[OF Some]
        dispatch_callFree[OF cf a] dispatch_callFree[OF cf Some])
       (simp add: withTools_def)
qed

text \<open>
  C9. \<open>register\<close> throws its validation error and changes nothing when the argument is
  \<open>null\<close> or \<open>undefined\<close> or its \<open>name\<close> is not a non-empty string. Otherwise it stores
  the tool under its name, over any earlier entry, and changes nothing else: the active
  tool is the same object as before, also when the name is the active tool's. A dispatch
  after the call calls the hook of the instance that was active, whatever that hook goes
  on to do: the call is the first thing the dispatch adds to the trace, and the dispatch
  is the guarded run of that instance's hook. When that hook makes no call of the
  ToolSystem, so that it cannot come to read the registry, the dispatch does exactly
  what it would have done before the registration.
\<close>

theorem register_validates_and_keeps_active:
  "((case tool of None \<Rightarrow> True | Some u \<Rightarrow> \<not> nonEmptyString (name u)) \<longrightarrow>
    register tool s = (Inl (Error ''Tool must have a non-empty name property''), s)) \<and>
(name t = JStr n \<and> n \<noteq> [] \<longrightarrow>
    register (Some t) s = (Inr (), withTools ((tools (toolSystem s))(n \<mapsto> t)) s) \<and>
    tools (toolSystem (snd (register (Some t) s))) n = Some t \<and>
    getActiveTool (snd (register (Some t) s)) = getActiveTool s \<and>
    getActiveToolName (snd (register (Some t) s)) = getActiveToolName s) \<and>
(name t = JStr n \<and> n \<noteq> [] \<and> getActiveTool s = Some old \<longrightarrow>
    dispatchPointer d type e (snd (register (Some t) s)) =
      try_catch (hookCall (serve d) (pointerKind type) old (pointerHook old type e))
        (reportHandlerError ''pointer'') (snd (register (Some t) s)) \<and>
    dispatchKey d ktype k (snd (register (Some t) s)) =
      try_catch (hookCall (serve d) (keyKind ktype) old (keyHook old ktype k))
        (reportHandlerError ''key'') (snd (register (Some t) s))) \<and>
(name t = JStr n \<and> n \<noteq> [] \<and> getActiveTool s = Some old \<and> pointerHook old type e = Some ph \<longrightarrow>
    take (Suc (length (trace s))) (trace (snd (dispatchPointer d type e (snd (register (Some t) s))))) =
      trace s @ [Invoke (pointerKind type) (name old)]) \<and>
(name t = JStr n \<and> n \<noteq> [] \<and> getActiveTool s = Some old \<and> keyHook old ktype k = Some kh \<longrightarrow>
    take (Suc (length (trace s))) (trace (snd (dispatchKey d ktype k (snd (register (Some t) s))))) =
      trace s @ [Invoke (keyKind ktype) (name old)]) \<and>
(name t = JStr n \<and> n \<noteq> [] \<and> callFree (case getActiveTool s of None \<Rightarrow> None | Some a \<Rightarrow> pointerHook a type e) \<longrightarrow>
    dispatchPointer d type e (snd (register (Some t) s)) =
      (fst (dispatchPointer d type e s),
       withTools ((tools (toolSystem s))(n \<mapsto> t)) (snd (dispatchPointer d type e s)))) \<and>
(name t = JStr n \<and> n \<noteq> [] \<and> callFree (case getActiveTool s of None \<Rightarrow> None | Some a \<Rightarrow> keyHook a ktype k) \<longrightarrow>
    dispatchKey d ktype k (snd (register (Some t) s)) =
      (fst (dispatchKey d ktype k s),
       withTools ((tools (toolSystem s))(n \<mapsto> t)) (snd (dispatchKey d ktype k s))))"
proof -
  have r: "register (Some t) s = (Inr (), withTools ((tools (toolSystem s))(n \<mapsto> t)) s)"
    if "name t = JStr n \<and> n \<noteq> []"
    using that by (simp add: register_valid)
  have act: "activeTool (toolSystem (withTools ((tools (toolSystem s))(n \<mapsto> t)) s)) = Some old"
    if "getActiveTool s = Some old"
    using that by (simp add: withTools_def getActiveTool_def)
  have tr: "trace (withTools ((tools (toolSystem s))(n \<mapsto> t)) s) = trace s"
    by (simp add: withTools_def)
  have p1: "((case tool of None \<Rightarrow> True | Some u \<Rightarrow> \<not> nonEmptyString (name u))) \<longrightarrow>
        (register tool s = (Inl (Error ''Tool must have a non-empty name property''), s))"
    by (simp add: register_invalid)
  have p2: "(name t = JStr n \<and> n \<noteq> []) \<longrightarrow>
        (register (Some t) s = (Inr (), withTools ((tools (toolSystem s))(n \<mapsto> t)) s) \<and>
        tools (toolSystem (snd (register (Some t) s))) n = Some t \<and>
        getActiveTool (snd (register (Some t) s)) = getActiveTool s \<and>
        getActiveToolName (snd (register (Some t) s)) = getActiveToolName s)"
    by (simp add: r withTools_def getActiveTool_def getActiveToolName_def)
  have p3: "(name t = JStr n \<and> n \<noteq> [] \<and> getActiveTool s = Some old) \<longrightarrow>
        (dispatchPointer d type e (snd (register (Some t) s)) =
          try_catch (hookCall (serve d) (pointerKind type) old (pointerHook old type e))
            (reportHandlerError ''pointer'') (snd (register (Some t) s)) \<and>
        dispatchKey d ktype k (snd (register (Some t) s)) =
          try_catch (hookCall (serve d) (keyKind ktype) old (keyHook old ktype k))
            (reportHandlerError ''key'') (snd (register (Some t) s)))"
  proof (intro impI)
    assume h: "name t = JStr n \<and> n \<noteq> [] \<and> getActiveTool s = Some old"
    then have a: "activeTool (toolSystem (withTools ((tools (toolSystem s))(n \<mapsto> t)) s)) = Some old"
      using act by blast
    from h have rr: "snd (register (Some t) s) = withTools ((tools (toolSystem s))(n \<mapsto> t)) s"
      by (simp add: r)
    show "dispatchPointer d type e (snd (register (Some t) s)) =
        try_catch (hookCall (serve d) (pointerKind type) old (pointerHook old type e))
          (reportHandlerError ''pointer'') (snd (register (Some t) s)) \<and>
      dispatchKey d ktype k (snd (register (Some t) s)) =
        try_catch (hookCall (serve d) (keyKind ktype) old (keyHook old ktype k))
          (reportHandlerError ''key'') (snd (register (Some t) s))"
      unfolding rr by (simp add: dispatchPointer_active[OF a] dispatchKey_active[OF a])
  qed
  have p4: "(name t = JStr n \<and> n \<noteq> [] \<and> getActiveTool s = Some old \<and> pointerHook old type e = Some ph) \<longrightarrow>
        (take (Suc (length (trace s))) (trace (snd (dispatchPointer d type e (snd (register (Some t) s))))) =
          trace s @ [Invoke (pointerKind type) (name old)])"
  proof (intro impI)
    assume h: "name t = JStr n \<and> n \<noteq> [] \<and> getActiveTool s = Some old \<and> pointerHook old type e = Some ph"
    then have a: "activeTool (toolSystem (withTools ((tools (toolSystem s))(n \<mapsto> t)) s)) = Some old"
      using act by blast
    from h have rr: "snd (register (Some t) s) = withTools ((tools (toolSystem s))(n \<mapsto> t)) s"
      by (simp add: r)
    from h have ph: "pointerHook old type e = Some ph"
      by blast
    show "take (Suc (length (trace s))) (trace (snd (dispatchPointer d type e (snd (register (Some t) s))))) =
        trace s @ [Invoke (pointerKind type) (name old)]"
      unfolding rr
      using guarded_dispatch_first[of "withTools ((tools (toolSystem s))(n \<mapsto> t)) s" d
          "pointerKind type" old ph "''pointer''"] a
      by (simp add: dispatchPointer_active[OF a] tr ph)
  qed
  have p5: "(name t = JStr n \<and> n \<noteq> [] \<and> getActiveTool s = Some old \<and> keyHook old ktype k = Some kh) \<longrightarrow>
        (take (Suc (length (trace s))) (trace (snd (dispatchKey d ktype k (snd (register (Some t) s))))) =
          trace s @ [Invoke (keyKind ktype) (name old)])"
  proof (intro impI)
    assume h: "name t = JStr n \<and> n \<noteq> [] \<and> getActiveTool s = Some old \<and> keyHook old ktype k = Some kh"
    then have a: "activeTool (toolSystem (withTools ((tools (toolSystem s))(n \<mapsto> t)) s)) = Some old"
      using act by blast
    from h have rr: "snd (register (Some t) s) = withTools ((tools (toolSystem s))(n \<mapsto> t)) s"
      by (simp add: r)
    from h have kh: "keyHook old ktype k = Some kh"
      by blast
    show "take (Suc (length (trace s))) (trace (snd (dispatchKey d ktype k (snd (register (Some t) s))))) =
        trace s @ [Invoke (keyKind ktype) (name old)]"
      unfolding rr
      using guarded_dispatch_first[of "withTools ((tools (toolSystem s))(n \<mapsto> t)) s" d
          "keyKind ktype" old kh "''key''"] a
      by (simp add: dispatchKey_active[OF a] tr kh)
  qed
  have p6: "(name t = JStr n \<and> n \<noteq> [] \<and> callFree (case getActiveTool s of None \<Rightarrow> None | Some a \<Rightarrow> pointerHook a type e)) \<longrightarrow>
        (dispatchPointer d type e (snd (register (Some t) s)) =
          (fst (dispatchPointer d type e s),
           withTools ((tools (toolSystem s))(n \<mapsto> t)) (snd (dispatchPointer d type e s))))"
    by (simp add: r dispatchPointer_withTools)
  have p7: "(name t = JStr n \<and> n \<noteq> [] \<and> callFree (case getActiveTool s of None \<Rightarrow> None | Some a \<Rightarrow> keyHook a ktype k)) \<longrightarrow>
        (dispatchKey d ktype k (snd (register (Some t) s)) =
          (fst (dispatchKey d ktype k s),
           withTools ((tools (toolSystem s))(n \<mapsto> t)) (snd (dispatchKey d ktype k s))))"
    by (simp add: r dispatchKey_withTools)
  from p1 p2 p3 p4 p5 p6 p7 show ?thesis
    by blast
qed

theorem register_validates_and_keeps_active_witness:
  "((case (Some unnamed) of None \<Rightarrow> True | Some u \<Rightarrow> \<not> nonEmptyString (name u))) \<and>
(register (Some unnamed) brushPage = (Inl (Error ''Tool must have a non-empty name property''), brushPage)) \<and>
(name brush2 = JStr ''Brush'' \<and> ''Brush'' \<noteq> []) \<and>
(register (Some brush2) brushPage = (Inr (), withTools ((tools (toolSystem brushPage))(''Brush'' \<mapsto> brush2)) brushPage) \<and>
tools (toolSystem (snd (register (Some brush2) brushPage))) ''Brush'' = Some brush2 \<and>
getActiveTool (snd (register (Some brush2) brushPage)) = getActiveTool brushPage \<and>
getActiveToolName (snd (register (Some brush2) brushPage)) = getActiveToolName brushPage) \<and>
(name brush2 = JStr ''Brush'' \<and> ''Brush'' \<noteq> [] \<and> getActiveTool brushPage = Some brush) \<and>
(dispatchPointer 2 ''pointerdown'' (penAt ''pointerdown'' 0) (snd (register (Some brush2) brushPage)) =
  try_catch (hookCall (serve 2) (pointerKind ''pointerdown'') brush (pointerHook brush ''pointerdown'' (penAt ''pointerdown'' 0)))
    (reportHandlerError ''pointer'') (snd (register (Some brush2) brushPage)) \<and>
dispatchKey 2 ''keydown'' keyA (snd (register (Some brush2) brushPage)) =
  try_catch (hookCall (serve 2) (keyKind ''keydown'') brush (keyHook brush ''keydown'' keyA))
    (reportHandlerError ''key'') (snd (register (Some brush2) brushPage))) \<and>
(name brush2 = JStr ''Brush'' \<and> ''Brush'' \<noteq> [] \<and> getActiveTool brushPage = Some brush \<and> pointerHook brush ''pointerdown'' (penAt ''pointerdown'' 0) = Some (pointerLogging ''Brush.down'' (penAt ''pointerdown'' 0))) \<and>
(take (Suc (length (trace brushPage))) (trace (snd (dispatchPointer 2 ''pointerdown'' (penAt ''pointerdown'' 0) (snd (register (Some brush2) brushPage))))) =
  trace brushPage @ [Invoke (pointerKind ''pointerdown'') (name brush)]) \<and>
(name brush2 = JStr ''Brush'' \<and> ''Brush'' \<noteq> [] \<and> getActiveTool brushPage = Some brush \<and> keyHook brush ''keydown'' keyA = Some (keyLogging ''Brush.keydown'' keyA)) \<and>
(take (Suc (length (trace brushPage))) (trace (snd (dispatchKey 2 ''keydown'' keyA (snd (register (Some brush2) brushPage))))) =
  trace brushPage @ [Invoke (keyKind ''keydown'') (name brush)]) \<and>
(name brush2 = JStr ''Brush'' \<and> ''Brush'' \<noteq> [] \<and> callFree (case getActiveTool brushPage of None \<Rightarrow> None | Some a \<Rightarrow> pointerHook a ''pointerdown'' (penAt ''pointerdown'' 0))) \<and>
(dispatchPointer 2 ''pointerdown'' (penAt ''pointerdown'' 0) (snd (register (Some brush2) brushPage)) =
  (fst (dispatchPointer 2 ''pointerdown'' (penAt ''pointerdown'' 0) brushPage),
   withTools ((tools (toolSystem brushPage))(''Brush'' \<mapsto> brush2)) (snd (dispatchPointer 2 ''pointerdown'' (penAt ''pointerdown'' 0) brushPage)))) \<and>
(name brush2 = JStr ''Brush'' \<and> ''Brush'' \<noteq> [] \<and> callFree (case getActiveTool brushPage of None \<Rightarrow> None | Some a \<Rightarrow> keyHook a ''keydown'' keyA)) \<and>
(dispatchKey 2 ''keydown'' keyA (snd (register (Some brush2) brushPage)) =
  (fst (dispatchKey 2 ''keydown'' keyA brushPage),
   withTools ((tools (toolSystem brushPage))(''Brush'' \<mapsto> brush2)) (snd (dispatchKey 2 ''keydown'' keyA brushPage)))) \<and>
(world (snd (dispatchPointer 2 ''pointerdown'' (penAt ''pointerdown'' 0)
            (snd (register (Some brush2) brushPage)))) = [''Brush.down while Brush''])"
proof -
  have h1: "(case (Some unnamed) of None \<Rightarrow> True | Some u \<Rightarrow> \<not> nonEmptyString (name u))"
    by (simp add: unnamed_def)
  have h2: "name brush2 = JStr ''Brush'' \<and> ''Brush'' \<noteq> []"
    by (simp add: brush2_def)
  have h3: "name brush2 = JStr ''Brush'' \<and> ''Brush'' \<noteq> [] \<and> getActiveTool brushPage = Some brush"
    by (simp add: brush2_def getActiveTool_def brushPage_fields)
  have h4: "name brush2 = JStr ''Brush'' \<and> ''Brush'' \<noteq> [] \<and> getActiveTool brushPage = Some brush \<and> pointerHook brush ''pointerdown'' (penAt ''pointerdown'' 0) = Some (pointerLogging ''Brush.down'' (penAt ''pointerdown'' 0))"
    by (simp add: brush2_def getActiveTool_def brushPage_fields pointerHook_def brush_def)
  have h5: "name brush2 = JStr ''Brush'' \<and> ''Brush'' \<noteq> [] \<and> getActiveTool brushPage = Some brush \<and> keyHook brush ''keydown'' keyA = Some (keyLogging ''Brush.keydown'' keyA)"
    by (simp add: brush2_def getActiveTool_def brushPage_fields keyHook_def brush_def)
  have h6: "name brush2 = JStr ''Brush'' \<and> ''Brush'' \<noteq> [] \<and> callFree (case getActiveTool brushPage of None \<Rightarrow> None | Some a \<Rightarrow> pointerHook a ''pointerdown'' (penAt ''pointerdown'' 0))"
    by (simp add: brush2_def getActiveTool_def brushPage_fields pointerHook_def brush_def callFree_def
        pointerLogging_def logging_def)
  have h7: "name brush2 = JStr ''Brush'' \<and> ''Brush'' \<noteq> [] \<and> callFree (case getActiveTool brushPage of None \<Rightarrow> None | Some a \<Rightarrow> keyHook a ''keydown'' keyA)"
    by (simp add: brush2_def getActiveTool_def brushPage_fields keyHook_def brush_def callFree_def
        keyLogging_def logging_def)
  note t = register_validates_and_keeps_active[where tool="Some unnamed" and s=brushPage
      and t=brush2 and n="''Brush''" and old=brush and type="''pointerdown''"
      and e="penAt ''pointerdown'' 0" and ktype="''keydown''" and k=keyA and d=2
      and ph="pointerLogging ''Brush.down'' (penAt ''pointerdown'' 0)"
      and kh="keyLogging ''Brush.keydown'' keyA" ]
  have x1: "world (snd (dispatchPointer 2 ''pointerdown'' (penAt ''pointerdown'' 0)
                (snd (register (Some brush2) brushPage)))) = [''Brush.down while Brush'']"
  proof -
    have act: "activeTool (toolSystem brushPage) = Some brush"
      by (simp add: brushPage_fields)
    have cf: "callFree (pointerHook brush ''pointerdown'' (penAt ''pointerdown'' 0))"
      by (simp add: pointerHook_def brush_def callFree_def pointerLogging_def logging_def)
    have d0: "world (snd (dispatchPointer 2 ''pointerdown'' (penAt ''pointerdown'' 0) brushPage)) =
        [''Brush.down while Brush'']"
      by (simp add: dispatchPointer_active[OF act] dispatch_callFree[OF cf act])
         (simp add: afterHook_def hookLocally_def ret_def brushPage_fields pointerHook_def brush_def
            pointerLogging_def logging_def)
    from t h6 have "dispatchPointer 2 ''pointerdown'' (penAt ''pointerdown'' 0)
        (snd (register (Some brush2) brushPage)) =
      (fst (dispatchPointer 2 ''pointerdown'' (penAt ''pointerdown'' 0) brushPage),
       withTools ((tools (toolSystem brushPage))(''Brush'' \<mapsto> brush2))
         (snd (dispatchPointer 2 ''pointerdown'' (penAt ''pointerdown'' 0) brushPage)))"
      by blast
    then show ?thesis
      using d0 by (simp add: withTools_def)
  qed
  show ?thesis
    using t h1 h2 h3 h4 h5 h6 h7 x1 by blast
qed

text \<open>
  The condition on the hook in the last part cannot be dropped: a hook that calls
  \<open>activate\<close> consults the registry. With \<open>Relay\<close> active, whose pointer-down hook
  activates the name \<open>Brush\<close>, a dispatch ends with the first tool \<open>Brush\<close> active, and
  after a second tool has been registered under that name it ends with the second one
  active. In both runs it is the hook of \<open>Relay\<close>, the instance in the active slot, that
  the dispatch calls.
\<close>

lemma dispatch_to_reentrant_hook_after_register:
  "map_option onPointerMove
     (getActiveTool (snd (dispatchPointer 2 ''pointerdown'' (penAt ''pointerdown'' 0) relayPage))) =
     Some (onPointerMove brush) \<and>
   map_option onPointerMove
     (getActiveTool (snd (dispatchPointer 2 ''pointerdown'' (penAt ''pointerdown'' 0)
        (snd (register (Some brush2) relayPage))))) =
     Some (onPointerMove brush2) \<and>
   onPointerMove brush \<noteq> onPointerMove brush2 \<and>
   hookCalls (trace (snd (dispatchPointer 2 ''pointerdown'' (penAt ''pointerdown'' 0)
        (snd (register (Some brush2) relayPage))))) =
     [(OnPointerDown, JStr ''Relay''), (OnActivate, JStr ''Brush'')]"
  by (simp add: relayPage_def setActive_def idlePage_def
        brush2_def brush_def faulty_def relay_def
        getActiveToolName_def getActiveTool_def logging_def failing_def switching_def
        snapshotOf_def pointerLogging_def
        register_def activate_def activateWith_def call_def call_opt_def
        dispatchPointer_def dispatchPointerWith_def reportHandlerError_def
        seq_def and_then_def try_catch_def emit_def ret_def throw_def numeral_2_eq_2)

subsection \<open>Activation of a registered name\<close>

lemma afterHook_None [simp]: "afterHook None s = s"
  by (simp add: afterHook_def hookLocally_def ret_def)

lemma outcomeOf_None [simp]: "outcomeOf None s = Inr ()"
  by (simp add: outcomeOf_def hookLocally_def ret_def)

lemma hookEvents_None [simp]: "hookEvents h nm None msg r = []"
  by (simp add: hookEvents_def)

lemma oneCall_None [simp]: "oneCall h nm None = []"
  by (simp add: oneCall_def)

lemma setActive_frame [simp]:
  "trace (setActive nx s) = trace s"
  "world (setActive nx s) = world s"
  "sessionManager (setActive nx s) = sessionManager s"
  "activeTool (toolSystem (setActive nx s)) = Some nx"
  "tools (toolSystem (setActive nx s)) = tools (toolSystem s)"
  by (simp_all add: setActive_def)

lemma getActiveToolName_active:
  "activeTool (toolSystem s) = Some t \<Longrightarrow>
     getActiveToolName s = (case name t of JUndefined \<Rightarrow> JNull | v \<Rightarrow> v)"
  by (simp add: getActiveToolName_def)

lemma deactivation_callFree:
  assumes "callFree (deactivationHook s)"
  shows "deactivation d s =
     (Inr (),
      (afterHook (deactivationHook s) s)
        \<lparr>trace := trace s @
           hookEvents OnDeactivate (case getActiveTool s of None \<Rightarrow> JNull | Some c \<Rightarrow> name c)
             (deactivationHook s) ''Tool onDeactivate error''
             (outcomeOf (deactivationHook s) s)\<rparr>)"
proof (cases "activeTool (toolSystem s)")
  case None
  then show ?thesis
    by (simp add: deactivation_def deactivationHook_def ret_def)
next
  case (Some cur)
  then have "callFree (onDeactivate cur)"
    using assms by (simp add: deactivationHook_def)
  from guardedHook_callFree[OF this] show ?thesis
    using Some by (simp add: deactivation_def deactivationHook_def getActiveTool_def)
qed

lemma activate_callFree:
  assumes "tools (toolSystem s) nm = Some nx" and "callFree (onActivate nx)"
  shows "activate d nm s =
     (Inr (),
      (afterHook (onActivate nx) (setActive nx (snd (deactivation d s))))
        \<lparr>trace := trace (snd (deactivation d s)) @
           hookEvents OnActivate (name nx) (onActivate nx) ''Tool onActivate error''
             (outcomeOf (onActivate nx) (setActive nx (snd (deactivation d s))))\<rparr>)"
  by (simp add: activate_registered[OF assms(1)] guardedHook_callFree[OF assms(2)])

lemma activate_sets_slot:
  assumes "tools (toolSystem s) nm = Some nx" and "callFree (onActivate nx)"
  shows "activeTool (toolSystem (snd (activate d nm s))) = Some nx"
  by (simp add: activate_callFree[OF assms])

lemma take_prefix_length:
  "take n xs = ys @ [y] \<Longrightarrow> n = Suc (length ys) \<Longrightarrow> Suc (length ys) \<le> length xs"
proof -
  assume a: "take n xs = ys @ [y]" and n: "n = Suc (length ys)"
  have "length (take n xs) = Suc (length ys)"
    by (simp only: a) simp
  then show ?thesis
    using n by simp
qed

lemma activate_first_call:
  assumes "tools (toolSystem s) nm = Some nx" and "activeTool (toolSystem s) = Some cur"
    and "onDeactivate cur = Some dk"
  shows "take (Suc (length (trace s))) (trace (snd (deactivation d s))) =
      trace s @ [Invoke OnDeactivate (name cur)] \<and>
    take (Suc (length (trace s))) (trace (snd (activate d nm s))) =
      trace s @ [Invoke OnDeactivate (name cur)]"
proof -
  let ?s1 = "snd (deactivation d s)"
  have a: "take (Suc (length (trace s))) (trace ?s1) = trace s @ [Invoke OnDeactivate (name cur)]"
    using guardedHook_first[of s d OnDeactivate cur dk "''Tool onDeactivate error''"] assms
    by (simp add: deactivation_def)
  have le: "Suc (length (trace s)) \<le> length (trace ?s1)"
    by (rule take_prefix_length[OF a]) simp
  have "steady (setActive nx ?s1) (snd (activate d nm s))"
    by (simp add: activate_registered[OF assms(1)] steady_guardedHook)
  then have tk: "take (length (trace ?s1)) (trace (snd (activate d nm s))) = trace ?s1"
    by (simp add: steady_def)
  have "take (Suc (length (trace s))) (trace (snd (activate d nm s))) =
      take (Suc (length (trace s))) (take (length (trace ?s1)) (trace (snd (activate d nm s))))"
    using le by (simp add: min_absorb1)
  then show ?thesis
    by (simp add: tk a)
qed

text \<open>
  C3 as stated fails for a tool whose activation hook itself calls \<open>activate\<close>. With the
  tool \<open>Brush\<close> active, a tool of the same name is registered whose activation hook
  activates the tool \<open>Faulty\<close>, and \<open>Brush\<close> is activated: the deactivation hook of a
  tool named \<open>Brush\<close> runs twice, and the active tool's name is \<open>Faulty\<close> afterwards.
\<close>

theorem reentrant_activation_counterexample:
  "getActiveToolName brushPage = JStr ''Brush'' \<and>
   name brush3 = JStr ''Brush'' \<and>
   fst (seq (register (Some brush3)) (activate 2 ''Brush'') brushPage) = Inr () \<and>
   hookCalls (trace (snd (seq (register (Some brush3)) (activate 2 ''Brush'') brushPage))) =
     [(OnDeactivate, JStr ''Brush''), (OnActivate, JStr ''Brush''),
      (OnDeactivate, JStr ''Brush''), (OnActivate, JStr ''Faulty'')] \<and>
   getActiveToolName (snd (seq (register (Some brush3)) (activate 2 ''Brush'') brushPage)) =
     JStr ''Faulty''"
  by (simp add: brushPage_def setActive_def idlePage_def brush3_def brush_def faulty_def relay_def
      getActiveToolName_def logging_def failing_def switching_def
      register_def activate_def activateWith_def call_def
      seq_def and_then_def try_catch_def emit_def ret_def throw_def numeral_2_eq_2)

text \<open>
  C3, amended. \<open>activate\<close> with a registered name runs, in this order: the guarded call
  of the deactivation hook of the tool that is active (if there is one and it has the
  hook), the call being the first thing added to the trace; the assignment of the active
  slot; the guarded call of the activation hook of the new tool (if it has one), which
  starts with the new tool in the active slot and after everything the first step did.
  A throw of either hook is reported on the console and goes no further, so \<open>activate\<close>
  returns. When neither hook makes a call of the ToolSystem, these two are the only hook
  calls, the new tool is active afterwards, and its name is the active name. So
  registering a tool under the name of the active tool and activating that name calls
  the old instance's deactivation hook and then the new instance's activation hook, once
  each, and the new instance is active under that name, provided those two hooks make
  no call of the ToolSystem.
\<close>

theorem activate_runs_deactivate_then_activate:
  "(tools (toolSystem s) nm = Some nx \<longrightarrow>
    fst (deactivation d s) = Inr () \<and>
    activate d nm s =
      guardedHook (serve d) OnActivate nx (onActivate nx) ''Tool onActivate error''
        (setActive nx (snd (deactivation d s))) \<and>
    getActiveTool (setActive nx (snd (deactivation d s))) = Some nx \<and>
    fst (activate d nm s) = Inr ()) \<and>
(tools (toolSystem s) nm = Some nx \<and> getActiveTool s = Some cur \<and> onDeactivate cur = Some dk \<longrightarrow>
    take (Suc (length (trace s))) (trace (snd (deactivation d s))) =
      trace s @ [Invoke OnDeactivate (name cur)] \<and>
    take (Suc (length (trace s))) (trace (snd (activate d nm s))) =
      trace s @ [Invoke OnDeactivate (name cur)]) \<and>
(tools (toolSystem s) nm = Some nx \<and> onActivate nx = Some ak \<longrightarrow>
    take (Suc (length (trace (snd (deactivation d s))))) (trace (snd (activate d nm s))) =
      trace (snd (deactivation d s)) @ [Invoke OnActivate (name nx)]) \<and>
(tools (toolSystem s) nm = Some nx \<and> callFree (deactivationHook s) \<and> callFree (onActivate nx) \<longrightarrow>
    hookCalls (trace (snd (activate d nm s))) =
      hookCalls (trace s) @
      oneCall OnDeactivate (case getActiveTool s of None \<Rightarrow> JNull | Some c \<Rightarrow> name c)
        (deactivationHook s) @
      oneCall OnActivate (name nx) (onActivate nx) \<and>
    getActiveTool (snd (activate d nm s)) = Some nx \<and>
    getActiveToolName (snd (activate d nm s)) = (case name nx of JUndefined \<Rightarrow> JNull | v \<Rightarrow> v) \<and>
    world (snd (activate d nm s)) =
      world (afterHook (onActivate nx) (setActive nx (afterHook (deactivationHook s) s)))) \<and>
(getActiveTool s1 = Some old \<and> name old = JStr n \<and> name new = JStr n \<and> n \<noteq> [] \<and> callFree (onDeactivate old) \<and> callFree (onActivate new) \<longrightarrow>
    fst (seq (register (Some new)) (activate d n) s1) = Inr () \<and>
    hookCalls (trace (snd (seq (register (Some new)) (activate d n) s1))) =
      hookCalls (trace s1) @ oneCall OnDeactivate (JStr n) (onDeactivate old) @
      oneCall OnActivate (JStr n) (onActivate new) \<and>
    getActiveToolName (snd (seq (register (Some new)) (activate d n) s1)) = JStr n \<and>
    getActiveTool (snd (seq (register (Some new)) (activate d n) s1)) = Some new)"
proof -
  have p1: "(tools (toolSystem s) nm = Some nx) \<longrightarrow>
        (fst (deactivation d s) = Inr () \<and>
        activate d nm s =
          guardedHook (serve d) OnActivate nx (onActivate nx) ''Tool onActivate error''
            (setActive nx (snd (deactivation d s))) \<and>
        getActiveTool (setActive nx (snd (deactivation d s))) = Some nx \<and>
        fst (activate d nm s) = Inr ())"
    by (simp add: deactivation_returns activate_registered guardedHook_returns)
  have p2: "(tools (toolSystem s) nm = Some nx \<and> getActiveTool s = Some cur \<and> onDeactivate cur = Some dk) \<longrightarrow>
        (take (Suc (length (trace s))) (trace (snd (deactivation d s))) =
          trace s @ [Invoke OnDeactivate (name cur)] \<and>
        take (Suc (length (trace s))) (trace (snd (activate d nm s))) =
          trace s @ [Invoke OnDeactivate (name cur)])"
    using activate_first_call[of s nm nx cur dk d] by (simp add: getActiveTool_def)
  have p3: "(tools (toolSystem s) nm = Some nx \<and> onActivate nx = Some ak) \<longrightarrow>
        (take (Suc (length (trace (snd (deactivation d s))))) (trace (snd (activate d nm s))) =
          trace (snd (deactivation d s)) @ [Invoke OnActivate (name nx)])"
  proof (intro impI)
    assume h: "tools (toolSystem s) nm = Some nx \<and> onActivate nx = Some ak"
    then have look: "tools (toolSystem s) nm = Some nx" and ak: "onActivate nx = Some ak"
      by blast+
    show "take (Suc (length (trace (snd (deactivation d s))))) (trace (snd (activate d nm s))) =
        trace (snd (deactivation d s)) @ [Invoke OnActivate (name nx)]"
      using guardedHook_first[of "setActive nx (snd (deactivation d s))" d OnActivate nx ak
          "''Tool onActivate error''"]
      by (simp add: activate_registered[OF look] ak)
  qed
  have p4: "(tools (toolSystem s) nm = Some nx \<and> callFree (deactivationHook s) \<and> callFree (onActivate nx)) \<longrightarrow>
        (hookCalls (trace (snd (activate d nm s))) =
          hookCalls (trace s) @
          oneCall OnDeactivate (case getActiveTool s of None \<Rightarrow> JNull | Some c \<Rightarrow> name c)
            (deactivationHook s) @
          oneCall OnActivate (name nx) (onActivate nx) \<and>
        getActiveTool (snd (activate d nm s)) = Some nx \<and>
        getActiveToolName (snd (activate d nm s)) = (case name nx of JUndefined \<Rightarrow> JNull | v \<Rightarrow> v) \<and>
        world (snd (activate d nm s)) =
          world (afterHook (onActivate nx) (setActive nx (afterHook (deactivationHook s) s))))"
  proof (intro impI)
    assume h: "tools (toolSystem s) nm = Some nx \<and> callFree (deactivationHook s) \<and> callFree (onActivate nx)"
    then have look: "tools (toolSystem s) nm = Some nx" and cd: "callFree (deactivationHook s)"
      and ca: "callFree (onActivate nx)"
      by blast+
    note dd = deactivation_callFree[OF cd, of d]
    note aa = activate_callFree[OF look ca, of d]
    have w: "world (snd (activate d nm s)) =
        world (afterHook (onActivate nx) (setActive nx (afterHook (deactivationHook s) s)))"
      unfolding aa unfolding dd
      by (simp add: afterHook_def setActive_def getActiveToolName_def)
    show "hookCalls (trace (snd (activate d nm s))) =
        hookCalls (trace s) @
        oneCall OnDeactivate (case getActiveTool s of None \<Rightarrow> JNull | Some c \<Rightarrow> name c)
          (deactivationHook s) @
        oneCall OnActivate (name nx) (onActivate nx) \<and>
      getActiveTool (snd (activate d nm s)) = Some nx \<and>
      getActiveToolName (snd (activate d nm s)) = (case name nx of JUndefined \<Rightarrow> JNull | v \<Rightarrow> v) \<and>
      world (snd (activate d nm s)) =
        world (afterHook (onActivate nx) (setActive nx (afterHook (deactivationHook s) s)))"
      using w by (simp add: aa dd getActiveTool_def getActiveToolName_def)
  qed
  have p5: "(getActiveTool s1 = Some old \<and> name old = JStr n \<and> name new = JStr n \<and> n \<noteq> [] \<and> callFree (onDeactivate old) \<and> callFree (onActivate new)) \<longrightarrow>
        (fst (seq (register (Some new)) (activate d n) s1) = Inr () \<and>
        hookCalls (trace (snd (seq (register (Some new)) (activate d n) s1))) =
          hookCalls (trace s1) @ oneCall OnDeactivate (JStr n) (onDeactivate old) @
          oneCall OnActivate (JStr n) (onActivate new) \<and>
        getActiveToolName (snd (seq (register (Some new)) (activate d n) s1)) = JStr n \<and>
        getActiveTool (snd (seq (register (Some new)) (activate d n) s1)) = Some new)"
  proof (intro impI)
    assume h: "getActiveTool s1 = Some old \<and> name old = JStr n \<and> name new = JStr n \<and> n \<noteq> [] \<and> callFree (onDeactivate old) \<and> callFree (onActivate new)"
    let ?T = "(tools (toolSystem s1))(n \<mapsto> new)"
    let ?s = "withTools ?T s1"
    from h have r: "register (Some new) s1 = (Inr (), ?s)"
      by (simp add: register_valid)
    have look: "tools (toolSystem ?s) n = Some new"
      by (simp add: withTools_def)
    have act: "activeTool (toolSystem ?s) = Some old"
      using h by (simp add: withTools_def getActiveTool_def)
    have dh: "deactivationHook ?s = onDeactivate old"
      by (simp add: deactivationHook_def act del: deactivationHook_withTools)
    have dh1: "deactivationHook s1 = onDeactivate old"
      using h by (simp add: deactivationHook_def getActiveTool_def)
    have cd: "callFree (deactivationHook ?s)"
      using h dh by simp
    have ca: "callFree (onActivate new)"
      using h by blast
    have sq: "seq (register (Some new)) (activate d n) s1 = activate d n ?s"
      by (simp add: seq_def and_then_def r)
    note dd = deactivation_callFree[OF cd, of d]
    note aa = activate_callFree[OF look ca, of d]
    have nm: "name old = JStr n" "name new = JStr n"
      using h by blast+
    show "fst (seq (register (Some new)) (activate d n) s1) = Inr () \<and>
      hookCalls (trace (snd (seq (register (Some new)) (activate d n) s1))) =
        hookCalls (trace s1) @ oneCall OnDeactivate (JStr n) (onDeactivate old) @
        oneCall OnActivate (JStr n) (onActivate new) \<and>
      getActiveToolName (snd (seq (register (Some new)) (activate d n) s1)) = JStr n \<and>
      getActiveTool (snd (seq (register (Some new)) (activate d n) s1)) = Some new"
      unfolding sq
      by (simp add: aa dd dh dh1 getActiveTool_def getActiveToolName_def act nm)
         (simp add: withTools_def)
  qed
  from p1 p2 p3 p4 p5 show ?thesis
    by blast
qed

theorem activate_runs_deactivate_then_activate_witness:
  "(tools (toolSystem brushPage) ''Faulty'' = Some faulty) \<and>
(fst (deactivation 2 brushPage) = Inr () \<and>
activate 2 ''Faulty'' brushPage =
  guardedHook (serve 2) OnActivate faulty (onActivate faulty) ''Tool onActivate error''
    (setActive faulty (snd (deactivation 2 brushPage))) \<and>
getActiveTool (setActive faulty (snd (deactivation 2 brushPage))) = Some faulty \<and>
fst (activate 2 ''Faulty'' brushPage) = Inr ()) \<and>
(tools (toolSystem brushPage) ''Faulty'' = Some faulty \<and> getActiveTool brushPage = Some brush \<and> onDeactivate brush = Some (logging ''Brush.deactivate'')) \<and>
(take (Suc (length (trace brushPage))) (trace (snd (deactivation 2 brushPage))) =
  trace brushPage @ [Invoke OnDeactivate (name brush)] \<and>
take (Suc (length (trace brushPage))) (trace (snd (activate 2 ''Faulty'' brushPage))) =
  trace brushPage @ [Invoke OnDeactivate (name brush)]) \<and>
(tools (toolSystem brushPage) ''Faulty'' = Some faulty \<and> onActivate faulty = Some (failing ''Faulty.activate'')) \<and>
(take (Suc (length (trace (snd (deactivation 2 brushPage))))) (trace (snd (activate 2 ''Faulty'' brushPage))) =
  trace (snd (deactivation 2 brushPage)) @ [Invoke OnActivate (name faulty)]) \<and>
(tools (toolSystem brushPage) ''Faulty'' = Some faulty \<and> callFree (deactivationHook brushPage) \<and> callFree (onActivate faulty)) \<and>
(hookCalls (trace (snd (activate 2 ''Faulty'' brushPage))) =
  hookCalls (trace brushPage) @
  oneCall OnDeactivate (case getActiveTool brushPage of None \<Rightarrow> JNull | Some c \<Rightarrow> name c)
    (deactivationHook brushPage) @
  oneCall OnActivate (name faulty) (onActivate faulty) \<and>
getActiveTool (snd (activate 2 ''Faulty'' brushPage)) = Some faulty \<and>
getActiveToolName (snd (activate 2 ''Faulty'' brushPage)) = (case name faulty of JUndefined \<Rightarrow> JNull | v \<Rightarrow> v) \<and>
world (snd (activate 2 ''Faulty'' brushPage)) =
  world (afterHook (onActivate faulty) (setActive faulty (afterHook (deactivationHook brushPage) brushPage)))) \<and>
(getActiveTool brushPage = Some brush \<and> name brush = JStr ''Brush'' \<and> name brush2 = JStr ''Brush'' \<and> ''Brush'' \<noteq> [] \<and> callFree (onDeactivate brush) \<and> callFree (onActivate brush2)) \<and>
(fst (seq (register (Some brush2)) (activate 2 ''Brush'') brushPage) = Inr () \<and>
hookCalls (trace (snd (seq (register (Some brush2)) (activate 2 ''Brush'') brushPage))) =
  hookCalls (trace brushPage) @ oneCall OnDeactivate (JStr ''Brush'') (onDeactivate brush) @
  oneCall OnActivate (JStr ''Brush'') (onActivate brush2) \<and>
getActiveToolName (snd (seq (register (Some brush2)) (activate 2 ''Brush'') brushPage)) = JStr ''Brush'' \<and>
getActiveTool (snd (seq (register (Some brush2)) (activate 2 ''Brush'') brushPage)) = Some brush2) \<and>
(world (snd (seq (register (Some brush2)) (activate 2 ''Brush'') brushPage)) =
  [''Brush.deactivate while Brush'', ''Brush2.activate while Brush'']) \<and>
(trace (snd (activate 2 ''Faulty'' brushPage)) =
  [Invoke OnDeactivate (JStr ''Brush''), Invoke OnActivate (JStr ''Faulty''),
   ConsoleError ''Tool onActivate error'' (Some (Error ''Faulty.activate''))]) \<and>
(world (snd (activate 2 ''Brush'' faultyPage)) =
  [''Faulty.deactivate'', ''Brush.activate while Brush''])"
proof -
  have h1: "tools (toolSystem brushPage) ''Faulty'' = Some faulty"
    by (simp add: brushPage_fields)
  have h2: "tools (toolSystem brushPage) ''Faulty'' = Some faulty \<and> getActiveTool brushPage = Some brush \<and> onDeactivate brush = Some (logging ''Brush.deactivate'')"
    by (simp add: brushPage_fields getActiveTool_def brush_def)
  have h3: "tools (toolSystem brushPage) ''Faulty'' = Some faulty \<and> onActivate faulty = Some (failing ''Faulty.activate'')"
    by (simp add: brushPage_fields faulty_def)
  have h4: "tools (toolSystem brushPage) ''Faulty'' = Some faulty \<and> callFree (deactivationHook brushPage) \<and> callFree (onActivate faulty)"
    by (simp add: brushPage_fields deactivationHook_def callFree_def brush_def faulty_def
        logging_def failing_def)
  have h5: "getActiveTool brushPage = Some brush \<and> name brush = JStr ''Brush'' \<and> name brush2 = JStr ''Brush'' \<and> ''Brush'' \<noteq> [] \<and> callFree (onDeactivate brush) \<and> callFree (onActivate brush2)"
    by (simp add: brushPage_fields getActiveTool_def callFree_def brush_def brush2_def logging_def)
  note t = activate_runs_deactivate_then_activate[where s=brushPage and nm="''Faulty''" and nx=faulty and d=2 and cur=brush
      and dk="logging ''Brush.deactivate''" and ak="failing ''Faulty.activate''"
      and ?s1.0=brushPage and old=brush and new=brush2 and n="''Brush''" ]
  have x1: "world (snd (seq (register (Some brush2)) (activate 2 ''Brush'') brushPage)) =
      [''Brush.deactivate while Brush'', ''Brush2.activate while Brush'']"
    by (simp add: brushPage_def faultyPage_def setActive_def idlePage_def brush2_def brush_def faulty_def relay_def
        getActiveToolName_def logging_def failing_def switching_def snapshotOf_def
        register_def activate_def activateWith_def call_def
        seq_def and_then_def try_catch_def emit_def ret_def throw_def)
  have x2: "trace (snd (activate 2 ''Faulty'' brushPage)) =
      [Invoke OnDeactivate (JStr ''Brush''), Invoke OnActivate (JStr ''Faulty''),
       ConsoleError ''Tool onActivate error'' (Some (Error ''Faulty.activate''))]"
    by (simp add: brushPage_def faultyPage_def setActive_def idlePage_def brush2_def brush_def faulty_def relay_def
        getActiveToolName_def logging_def failing_def switching_def snapshotOf_def
        register_def activate_def activateWith_def call_def
        seq_def and_then_def try_catch_def emit_def ret_def throw_def)
  have x3: "world (snd (activate 2 ''Brush'' faultyPage)) =
      [''Faulty.deactivate'', ''Brush.activate while Brush'']"
    by (simp add: brushPage_def faultyPage_def setActive_def idlePage_def brush2_def brush_def faulty_def relay_def
        getActiveToolName_def logging_def failing_def switching_def snapshotOf_def
        register_def activate_def activateWith_def call_def
        seq_def and_then_def try_catch_def emit_def ret_def throw_def)
  show ?thesis
    using t h1 h2 h3 h4 h5 x1 x2 x3 by blast
qed




subsection \<open>Dispatch\<close>




section \<open>The pointer router\<close>

lemma makePointerData_frame:
  "canvasOrigin s' = canvasOrigin s \<Longrightarrow> viewToProject s' = viewToProject s \<Longrightarrow>
     makePointerData s' ev = makePointerData s ev"
  by (simp add: makePointerData_def Let_def)

lemma makePointerData_trace [simp]:
  "makePointerData (s\<lparr>trace := tr\<rparr>) ev = makePointerData s ev"
  by (simp add: makePointerData_def Let_def)

lemma trackSession_result:
  "trackSession type data s =
     (Inr (),
      s\<lparr>sessionManager :=
          (if type = ''pointerdown'' then start data (sessionManager s)
           else if type = ''pointermove'' then move data (sessionManager s)
           else if type = ''pointerup'' then snd (end_session data (sessionManager s))
           else sessionManager s)\<rparr>)"
  by (simp add: trackSession_def ret_def)

lemma capture_result:
  "target ev \<noteq> None \<Longrightarrow>
     (if etype ev = ''pointerdown'' then capturePointer ev else ret ()) s =
       (Inr (), s\<lparr>trace := trace s @
          (if etype ev = ''pointerdown'' \<and> has_setPointerCapture (the (target ev))
           then [SetPointerCapture (ev_pointerId ev)] else [])\<rparr>)"
  by (auto simp: capturePointer_def emit_def ret_def)

lemma dispatchPointer_result:
  "dispatchPointer d type e s = (Inr (), snd (dispatchPointer d type e s))"
  using dispatchPointer_returns[of d type e s] by (cases "dispatchPointer d type e s") simp

lemma upToDispatch_returns:
  assumes "target ev \<noteq> None"
  shows "fst (upToDispatch d ev s) = Inr () \<and>
     paperManager (snd (upToDispatch d ev s)) = paperManager s \<and>
     count_list (trace (snd (upToDispatch d ev s))) ProjectChanged =
       count_list (trace s) ProjectChanged"
proof -
  let ?s1 = "s\<lparr>trace := trace s @ [PreventDefault] @
          (if etype ev = ''pointerdown'' \<and> has_setPointerCapture (the (target ev))
           then [SetPointerCapture (ev_pointerId ev)] else [])\<rparr>"
  let ?data = "makePointerData s ev"
  let ?s2 = "snd (trackSession (normalisedType ev) ?data ?s1)"
  have u: "upToDispatch d ev s = dispatchPointer d (normalisedType ev) ?data ?s2"
    unfolding upToDispatch_def seq_def and_then_def
    by (simp add: emit_def capture_result[OF assms] trackSession_result Let_def)
  have st: "steady ?s2 (snd (dispatchPointer d (normalisedType ev) ?data ?s2))"
    by (rule steady_dispatchPointer)
  have "paperManager ?s2 = paperManager s"
    and "count_list (trace ?s2) ProjectChanged = count_list (trace s) ProjectChanged"
    by (simp_all add: trackSession_result)
  then show ?thesis
    using st by (simp add: u dispatchPointer_returns steady_def)
qed

lemma routePointer_upToDispatch:
  "\<not> shouldIgnore ev \<Longrightarrow>
     routePointer d ev s =
       seq (upToDispatch d ev)
         (if normalisedType ev = ''pointerdown'' \<or> normalisedType ev = ''pointerup''
          then notifyProjectChanged else ret ()) s"
  unfolding routePointer_def upToDispatch_def seq_def and_then_def
  by (simp add: Let_def split: prod.splits sum.splits)

text \<open>
  C8. For an event that is not ignored, delivered to an element, on a page whose
  \<open>window.paperManager.notifyProjectChanged\<close> exists: \<open>routePointer\<close> first runs
  everything up to and including the dispatch to the tool, none of which notifies,
  whatever the tool's handler does; it then calls \<open>notifyProjectChanged\<close> once if the
  normalised type is \<open>pointerdown\<close> or \<open>pointerup\<close> and not at all otherwise. The
  notification is the last thing that happens.
\<close>

theorem notification_only_for_down_and_up:
  "(\<not> shouldIgnore ev \<and> target ev \<noteq> None \<and> paperManager s \<longrightarrow>
    fst (upToDispatch d ev s) = Inr () \<and>
    count_list (trace (snd (upToDispatch d ev s))) ProjectChanged = count_list (trace s) ProjectChanged \<and>
    routePointer d ev s =
      (Inr (),
       if normalisedType ev = ''pointerdown'' \<or> normalisedType ev = ''pointerup''
       then (snd (upToDispatch d ev s))\<lparr>trace := trace (snd (upToDispatch d ev s)) @ [ProjectChanged]\<rparr>
       else snd (upToDispatch d ev s)) \<and>
    count_list (trace (snd (routePointer d ev s))) ProjectChanged =
      count_list (trace s) ProjectChanged +
        (if normalisedType ev = ''pointerdown'' \<or> normalisedType ev = ''pointerup'' then 1 else 0))"
proof (intro impI)
  assume h: "\<not> shouldIgnore ev \<and> target ev \<noteq> None \<and> paperManager s"
  then have tg: "target ev \<noteq> None" and ni: "\<not> shouldIgnore ev" and pm: "paperManager s"
    by blast+
  note u = upToDispatch_returns[OF tg, of d s]
  obtain s' where s': "upToDispatch d ev s = (Inr (), s')"
    using u by (cases "upToDispatch d ev s") auto
  have pm': "paperManager s'"
    using u pm s' by simp
  have r: "routePointer d ev s =
      (Inr (),
       if normalisedType ev = ''pointerdown'' \<or> normalisedType ev = ''pointerup''
       then s'\<lparr>trace := trace s' @ [ProjectChanged]\<rparr> else s')"
    using pm'
    by (simp add: routePointer_upToDispatch[OF ni] seq_def and_then_def s'
        notifyProjectChanged_def emit_def ret_def)
  show "fst (upToDispatch d ev s) = Inr () \<and>
      count_list (trace (snd (upToDispatch d ev s))) ProjectChanged = count_list (trace s) ProjectChanged \<and>
      routePointer d ev s =
        (Inr (),
         if normalisedType ev = ''pointerdown'' \<or> normalisedType ev = ''pointerup''
         then (snd (upToDispatch d ev s))\<lparr>trace := trace (snd (upToDispatch d ev s)) @ [ProjectChanged]\<rparr>
         else snd (upToDispatch d ev s)) \<and>
      count_list (trace (snd (routePointer d ev s))) ProjectChanged =
        count_list (trace s) ProjectChanged +
          (if normalisedType ev = ''pointerdown'' \<or> normalisedType ev = ''pointerup'' then 1 else 0)"
    using u by (simp add: r s')
qed

theorem notification_only_for_down_and_up_witness:
  "(\<not> shouldIgnore (rawPen ''pointermove'' 3) \<and> target (rawPen ''pointermove'' 3) \<noteq> None \<and> paperManager brushPage) \<and>
(fst (upToDispatch 2 (rawPen ''pointermove'' 3) brushPage) = Inr () \<and>
count_list (trace (snd (upToDispatch 2 (rawPen ''pointermove'' 3) brushPage))) ProjectChanged = count_list (trace brushPage) ProjectChanged \<and>
routePointer 2 (rawPen ''pointermove'' 3) brushPage =
  (Inr (),
   if normalisedType (rawPen ''pointermove'' 3) = ''pointerdown'' \<or> normalisedType (rawPen ''pointermove'' 3) = ''pointerup''
   then (snd (upToDispatch 2 (rawPen ''pointermove'' 3) brushPage))\<lparr>trace := trace (snd (upToDispatch 2 (rawPen ''pointermove'' 3) brushPage)) @ [ProjectChanged]\<rparr>
   else snd (upToDispatch 2 (rawPen ''pointermove'' 3) brushPage)) \<and>
count_list (trace (snd (routePointer 2 (rawPen ''pointermove'' 3) brushPage))) ProjectChanged =
  count_list (trace brushPage) ProjectChanged +
    (if normalisedType (rawPen ''pointermove'' 3) = ''pointerdown'' \<or> normalisedType (rawPen ''pointermove'' 3) = ''pointerup'' then 1 else 0)) \<and>
(\<not> shouldIgnore (rawPen ''pointerdown'' 3) \<and> target (rawPen ''pointerdown'' 3) \<noteq> None \<and> paperManager brushPage) \<and>
(fst (upToDispatch 2 (rawPen ''pointerdown'' 3) brushPage) = Inr () \<and>
count_list (trace (snd (upToDispatch 2 (rawPen ''pointerdown'' 3) brushPage))) ProjectChanged = count_list (trace brushPage) ProjectChanged \<and>
routePointer 2 (rawPen ''pointerdown'' 3) brushPage =
  (Inr (),
   if normalisedType (rawPen ''pointerdown'' 3) = ''pointerdown'' \<or> normalisedType (rawPen ''pointerdown'' 3) = ''pointerup''
   then (snd (upToDispatch 2 (rawPen ''pointerdown'' 3) brushPage))\<lparr>trace := trace (snd (upToDispatch 2 (rawPen ''pointerdown'' 3) brushPage)) @ [ProjectChanged]\<rparr>
   else snd (upToDispatch 2 (rawPen ''pointerdown'' 3) brushPage)) \<and>
count_list (trace (snd (routePointer 2 (rawPen ''pointerdown'' 3) brushPage))) ProjectChanged =
  count_list (trace brushPage) ProjectChanged +
    (if normalisedType (rawPen ''pointerdown'' 3) = ''pointerdown'' \<or> normalisedType (rawPen ''pointerdown'' 3) = ''pointerup'' then 1 else 0)) \<and>
   trace (snd (routePointer 2 (rawPen ''pointermove'' 3) brushPage)) =
     [PreventDefault, Invoke OnPointerMove (JStr ''Brush'')] \<and>
   trace (snd (routePointer 2 (rawPen ''pointerdown'' 3) brushPage)) =
     [PreventDefault, SetPointerCapture 7, Invoke OnPointerDown (JStr ''Brush''), ProjectChanged] \<and>
   trace (snd (routePointer 2 (rawPen ''pointerdown'' 3) relayPage)) =
     [PreventDefault, SetPointerCapture 7, Invoke OnPointerDown (JStr ''Relay''),
      Invoke OnActivate (JStr ''Brush''),
      ConsoleError ''Tool (Brush) pointer handler error'' (Some (Error ''Relay.down'')),
      ProjectChanged]"
proof -
  have h: "\<not> shouldIgnore (rawPen ''pointermove'' 3) \<and> target (rawPen ''pointermove'' 3) \<noteq> None \<and> paperManager brushPage"
    by (simp add: shouldIgnore_def rawPen_def brushPage_fields)
  have hb: "\<not> shouldIgnore (rawPen ''pointerdown'' 3) \<and> target (rawPen ''pointerdown'' 3) \<noteq> None \<and> paperManager brushPage"
    by (simp add: shouldIgnore_def rawPen_def brushPage_fields)
  note t = notification_only_for_down_and_up[where ev="rawPen ''pointermove'' 3" and s=brushPage and d=2]
  note tb = notification_only_for_down_and_up[where ev="rawPen ''pointerdown'' 3" and s=brushPage and d=2]
  have e1: "trace (snd (routePointer 2 (rawPen ''pointermove'' 3) brushPage)) =
     [PreventDefault, Invoke OnPointerMove (JStr ''Brush'')]"
    by (simp add: brushPage_def faultyPage_def relayPage_def setActive_def idlePage_def
        brush_def faulty_def relay_def rawPen_def
        getActiveToolName_def getActiveTool_def logging_def failing_def switching_def
        snapshotOf_def pointerLogging_def pointerFailing_def
        routePointer_def shouldIgnore_def normalisedType_def capturePointer_def
        notifyProjectChanged_def trackSession_def makePointerData_def Let_def
        call_def call_opt_def dispatchPointer_def dispatchPointerWith_def
        reportHandlerError_def
        seq_def and_then_def try_catch_def emit_def ret_def throw_def)
  have e2: "trace (snd (routePointer 2 (rawPen ''pointerdown'' 3) brushPage)) =
     [PreventDefault, SetPointerCapture 7, Invoke OnPointerDown (JStr ''Brush''), ProjectChanged]"
    by (simp add: brushPage_def faultyPage_def relayPage_def setActive_def idlePage_def
        brush_def faulty_def relay_def rawPen_def
        getActiveToolName_def getActiveTool_def logging_def failing_def switching_def
        snapshotOf_def pointerLogging_def pointerFailing_def
        routePointer_def shouldIgnore_def normalisedType_def capturePointer_def
        notifyProjectChanged_def trackSession_def makePointerData_def Let_def
        call_def call_opt_def dispatchPointer_def dispatchPointerWith_def
        reportHandlerError_def
        seq_def and_then_def try_catch_def emit_def ret_def throw_def)
  have e3: "trace (snd (routePointer 2 (rawPen ''pointerdown'' 3) relayPage)) =
     [PreventDefault, SetPointerCapture 7, Invoke OnPointerDown (JStr ''Relay''),
      Invoke OnActivate (JStr ''Brush''),
      ConsoleError ''Tool (Brush) pointer handler error'' (Some (Error ''Relay.down'')),
      ProjectChanged]"
    by (simp add: brushPage_def faultyPage_def relayPage_def setActive_def idlePage_def
        brush_def faulty_def relay_def rawPen_def
        getActiveToolName_def getActiveTool_def logging_def failing_def switching_def
        snapshotOf_def pointerLogging_def pointerFailing_def
        routePointer_def shouldIgnore_def normalisedType_def capturePointer_def
        notifyProjectChanged_def trackSession_def makePointerData_def Let_def
        call_def call_opt_def dispatchPointer_def dispatchPointerWith_def
        reportHandlerError_def
        seq_def and_then_def try_catch_def emit_def ret_def throw_def
        activate_def activateWith_def numeral_2_eq_2)
  show ?thesis
    using t tb h hb e1 e2 e3 by blast
qed

text \<open>
  C1 as stated fails: an event without a pressure reading gets the canonical pressure 0,
  not 0.5.
\<close>

theorem missing_pressure_is_zero_counterexample:
  "ev_pressure rawNoPressure = None \<and>
   pressure (makePointerData idlePage rawNoPressure) = 0 \<and>
   pressure (makePointerData idlePage rawNoPressure) \<noteq> 1 / 2"
  by (simp add: makePointerData_def Let_def rawNoPressure_def)

text \<open>
  C1, amended. The canonical pressure is the raw reading when there is one and 0 when
  there is none, so it lies in [0, 1] whenever the raw reading, if any, does.
\<close>

theorem canonical_pressure:
  "pressure (makePointerData s ev) = (case ev_pressure ev of Some p \<Rightarrow> p | None \<Rightarrow> 0) \<and>
(ev_pressure ev0 = None \<longrightarrow>
    pressure (makePointerData s ev0) = 0) \<and>
((case ev_pressure ev of None \<Rightarrow> True | Some p \<Rightarrow> 0 \<le> p \<and> p \<le> 1) \<longrightarrow>
    0 \<le> pressure (makePointerData s ev) \<and> pressure (makePointerData s ev) \<le> 1)"
  by (simp add: makePointerData_def Let_def split: option.splits)

theorem canonical_pressure_witness:
  "(pressure (makePointerData brushPage (rawPen ''pointerdown'' 0)) = (case ev_pressure (rawPen ''pointerdown'' 0) of Some p \<Rightarrow> p | None \<Rightarrow> 0)) \<and>
(ev_pressure rawNoPressure = None) \<and>
(pressure (makePointerData brushPage rawNoPressure) = 0) \<and>
((case ev_pressure (rawPen ''pointerdown'' 0) of None \<Rightarrow> True | Some p \<Rightarrow> 0 \<le> p \<and> p \<le> 1)) \<and>
(0 \<le> pressure (makePointerData brushPage (rawPen ''pointerdown'' 0)) \<and> pressure (makePointerData brushPage (rawPen ''pointerdown'' 0)) \<le> 1)"
proof -
  have h2: "ev_pressure rawNoPressure = None"
    by (simp add: rawNoPressure_def)
  have h3: "(case ev_pressure (rawPen ''pointerdown'' 0) of None \<Rightarrow> True | Some p \<Rightarrow> 0 \<le> p \<and> p \<le> 1)"
    by (simp add: rawPen_def)
  show ?thesis
    using canonical_pressure[where s=brushPage and ev="rawPen ''pointerdown'' 0"
        and ?ev0.0=rawNoPressure] h2 h3
    by blast
qed


lemma locally_noTouch:
  "noTouch k \<Longrightarrow> noCalls k \<Longrightarrow> fst (snd (locally k an (m, w))) = m"
proof (induction k arbitrary: m w)
  case (Try b h k)
  obtain r1 m1 w1 where l1: "locally b an (m, w) = (r1, (m1, w1))"
    by (metis prod.exhaust)
  have m1: "m1 = m"
    using Try.IH(1)[of m w] Try.prems l1 by simp
  obtain r2 m2 w2 where l2: "locally h an (m, w1) = (r2, (m2, w2))"
    by (metis prod.exhaust)
  have m2: "m2 = m"
    using Try.IH(2)[of m w1] Try.prems l2 by simp
  show ?case
    using Try.IH(3)[of m w1] Try.IH(3)[of m w2] Try.prems
    by (cases r1; cases r2) (simp_all add: seq_def and_then_def try_catch_def l1 l2 m1 m2)
qed (simp_all add: ret_def throw_def)

lemma seq_after_dispatch:
  "seq (dispatchPointer d type e) n s = n (snd (dispatchPointer d type e s))"
proof -
  obtain s' where "dispatchPointer d type e s = (Inr (), s')"
    using dispatchPointer_returns[of d type e s] by (cases "dispatchPointer d type e s") auto
  then show ?thesis
    by (simp add: seq_def and_then_def)
qed

lemma afterHook_sessions:
  "callFree ko \<Longrightarrow> touchFree ko \<Longrightarrow> sessionManager (afterHook ko s) = sessionManager s"
  by (cases ko)
     (simp_all add: afterHook_def hookLocally_def ret_def callFree_def touchFree_def
        locally_noTouch)

lemma routePointer_as_up:
  assumes "etype ev = ''pointercancel'' \<or> etype ev = ''pointerup''" and "\<not> shouldIgnore ev"
  shows "routePointer d ev s =
      seq (emit PreventDefault)
        (seq (trackSession ''pointerup'' (makePointerData s ev))
          (seq (dispatchPointer d ''pointerup'' (makePointerData s ev)) notifyProjectChanged)) s"
proof -
  have ty: "normalisedType ev = ''pointerup''" and nd: "etype ev \<noteq> ''pointerdown''"
    using assms(1) by (auto simp: normalisedType_def)
  show ?thesis
    unfolding routePointer_def using assms(2) nd
    by (simp add: ty seq_def and_then_def emit_def ret_def Let_def trackSession_result)
qed

lemma routePointer_up_state:
  assumes "etype ev = ''pointercancel'' \<or> etype ev = ''pointerup''" and "\<not> shouldIgnore ev"
  shows "routePointer d ev s =
      seq (dispatchPointer d ''pointerup'' (makePointerData s ev)) notifyProjectChanged
        (s\<lparr>trace := trace s @ [PreventDefault],
           sessionManager := snd (end_session (makePointerData s ev) (sessionManager s))\<rparr>)"
  by (simp add: routePointer_as_up[OF assms] seq_def and_then_def emit_def trackSession_result)

lemma end_session_state:
  "snd (end_session data m) = m\<lparr>sessions := (sessions m)(pointerId data := None)\<rparr>"
proof (cases "sessions m (pointerId data)")
  case None
  then have "(sessions m)(pointerId data := None) = sessions m"
    by (auto simp: fun_eq_iff)
  then show ?thesis
    using None by (simp add: end_session_def)
next
  case (Some arr)
  then show ?thesis
    by (simp add: end_session_def)
qed

lemma notify_result:
  "notifyProjectChanged s =
     (Inr (), if paperManager s then s\<lparr>trace := trace s @ [ProjectChanged]\<rparr> else s)"
  by (simp add: notifyProjectChanged_def emit_def ret_def)

lemma routePointer_up_returns:
  assumes "etype ev = ''pointercancel'' \<or> etype ev = ''pointerup''"
  shows "fst (routePointer d ev s) = Inr () \<and>
     count_list (trace (snd (routePointer d ev s))) ProjectChanged =
       count_list (trace s) ProjectChanged +
         (if \<not> shouldIgnore ev \<and> paperManager s then 1 else 0)"
proof (cases "shouldIgnore ev")
  case True
  then show ?thesis
    by (simp add: routePointer_def ret_def)
next
  case False
  let ?s2 = "s\<lparr>trace := trace s @ [PreventDefault],
           sessionManager := snd (end_session (makePointerData s ev) (sessionManager s))\<rparr>"
  let ?s3 = "snd (dispatchPointer d ''pointerup'' (makePointerData s ev) ?s2)"
  have st: "steady ?s2 ?s3"
    by (rule steady_dispatchPointer)
  have r: "routePointer d ev s = notifyProjectChanged ?s3"
    unfolding routePointer_up_state[OF assms False] by (simp add: seq_after_dispatch)
  show ?thesis
    using st False by (simp add: r notify_result steady_def)
qed

text \<open>
  C5. No event has the normalised type \<open>pointercancel\<close>: a cancel event and the same
  event with type \<open>pointerup\<close> are both normalised to \<open>pointerup\<close>, are ignored or not
  together, and their canonical events differ in the \<open>native\<close> field only, the raw event
  that is passed through. If not ignored, both are routed as: \<open>preventDefault\<close>, \<open>end\<close>
  on the session tracker, the dispatch of kind \<open>pointerup\<close>, the project-changed
  notification. \<open>end\<close> does the same for both, it removes the pointer's session; so the
  ToolSystem is called with the same kind in the same state, with no session left for
  the pointer, and it calls the active tool's \<open>onPointerUp\<close> hook. Both routings return,
  with the same number of notifications. They leave the same ToolSystem, the same
  session manager and the same hook calls when the hook confines itself to the state
  outside the two classes, and they are the same altogether when the hook does not tell
  the two canonical events apart.
\<close>

theorem cancel_routed_as_up:
  "(normalisedType ev \<noteq> ''pointercancel'' \<and>
normalisedType (ev\<lparr>etype := ''pointercancel''\<rparr>) = ''pointerup'' \<and>
normalisedType (ev\<lparr>etype := ''pointerup''\<rparr>) = ''pointerup'' \<and>
shouldIgnore (ev\<lparr>etype := ''pointercancel''\<rparr>) = shouldIgnore (ev\<lparr>etype := ''pointerup''\<rparr>) \<and>
(makePointerData s (ev\<lparr>etype := ''pointercancel''\<rparr>)) = (makePointerData s (ev\<lparr>etype := ''pointerup''\<rparr>))\<lparr>native := (ev\<lparr>etype := ''pointercancel''\<rparr>)\<rparr> \<and>
trackSession ''pointerup'' (makePointerData s (ev\<lparr>etype := ''pointercancel''\<rparr>)) sa = trackSession ''pointerup'' (makePointerData s (ev\<lparr>etype := ''pointerup''\<rparr>)) sa \<and>
fst (routePointer d (ev\<lparr>etype := ''pointercancel''\<rparr>) s) = Inr () \<and>
fst (routePointer d (ev\<lparr>etype := ''pointerup''\<rparr>) s) = Inr () \<and>
count_list (trace (snd (routePointer d (ev\<lparr>etype := ''pointercancel''\<rparr>) s))) ProjectChanged =
  count_list (trace (snd (routePointer d (ev\<lparr>etype := ''pointerup''\<rparr>) s))) ProjectChanged) \<and>
((etype ev = ''pointercancel'' \<or> etype ev = ''pointerup'') \<and> \<not> shouldIgnore ev \<longrightarrow>
    routePointer d ev s =
      seq (emit PreventDefault)
        (seq (trackSession ''pointerup'' (makePointerData s ev))
          (seq (dispatchPointer d ''pointerup'' (makePointerData s ev)) notifyProjectChanged)) s \<and>
    routePointer d ev s =
      seq (dispatchPointer d ''pointerup'' (makePointerData s ev)) notifyProjectChanged
        (s\<lparr>trace := trace s @ [PreventDefault],
          sessionManager := (sessionManager s)\<lparr>sessions := (sessions (sessionManager s))(ev_pointerId ev := None)\<rparr>\<rparr>) \<and>
    get (ev_pointerId ev) (sessionManager (s\<lparr>trace := trace s @ [PreventDefault],
          sessionManager := (sessionManager s)\<lparr>sessions := (sessions (sessionManager s))(ev_pointerId ev := None)\<rparr>\<rparr>)) = None) \<and>
((etype ev = ''pointercancel'' \<or> etype ev = ''pointerup'') \<and> \<not> shouldIgnore ev \<and> getActiveTool s = Some t \<and> onPointerUp t = Some f \<longrightarrow>
    take (length (trace s) + 2) (trace (snd (routePointer d ev s))) =
      trace s @ [PreventDefault, Invoke OnPointerUp (name t)]) \<and>
((case getActiveTool s of
   None \<Rightarrow> True
 | Some a \<Rightarrow>
     callFree (pointerHook a ''pointerup'' (makePointerData s (ev\<lparr>etype := ''pointercancel''\<rparr>))) \<and>
     touchFree (pointerHook a ''pointerup'' (makePointerData s (ev\<lparr>etype := ''pointercancel''\<rparr>))) \<and>
     callFree (pointerHook a ''pointerup'' (makePointerData s (ev\<lparr>etype := ''pointerup''\<rparr>))) \<and>
     touchFree (pointerHook a ''pointerup'' (makePointerData s (ev\<lparr>etype := ''pointerup''\<rparr>)))) \<longrightarrow>
    toolSystem (snd (routePointer d (ev\<lparr>etype := ''pointercancel''\<rparr>) s)) = toolSystem (snd (routePointer d (ev\<lparr>etype := ''pointerup''\<rparr>) s)) \<and>
    sessionManager (snd (routePointer d (ev\<lparr>etype := ''pointercancel''\<rparr>) s)) = sessionManager (snd (routePointer d (ev\<lparr>etype := ''pointerup''\<rparr>) s)) \<and>
    hookCalls (trace (snd (routePointer d (ev\<lparr>etype := ''pointercancel''\<rparr>) s))) = hookCalls (trace (snd (routePointer d (ev\<lparr>etype := ''pointerup''\<rparr>) s)))) \<and>
((case getActiveTool s of
   None \<Rightarrow> True
 | Some a \<Rightarrow>
     (case onPointerUp a of
        None \<Rightarrow> True
      | Some g \<Rightarrow> g (makePointerData s (ev\<lparr>etype := ''pointercancel''\<rparr>)) = g (makePointerData s (ev\<lparr>etype := ''pointerup''\<rparr>)))) \<longrightarrow>
    routePointer d (ev\<lparr>etype := ''pointercancel''\<rparr>) s = routePointer d (ev\<lparr>etype := ''pointerup''\<rparr>) s)"
proof -
  let ?c = "(ev\<lparr>etype := ''pointercancel''\<rparr>)" and ?u = "(ev\<lparr>etype := ''pointerup''\<rparr>)"
  let ?dc = "makePointerData s ?c" and ?du = "makePointerData s ?u"
  have ig: "shouldIgnore ?c = shouldIgnore ?u"
    by (simp add: shouldIgnore_def)
  have pid: "pointerId ?dc = pointerId ?du"
    by (simp add: makePointerData_def Let_def)
  have es: "snd (end_session ?dc m) = snd (end_session ?du m)" for m
    using pid by (simp add: end_session_state)
  have tyc: "etype ?c = ''pointercancel'' \<or> etype ?c = ''pointerup''"
    and tyu: "etype ?u = ''pointercancel'' \<or> etype ?u = ''pointerup''"
    by simp_all
  let ?s2 = "s\<lparr>trace := trace s @ [PreventDefault],
           sessionManager := snd (end_session ?du (sessionManager s))\<rparr>"
  have rc: "routePointer d ?c s =
      seq (dispatchPointer d ''pointerup'' ?dc) notifyProjectChanged ?s2"
    if "\<not> shouldIgnore ?u"
    using routePointer_up_state[OF tyc, of d s] that ig by (simp add: es)
  have ru: "routePointer d ?u s =
      seq (dispatchPointer d ''pointerup'' ?du) notifyProjectChanged ?s2"
    if "\<not> shouldIgnore ?u"
    using routePointer_up_state[OF tyu, of d s] that by simp
  have p1: "normalisedType ev \<noteq> ''pointercancel'' \<and>
    normalisedType (ev\<lparr>etype := ''pointercancel''\<rparr>) = ''pointerup'' \<and>
    normalisedType (ev\<lparr>etype := ''pointerup''\<rparr>) = ''pointerup'' \<and>
    shouldIgnore (ev\<lparr>etype := ''pointercancel''\<rparr>) = shouldIgnore (ev\<lparr>etype := ''pointerup''\<rparr>) \<and>
    (makePointerData s (ev\<lparr>etype := ''pointercancel''\<rparr>)) = (makePointerData s (ev\<lparr>etype := ''pointerup''\<rparr>))\<lparr>native := (ev\<lparr>etype := ''pointercancel''\<rparr>)\<rparr> \<and>
    trackSession ''pointerup'' (makePointerData s (ev\<lparr>etype := ''pointercancel''\<rparr>)) sa = trackSession ''pointerup'' (makePointerData s (ev\<lparr>etype := ''pointerup''\<rparr>)) sa \<and>
    fst (routePointer d (ev\<lparr>etype := ''pointercancel''\<rparr>) s) = Inr () \<and>
    fst (routePointer d (ev\<lparr>etype := ''pointerup''\<rparr>) s) = Inr () \<and>
    count_list (trace (snd (routePointer d (ev\<lparr>etype := ''pointercancel''\<rparr>) s))) ProjectChanged =
      count_list (trace (snd (routePointer d (ev\<lparr>etype := ''pointerup''\<rparr>) s))) ProjectChanged"
  proof -
    have cnt: "count_list (trace (snd (routePointer d ?c s))) ProjectChanged =
        count_list (trace (snd (routePointer d ?u s))) ProjectChanged"
      using routePointer_up_returns[OF tyc, of d s] routePointer_up_returns[OF tyu, of d s] ig
      by simp
    have n1: "normalisedType ev \<noteq> ''pointercancel''"
      by (simp add: normalisedType_def)
    have n2: "normalisedType ?c = ''pointerup''" "normalisedType ?u = ''pointerup''"
      by (simp_all add: normalisedType_def)
    have md: "?dc = ?du\<lparr>native := ?c\<rparr>"
      by (simp add: makePointerData_def Let_def)
    have tk: "trackSession ''pointerup'' ?dc sa = trackSession ''pointerup'' ?du sa"
      by (simp add: trackSession_result es)
    have f1: "fst (routePointer d ?c s) = Inr ()" "fst (routePointer d ?u s) = Inr ()"
      using routePointer_up_returns[OF tyc, of d s] routePointer_up_returns[OF tyu, of d s]
      by simp_all
    from n1 n2 ig md tk f1 cnt show ?thesis
      by blast
  qed
  have p2: "((etype ev = ''pointercancel'' \<or> etype ev = ''pointerup'') \<and> \<not> shouldIgnore ev) \<longrightarrow>
        (routePointer d ev s =
          seq (emit PreventDefault)
            (seq (trackSession ''pointerup'' (makePointerData s ev))
              (seq (dispatchPointer d ''pointerup'' (makePointerData s ev)) notifyProjectChanged)) s \<and>
        routePointer d ev s =
          seq (dispatchPointer d ''pointerup'' (makePointerData s ev)) notifyProjectChanged
            (s\<lparr>trace := trace s @ [PreventDefault],
              sessionManager := (sessionManager s)\<lparr>sessions := (sessions (sessionManager s))(ev_pointerId ev := None)\<rparr>\<rparr>) \<and>
        get (ev_pointerId ev) (sessionManager (s\<lparr>trace := trace s @ [PreventDefault],
              sessionManager := (sessionManager s)\<lparr>sessions := (sessions (sessionManager s))(ev_pointerId ev := None)\<rparr>\<rparr>)) = None)"
  proof (intro impI)
    assume h: "(etype ev = ''pointercancel'' \<or> etype ev = ''pointerup'') \<and> \<not> shouldIgnore ev"
    then have ty: "etype ev = ''pointercancel'' \<or> etype ev = ''pointerup''" and ni: "\<not> shouldIgnore ev"
      by blast+
    have pe: "pointerId (makePointerData s ev) = ev_pointerId ev"
      by (simp add: makePointerData_def Let_def)
    have a: "routePointer d ev s =
      seq (emit PreventDefault)
        (seq (trackSession ''pointerup'' (makePointerData s ev))
          (seq (dispatchPointer d ''pointerup'' (makePointerData s ev)) notifyProjectChanged)) s"
      by (rule routePointer_as_up[OF ty ni])
    have b: "routePointer d ev s =
      seq (dispatchPointer d ''pointerup'' (makePointerData s ev)) notifyProjectChanged
        (s\<lparr>trace := trace s @ [PreventDefault],
           sessionManager := (sessionManager s)\<lparr>sessions := (sessions (sessionManager s))(ev_pointerId ev := None)\<rparr>\<rparr>)"
      using routePointer_up_state[OF ty ni, of d s] by (simp add: end_session_state pe)
    have c: "get (ev_pointerId ev) (sessionManager (s\<lparr>trace := trace s @ [PreventDefault],
           sessionManager := (sessionManager s)\<lparr>sessions := (sessions (sessionManager s))(ev_pointerId ev := None)\<rparr>\<rparr>)) = None"
      by (simp add: get_def)
    from a b c show "routePointer d ev s =
      seq (emit PreventDefault)
        (seq (trackSession ''pointerup'' (makePointerData s ev))
          (seq (dispatchPointer d ''pointerup'' (makePointerData s ev)) notifyProjectChanged)) s \<and>
      routePointer d ev s =
        seq (dispatchPointer d ''pointerup'' (makePointerData s ev)) notifyProjectChanged
          (s\<lparr>trace := trace s @ [PreventDefault],
      sessionManager := (sessionManager s)\<lparr>sessions := (sessions (sessionManager s))(ev_pointerId ev := None)\<rparr>\<rparr>) \<and>
      get (ev_pointerId ev) (sessionManager (s\<lparr>trace := trace s @ [PreventDefault],
      sessionManager := (sessionManager s)\<lparr>sessions := (sessions (sessionManager s))(ev_pointerId ev := None)\<rparr>\<rparr>)) = None"
      by blast
  qed
  have p3: "((etype ev = ''pointercancel'' \<or> etype ev = ''pointerup'') \<and> \<not> shouldIgnore ev \<and> getActiveTool s = Some t \<and> onPointerUp t = Some f) \<longrightarrow>
        (take (length (trace s) + 2) (trace (snd (routePointer d ev s))) =
          trace s @ [PreventDefault, Invoke OnPointerUp (name t)])"
  proof (intro impI)
    assume h: "(etype ev = ''pointercancel'' \<or> etype ev = ''pointerup'') \<and> \<not> shouldIgnore ev \<and> getActiveTool s = Some t \<and> onPointerUp t = Some f"
    then have ty: "etype ev = ''pointercancel'' \<or> etype ev = ''pointerup''" and ni: "\<not> shouldIgnore ev"
      and a: "activeTool (toolSystem s) = Some t" and f: "onPointerUp t = Some f"
      by (simp_all add: getActiveTool_def)
    let ?d = "makePointerData s ev"
    let ?s2 = "s\<lparr>trace := trace s @ [PreventDefault],
           sessionManager := snd (end_session ?d (sessionManager s))\<rparr>"
    let ?s3 = "snd (dispatchPointer d ''pointerup'' ?d ?s2)"
    have a2: "activeTool (toolSystem ?s2) = Some t"
      using a by simp
    have ph: "pointerHook t ''pointerup'' ?d = Some (f ?d)"
      by (simp add: pointerHook_def f)
    have tk: "take (Suc (length (trace ?s2))) (trace ?s3) =
        trace ?s2 @ [Invoke (pointerKind ''pointerup'') (name t)]"
      using guarded_dispatch_first[of ?s2 d "pointerKind ''pointerup''" t "f ?d" "''pointer''"] a2
      by (simp add: dispatchPointer_active[OF a2] ph)
    have le: "Suc (length (trace ?s2)) \<le> length (trace ?s3)"
    proof -
      have "length (take (Suc (length (trace ?s2))) (trace ?s3)) = Suc (length (trace ?s2))"
        by (simp only: tk) simp
      then show ?thesis
        by simp
    qed
    have r: "routePointer d ev s = notifyProjectChanged ?s3"
      unfolding routePointer_up_state[OF ty ni] by (simp add: seq_after_dispatch)
    show "take (length (trace s) + 2) (trace (snd (routePointer d ev s))) =
        trace s @ [PreventDefault, Invoke OnPointerUp (name t)]"
      using tk le by (simp add: r notify_result pointerKind_def)
  qed
  have p4: "((case getActiveTool s of
       None \<Rightarrow> True
     | Some a \<Rightarrow>
         callFree (pointerHook a ''pointerup'' (makePointerData s (ev\<lparr>etype := ''pointercancel''\<rparr>))) \<and>
         touchFree (pointerHook a ''pointerup'' (makePointerData s (ev\<lparr>etype := ''pointercancel''\<rparr>))) \<and>
         callFree (pointerHook a ''pointerup'' (makePointerData s (ev\<lparr>etype := ''pointerup''\<rparr>))) \<and>
         touchFree (pointerHook a ''pointerup'' (makePointerData s (ev\<lparr>etype := ''pointerup''\<rparr>))))) \<longrightarrow>
        (toolSystem (snd (routePointer d (ev\<lparr>etype := ''pointercancel''\<rparr>) s)) = toolSystem (snd (routePointer d (ev\<lparr>etype := ''pointerup''\<rparr>) s)) \<and>
        sessionManager (snd (routePointer d (ev\<lparr>etype := ''pointercancel''\<rparr>) s)) = sessionManager (snd (routePointer d (ev\<lparr>etype := ''pointerup''\<rparr>) s)) \<and>
        hookCalls (trace (snd (routePointer d (ev\<lparr>etype := ''pointercancel''\<rparr>) s))) = hookCalls (trace (snd (routePointer d (ev\<lparr>etype := ''pointerup''\<rparr>) s))))"
  proof (intro impI)
    assume h: "(case getActiveTool s of
        None \<Rightarrow> True
      | Some a \<Rightarrow>
          callFree (pointerHook a ''pointerup'' (makePointerData s (ev\<lparr>etype := ''pointercancel''\<rparr>))) \<and>
          touchFree (pointerHook a ''pointerup'' (makePointerData s (ev\<lparr>etype := ''pointercancel''\<rparr>))) \<and>
          callFree (pointerHook a ''pointerup'' (makePointerData s (ev\<lparr>etype := ''pointerup''\<rparr>))) \<and>
          touchFree (pointerHook a ''pointerup'' (makePointerData s (ev\<lparr>etype := ''pointerup''\<rparr>))))"
    have fr: "toolSystem (snd (dispatchPointer d ''pointerup'' ?dc ?s2)) =
                toolSystem (snd (dispatchPointer d ''pointerup'' ?du ?s2)) \<and>
              sessionManager (snd (dispatchPointer d ''pointerup'' ?dc ?s2)) =
                sessionManager (snd (dispatchPointer d ''pointerup'' ?du ?s2)) \<and>
              hookCalls (trace (snd (dispatchPointer d ''pointerup'' ?dc ?s2))) =
                hookCalls (trace (snd (dispatchPointer d ''pointerup'' ?du ?s2))) \<and>
              paperManager (snd (dispatchPointer d ''pointerup'' ?dc ?s2)) =
                paperManager (snd (dispatchPointer d ''pointerup'' ?du ?s2))"
    proof (cases "activeTool (toolSystem s)")
      case None
      then have "activeTool (toolSystem ?s2) = None"
        by simp
      then show ?thesis
        by (simp add: dispatchPointer_idle)
    next
      case (Some a)
      then have a2: "activeTool (toolSystem ?s2) = Some a"
        by simp
      have cc: "callFree (pointerHook a ''pointerup'' ?dc)"
        and tc: "touchFree (pointerHook a ''pointerup'' ?dc)"
        and cu: "callFree (pointerHook a ''pointerup'' ?du)"
        and tu: "touchFree (pointerHook a ''pointerup'' ?du)"
        using h Some by (simp_all add: getActiveTool_def)
      have oc: "oneCall OnPointerUp (name a) (pointerHook a ''pointerup'' ?dc) =
          oneCall OnPointerUp (name a) (pointerHook a ''pointerup'' ?du)"
        by (cases "onPointerUp a") (simp_all add: pointerHook_def oneCall_def)
      show ?thesis
        by (simp add: dispatchPointer_active[OF a2] dispatch_callFree[OF cc a2]
            dispatch_callFree[OF cu a2] afterHook_sessions[OF cc tc] afterHook_sessions[OF cu tu]
            oc pointerKind_def)
    qed
    show "toolSystem (snd (routePointer d ?c s)) = toolSystem (snd (routePointer d ?u s)) \<and>
      sessionManager (snd (routePointer d ?c s)) = sessionManager (snd (routePointer d ?u s)) \<and>
      hookCalls (trace (snd (routePointer d ?c s))) = hookCalls (trace (snd (routePointer d ?u s)))"
    proof (cases "shouldIgnore ?u")
      case True
      then show ?thesis
        using ig by (simp add: routePointer_def)
    next
      case False
      have c3: "routePointer d ?c s =
          notifyProjectChanged (snd (dispatchPointer d ''pointerup'' ?dc ?s2))"
        unfolding rc[OF False] by (simp add: seq_after_dispatch)
      have u3: "routePointer d ?u s =
          notifyProjectChanged (snd (dispatchPointer d ''pointerup'' ?du ?s2))"
        unfolding ru[OF False] by (simp add: seq_after_dispatch)
      show ?thesis
        unfolding c3 u3 using fr by (simp add: notify_result)
    qed
  qed
  have p5: "((case getActiveTool s of
       None \<Rightarrow> True
     | Some a \<Rightarrow>
         (case onPointerUp a of
            None \<Rightarrow> True
          | Some g \<Rightarrow> g (makePointerData s (ev\<lparr>etype := ''pointercancel''\<rparr>)) = g (makePointerData s (ev\<lparr>etype := ''pointerup''\<rparr>))))) \<longrightarrow>
        (routePointer d (ev\<lparr>etype := ''pointercancel''\<rparr>) s = routePointer d (ev\<lparr>etype := ''pointerup''\<rparr>) s)"
  proof (intro impI)
    assume h: "(case getActiveTool s of
        None \<Rightarrow> True
      | Some a \<Rightarrow>
          (case onPointerUp a of
             None \<Rightarrow> True
           | Some g \<Rightarrow> g (makePointerData s (ev\<lparr>etype := ''pointercancel''\<rparr>)) = g (makePointerData s (ev\<lparr>etype := ''pointerup''\<rparr>))))"
    have dp: "dispatchPointer d ''pointerup'' ?dc ?s2 = dispatchPointer d ''pointerup'' ?du ?s2"
    proof (cases "activeTool (toolSystem s)")
      case None
      then have "activeTool (toolSystem ?s2) = None"
        by simp
      then show ?thesis
        by (simp add: dispatchPointer_idle)
    next
      case (Some a)
      then have a2: "activeTool (toolSystem ?s2) = Some a"
        by simp
      have "pointerHook a ''pointerup'' ?dc = pointerHook a ''pointerup'' ?du"
        using h Some by (cases "onPointerUp a") (simp_all add: pointerHook_def getActiveTool_def)
      then show ?thesis
        by (simp add: dispatchPointer_active[OF a2])
    qed
    show "routePointer d ?c s = routePointer d ?u s"
    proof (cases "shouldIgnore ?u")
      case True
      then show ?thesis
        using ig by (simp add: routePointer_def)
    next
      case False
      show ?thesis
        unfolding rc[OF False] ru[OF False] by (simp add: seq_def and_then_def dp)
    qed
  qed
  from p1 p2 p3 p4 p5 show ?thesis
    by blast
qed

theorem cancel_routed_as_up_witness:
  "(normalisedType (rawPen ''pointercancel'' 3) \<noteq> ''pointercancel'' \<and>
normalisedType ((rawPen ''pointercancel'' 3)\<lparr>etype := ''pointercancel''\<rparr>) = ''pointerup'' \<and>
normalisedType ((rawPen ''pointercancel'' 3)\<lparr>etype := ''pointerup''\<rparr>) = ''pointerup'' \<and>
shouldIgnore ((rawPen ''pointercancel'' 3)\<lparr>etype := ''pointercancel''\<rparr>) = shouldIgnore ((rawPen ''pointercancel'' 3)\<lparr>etype := ''pointerup''\<rparr>) \<and>
(makePointerData brushPage ((rawPen ''pointercancel'' 3)\<lparr>etype := ''pointercancel''\<rparr>)) = (makePointerData brushPage ((rawPen ''pointercancel'' 3)\<lparr>etype := ''pointerup''\<rparr>))\<lparr>native := ((rawPen ''pointercancel'' 3)\<lparr>etype := ''pointercancel''\<rparr>)\<rparr> \<and>
trackSession ''pointerup'' (makePointerData brushPage ((rawPen ''pointercancel'' 3)\<lparr>etype := ''pointercancel''\<rparr>)) faultyPage = trackSession ''pointerup'' (makePointerData brushPage ((rawPen ''pointercancel'' 3)\<lparr>etype := ''pointerup''\<rparr>)) faultyPage \<and>
fst (routePointer 2 ((rawPen ''pointercancel'' 3)\<lparr>etype := ''pointercancel''\<rparr>) brushPage) = Inr () \<and>
fst (routePointer 2 ((rawPen ''pointercancel'' 3)\<lparr>etype := ''pointerup''\<rparr>) brushPage) = Inr () \<and>
count_list (trace (snd (routePointer 2 ((rawPen ''pointercancel'' 3)\<lparr>etype := ''pointercancel''\<rparr>) brushPage))) ProjectChanged =
  count_list (trace (snd (routePointer 2 ((rawPen ''pointercancel'' 3)\<lparr>etype := ''pointerup''\<rparr>) brushPage))) ProjectChanged) \<and>
((etype (rawPen ''pointercancel'' 3) = ''pointercancel'' \<or> etype (rawPen ''pointercancel'' 3) = ''pointerup'') \<and> \<not> shouldIgnore (rawPen ''pointercancel'' 3)) \<and>
(routePointer 2 (rawPen ''pointercancel'' 3) brushPage =
  seq (emit PreventDefault)
    (seq (trackSession ''pointerup'' (makePointerData brushPage (rawPen ''pointercancel'' 3)))
      (seq (dispatchPointer 2 ''pointerup'' (makePointerData brushPage (rawPen ''pointercancel'' 3))) notifyProjectChanged)) brushPage \<and>
routePointer 2 (rawPen ''pointercancel'' 3) brushPage =
  seq (dispatchPointer 2 ''pointerup'' (makePointerData brushPage (rawPen ''pointercancel'' 3))) notifyProjectChanged
    (brushPage\<lparr>trace := trace brushPage @ [PreventDefault],
      sessionManager := (sessionManager brushPage)\<lparr>sessions := (sessions (sessionManager brushPage))(ev_pointerId (rawPen ''pointercancel'' 3) := None)\<rparr>\<rparr>) \<and>
get (ev_pointerId (rawPen ''pointercancel'' 3)) (sessionManager (brushPage\<lparr>trace := trace brushPage @ [PreventDefault],
      sessionManager := (sessionManager brushPage)\<lparr>sessions := (sessions (sessionManager brushPage))(ev_pointerId (rawPen ''pointercancel'' 3) := None)\<rparr>\<rparr>)) = None) \<and>
((etype (rawPen ''pointercancel'' 3) = ''pointercancel'' \<or> etype (rawPen ''pointercancel'' 3) = ''pointerup'') \<and> \<not> shouldIgnore (rawPen ''pointercancel'' 3) \<and> getActiveTool brushPage = Some brush \<and> onPointerUp brush = Some (pointerLogging ''Brush.up'')) \<and>
(take (length (trace brushPage) + 2) (trace (snd (routePointer 2 (rawPen ''pointercancel'' 3) brushPage))) =
  trace brushPage @ [PreventDefault, Invoke OnPointerUp (name brush)]) \<and>
((case getActiveTool brushPage of
   None \<Rightarrow> True
 | Some a \<Rightarrow>
     callFree (pointerHook a ''pointerup'' (makePointerData brushPage ((rawPen ''pointercancel'' 3)\<lparr>etype := ''pointercancel''\<rparr>))) \<and>
     touchFree (pointerHook a ''pointerup'' (makePointerData brushPage ((rawPen ''pointercancel'' 3)\<lparr>etype := ''pointercancel''\<rparr>))) \<and>
     callFree (pointerHook a ''pointerup'' (makePointerData brushPage ((rawPen ''pointercancel'' 3)\<lparr>etype := ''pointerup''\<rparr>))) \<and>
     touchFree (pointerHook a ''pointerup'' (makePointerData brushPage ((rawPen ''pointercancel'' 3)\<lparr>etype := ''pointerup''\<rparr>))))) \<and>
(toolSystem (snd (routePointer 2 ((rawPen ''pointercancel'' 3)\<lparr>etype := ''pointercancel''\<rparr>) brushPage)) = toolSystem (snd (routePointer 2 ((rawPen ''pointercancel'' 3)\<lparr>etype := ''pointerup''\<rparr>) brushPage)) \<and>
sessionManager (snd (routePointer 2 ((rawPen ''pointercancel'' 3)\<lparr>etype := ''pointercancel''\<rparr>) brushPage)) = sessionManager (snd (routePointer 2 ((rawPen ''pointercancel'' 3)\<lparr>etype := ''pointerup''\<rparr>) brushPage)) \<and>
hookCalls (trace (snd (routePointer 2 ((rawPen ''pointercancel'' 3)\<lparr>etype := ''pointercancel''\<rparr>) brushPage))) = hookCalls (trace (snd (routePointer 2 ((rawPen ''pointercancel'' 3)\<lparr>etype := ''pointerup''\<rparr>) brushPage)))) \<and>
((case getActiveTool brushPage of
   None \<Rightarrow> True
 | Some a \<Rightarrow>
     (case onPointerUp a of
        None \<Rightarrow> True
      | Some g \<Rightarrow> g (makePointerData brushPage ((rawPen ''pointercancel'' 3)\<lparr>etype := ''pointercancel''\<rparr>)) = g (makePointerData brushPage ((rawPen ''pointercancel'' 3)\<lparr>etype := ''pointerup''\<rparr>))))) \<and>
(routePointer 2 ((rawPen ''pointercancel'' 3)\<lparr>etype := ''pointercancel''\<rparr>) brushPage = routePointer 2 ((rawPen ''pointercancel'' 3)\<lparr>etype := ''pointerup''\<rparr>) brushPage) \<and>
(trace (snd (routePointer 2 (rawPen ''pointercancel'' 3) brushPage)) =
  [PreventDefault, Invoke OnPointerUp (JStr ''Brush''), ProjectChanged]) \<and>
(trace (snd (routePointer 2 (rawPen ''pointerup'' 3) brushPage)) =
  [PreventDefault, Invoke OnPointerUp (JStr ''Brush''), ProjectChanged])"
proof -
  have h1: "(etype (rawPen ''pointercancel'' 3) = ''pointercancel'' \<or> etype (rawPen ''pointercancel'' 3) = ''pointerup'') \<and> \<not> shouldIgnore (rawPen ''pointercancel'' 3)"
    by (simp add: rawPen_def shouldIgnore_def)
  have h2: "(etype (rawPen ''pointercancel'' 3) = ''pointercancel'' \<or> etype (rawPen ''pointercancel'' 3) = ''pointerup'') \<and> \<not> shouldIgnore (rawPen ''pointercancel'' 3) \<and> getActiveTool brushPage = Some brush \<and> onPointerUp brush = Some (pointerLogging ''Brush.up'')"
    by (simp add: rawPen_def shouldIgnore_def brushPage_fields getActiveTool_def brush_def)
  have h3: "(case getActiveTool brushPage of
       None \<Rightarrow> True
     | Some a \<Rightarrow>
         callFree (pointerHook a ''pointerup'' (makePointerData brushPage ((rawPen ''pointercancel'' 3)\<lparr>etype := ''pointercancel''\<rparr>))) \<and>
         touchFree (pointerHook a ''pointerup'' (makePointerData brushPage ((rawPen ''pointercancel'' 3)\<lparr>etype := ''pointercancel''\<rparr>))) \<and>
         callFree (pointerHook a ''pointerup'' (makePointerData brushPage ((rawPen ''pointercancel'' 3)\<lparr>etype := ''pointerup''\<rparr>))) \<and>
         touchFree (pointerHook a ''pointerup'' (makePointerData brushPage ((rawPen ''pointercancel'' 3)\<lparr>etype := ''pointerup''\<rparr>))))"
    by (simp add: brushPage_fields getActiveTool_def brush_def pointerHook_def callFree_def touchFree_def
        pointerLogging_def logging_def)
  have h4: "(case getActiveTool brushPage of
       None \<Rightarrow> True
     | Some a \<Rightarrow>
         (case onPointerUp a of
            None \<Rightarrow> True
          | Some g \<Rightarrow> g (makePointerData brushPage ((rawPen ''pointercancel'' 3)\<lparr>etype := ''pointercancel''\<rparr>)) = g (makePointerData brushPage ((rawPen ''pointercancel'' 3)\<lparr>etype := ''pointerup''\<rparr>))))"
    by (simp add: brushPage_fields getActiveTool_def brush_def pointerLogging_def)
  note t = cancel_routed_as_up[where ev="rawPen ''pointercancel'' 3" and s=brushPage and sa=faultyPage and d=2 and t=brush
      and f="pointerLogging ''Brush.up''" ]
  have x1: "trace (snd (routePointer 2 (rawPen ''pointercancel'' 3) brushPage)) =
      [PreventDefault, Invoke OnPointerUp (JStr ''Brush''), ProjectChanged]"
    by (simp add: brushPage_def setActive_def idlePage_def
        brush_def faulty_def relay_def rawPen_def
        getActiveToolName_def getActiveTool_def logging_def
        snapshotOf_def pointerLogging_def
        routePointer_def shouldIgnore_def normalisedType_def capturePointer_def
        notifyProjectChanged_def trackSession_def makePointerData_def Let_def
        call_def call_opt_def dispatchPointer_def dispatchPointerWith_def
        reportHandlerError_def
        seq_def and_then_def try_catch_def emit_def ret_def throw_def)
  have x2: "trace (snd (routePointer 2 (rawPen ''pointerup'' 3) brushPage)) =
      [PreventDefault, Invoke OnPointerUp (JStr ''Brush''), ProjectChanged]"
    by (simp add: brushPage_def setActive_def idlePage_def
        brush_def faulty_def relay_def rawPen_def
        getActiveToolName_def getActiveTool_def logging_def
        snapshotOf_def pointerLogging_def
        routePointer_def shouldIgnore_def normalisedType_def capturePointer_def
        notifyProjectChanged_def trackSession_def makePointerData_def Let_def
        call_def call_opt_def dispatchPointer_def dispatchPointerWith_def
        reportHandlerError_def
        seq_def and_then_def try_catch_def emit_def ret_def throw_def)
  show ?thesis
    using t h1 h2 h3 h4 x1 x2 by blast
qed

section \<open>The raster overlay\<close>

lemma overlayInv_cong:
  "overlay s' = overlay s \<Longrightarrow> overlayInv s' = overlayInv s"
  by (simp add: overlayInv_def split: option.splits)

lemma new_overlay_inv: "overlay s = newOverlayCanvas k opts \<Longrightarrow> overlayInv s"
  by (simp add: overlayInv_def newOverlayCanvas_def)

lemma paperToOverlay_quarter: "paperToOverlay (newOverlayCanvas (1 / 4) opts) (100, 40) = (25, 10)"
  by (simp add: paperToOverlay_def newOverlayCanvas_def)

lemma clear_returns: "fst (clear s) = Inr ()"
  by (simp add: clear_def split: option.splits)

lemma clear_erases:
  assumes "overlayInv s"
  shows "clear s = (Inr (), wiped s)"
proof (cases "canvas (overlay s)")
  case None
  then have "(overlay s)\<lparr>canvas := None\<rparr> = overlay s"
    by (cases "overlay s") simp
  then show ?thesis
    using None by (simp add: clear_def wiped_def split: option.splits)
next
  case (Some c)
  show ?thesis
  proof (cases "ctx (overlay s)")
    case None
    then have "pixels c = blank (width c) (height c)"
      using assms Some by (simp add: overlayInv_def)
    then have "erased c = c"
      by (simp add: erased_def blank_def)
    moreover have "(overlay s)\<lparr>canvas := Some c\<rparr> = overlay s"
      using Some by (cases "overlay s") simp
    ultimately show ?thesis
      using None Some by (simp add: clear_def wiped_def)
  next
    case (Some x)
    then show ?thesis
      using \<open>canvas (overlay s) = Some c\<close> by (simp add: clear_def wiped_def erased_def blank_def)
  qed
qed

lemma wiped_inv: "overlayInv s \<Longrightarrow> overlayInv (wiped s)"
  by (auto simp: overlayInv_def wiped_def erased_def blank_def split: option.splits)

lemma clear_inv: "overlayInv s \<Longrightarrow> overlayInv (snd (clear s))"
  by (simp add: clear_erases wiped_inv)

lemma destroy_inv: "overlayInv (snd (destroy s))"
  by (simp add: destroy_def overlayInv_def Let_def split: option.splits)

lemma destroy_frame:
  "fst (destroy s) = Inr () \<and> paperCanvas (snd (destroy s)) = paperCanvas s \<and>
   canvas (overlay (snd (destroy s))) = None"
  by (simp add: destroy_def Let_def split: option.splits)

lemma updateSize_inv: "overlayInv s \<Longrightarrow> overlayInv (snd (updateSize s))"
  by (auto simp: updateSize_def overlayInv_def Let_def split: option.splits)

lemma paint_inv: "overlayInv s \<Longrightarrow> overlayInv (snd (paint f s))"
  by (auto simp: paint_def overlayInv_def split: option.splits)

lemma resized_inv: "overlayInv s \<Longrightarrow> overlayInv (snd (resized r s))"
  by (auto simp: resized_def updateSize_def overlayInv_def Let_def split: option.splits)

lemma say_result: "say ev s = (Inr (), s\<lparr>console := console s @ [ev]\<rparr>)"
  by (simp add: say_def)

lemma create_hostless:
  "paperCanvas s = None \<Longrightarrow>
     create s = (Inr None, s\<lparr>console := console s @ [ConsoleWarn ''Paper canvas not found'']\<rparr>)"
  by (simp add: create_def seq_def and_then_def say_def ret_def)

lemma create_inv: "overlayInv s \<Longrightarrow> overlayInv (snd (create s))"
proof (cases "paperCanvas s")
  case None
  assume "overlayInv s"
  then show ?thesis
    using None by (simp add: create_hostless overlayInv_def split: option.splits)
next
  case (Some rect)
  obtain d where d: "destroy s = (Inr (), d)"
    using destroy_frame[of s] by (cases "destroy s") auto
  have pd: "paperCanvas d = Some rect"
    using destroy_frame[of s] d Some by simp
  show ?thesis
    using Some pd
    by (simp add: create_def seq_def and_then_def d updateSize_def say_def ret_def
        overlayInv_def Let_def newCanvas_def)
qed

lemma perform_inv: "overlayInv s \<Longrightarrow> overlayInv (perform a s)"
  by (cases a)
     (simp_all add: create_inv destroy_inv clear_inv paint_inv resized_inv
        overlayInv_cong[of "s\<lparr>paperCanvas := None\<rparr>" s])

lemma meanwhile_inv: "overlayInv s \<Longrightarrow> overlayInv (meanwhile as s)"
  by (induction as arbitrary: s) (simp_all add: perform_inv)

lemma guardedTracing_no_canvas:
  "canvas (overlay s) = None \<Longrightarrow>
     guardedTracing during s =
       (Inr None, s\<lparr>console := console s @ [ConsoleWarn ''OverlayCanvas: No canvas to trace'']\<rparr>)"
  by (simp add: guardedTracing_def tracing_def try_catch_def getCanvas_def seq_def
      and_then_def say_def ret_def)

lemma guardedTracing_no_tracer:
  "canvas (overlay s) = Some c \<Longrightarrow> potrace s = None \<Longrightarrow>
     guardedTracing during s =
       (Inr None, s\<lparr>console := console s @
          [ConsoleError ''OverlayCanvas: Potrace is not initialised'' None]\<rparr>)"
  by (simp add: guardedTracing_def tracing_def try_catch_def getCanvas_def seq_def
      and_then_def say_def ret_def)

lemma guardedTracing_rejected:
  "canvas (overlay s) = Some c \<Longrightarrow> potrace s = Some tracer \<Longrightarrow>
   tracer c (potraceOptions (overlay s)) = Inl x \<Longrightarrow>
     guardedTracing during s =
       (Inr None, (meanwhile during s)\<lparr>console := console (meanwhile during s) @
          [ConsoleError ''OverlayCanvas: Potrace vectorisation failed'' (Some x)]\<rparr>)"
  by (simp add: guardedTracing_def tracing_def try_catch_def getCanvas_def seq_def
      and_then_def say_def ret_def awaitPotrace_def)

lemma guardedTracing_resolved:
  "canvas (overlay s) = Some c \<Longrightarrow> potrace s = Some tracer \<Longrightarrow>
   tracer c (potraceOptions (overlay s)) = Inr svg \<Longrightarrow>
     guardedTracing during s =
       (case importSVG (meanwhile during s) svg of
          Inl x \<Rightarrow>
            (Inr None, (meanwhile during s)\<lparr>console := console (meanwhile during s) @
               [ConsoleError ''OverlayCanvas: Potrace vectorisation failed'' (Some x)]\<rparr>)
        | Inr None \<Rightarrow> (Inr None, meanwhile during s)
        | Inr (Some imported) \<Rightarrow>
            (Inr (Some (traced (meanwhile during s) imported)),
             (meanwhile during s)\<lparr>project := project (meanwhile during s) @
               [traced (meanwhile during s) imported]\<rparr>))"
  by (simp add: guardedTracing_def tracing_def try_catch_def getCanvas_def seq_def
      and_then_def say_def ret_def awaitPotrace_def importTraced_def Let_def traced_def
      split: sum.splits option.splits)

lemma guardedTracing_inv:
  assumes "overlayInv s"
  shows "returned (fst (guardedTracing during s)) \<and>
     overlayInv (snd (guardedTracing during s)) \<and>
     overlay (snd (guardedTracing during s)) = overlay (beforeClear during s)"
proof (cases "canvas (overlay s)")
  case None
  then show ?thesis
    using assms
    by (simp add: guardedTracing_no_canvas overlayInv_def beforeClear_def split: option.splits)
next
  case (Some c)
  note c = this
  show ?thesis
  proof (cases "potrace s")
    case None
    then show ?thesis
      using assms c
      by (simp add: guardedTracing_no_tracer[OF c] overlayInv_def beforeClear_def
          split: option.splits)
  next
    case (Some tracer)
    have m: "overlayInv (meanwhile during s)"
      by (rule meanwhile_inv[OF assms])
    have keep: "overlayInv ((meanwhile during s)\<lparr>console := k\<rparr>)"
      "overlayInv ((meanwhile during s)\<lparr>project := pr\<rparr>)" for k pr
      using m by (simp_all add: overlayInv_def split: option.splits)
    have b: "beforeClear during s = meanwhile during s"
      using c Some by (simp add: beforeClear_def)
    show ?thesis
    proof (cases "tracer c (potraceOptions (overlay s))")
      case (Inl x)
      then show ?thesis
        by (simp add: guardedTracing_rejected[OF c Some] keep b)
    next
      case (Inr svg)
      then show ?thesis
        by (simp add: guardedTracing_resolved[OF c Some] keep m b split: sum.splits option.splits)
    qed
  qed
qed

lemma traceToPaper_split:
  "traceToPaper during s =
     (fst (guardedTracing during s), snd (clear (snd (guardedTracing during s))))"
  using clear_returns[of "snd (guardedTracing during s)"]
  by (cases "guardedTracing during s"; cases "clear (snd (guardedTracing during s))")
     (simp add: traceToPaper_def try_finally_def)

lemma traceToPaper_wipes:
  assumes "overlayInv s"
  shows "traceToPaper during s =
     (fst (guardedTracing during s), wiped (snd (guardedTracing during s)))"
  using guardedTracing_inv[OF assms, of during]
  by (simp add: traceToPaper_split clear_erases)

lemma wiped_console [simp]: "wiped (s\<lparr>console := k\<rparr>) = (wiped s)\<lparr>console := k\<rparr>"
  by (simp add: wiped_def)

lemma wiped_project [simp]: "wiped (s\<lparr>project := p\<rparr>) = (wiped s)\<lparr>project := p\<rparr>"
  by (simp add: wiped_def)

lemma wiped_no_canvas: "canvas (overlay s) = None \<Longrightarrow> wiped s = s"
proof -
  assume n: "canvas (overlay s) = None"
  then have "(overlay s)\<lparr>canvas := None\<rparr> = overlay s"
    by (cases "overlay s") simp
  then show ?thesis
    using n by (simp add: wiped_def)
qed

lemma eight_zeros: "replicate 8 (0::nat) = [0, 0, 0, 0, 0, 0, 0, 0]"
  by code_simp

lemma paintedBridge_inv:
  "overlayInv paintedBridge" "overlayInv rejectingBridge" "overlayInv untracedBridge"
  "overlayInv hostlessBridge" "overlayInv orphanBridge"
  by (simp_all add: overlayInv_def paintedBridge_def rejectingBridge_def untracedBridge_def
      hostlessBridge_def orphanBridge_def)

text \<open>
  C6 as stated fails where it says that a missing host canvas makes \<open>traceToPaper\<close>
  report and return nothing: \<open>traceToPaper\<close> does not look for the host canvas. With the
  overlay created and painted and the host canvas then taken out of the document, it
  traces, returns the imported item and reports nothing.
\<close>

theorem host_canvas_missing_counterexample:
  "orphanBridge = meanwhile [DoRemoveHost] paintedBridge \<and>
   paperCanvas orphanBridge = None \<and>
   canvas (overlay orphanBridge) = Some paintedCanvas \<and>
   fst (traceToPaper [] orphanBridge) = Inr (Some (Path () (Some ''#007acc'') (Some ''#ff6b6b''))) \<and>
   console (snd (traceToPaper [] orphanBridge)) = []"
  by (simp add: traceToPaper_wipes[OF paintedBridge_inv(5)])
     (simp add: orphanBridge_def paintedBridge_def paintedCanvas_def guardedTracing_def
        tracing_def try_catch_def getCanvas_def and_then_def awaitPotrace_def importTraced_def
        okTracer_def importsPath_def keepItem_def primaryColour_def secondaryColour_def
        Let_def wiped_def)

text \<open>
  C6, amended. From every state the class can be in (those reached from a new overlay
  are among them), and whatever the page does to the overlay while the Tracer is awaited, \<open>traceToPaper\<close> returns (it never throws), and
  the state it leaves is the one its \<open>try\<close> and \<open>catch\<close> blocks have reached with the
  bitmap of the overlay's canvas erased: the canvas element and its size are kept, every
  byte of the bitmap is 0. This holds when the Tracer resolves and the item is imported,
  and in each of the three failures, in which \<open>traceToPaper\<close> reports on the console
  and returns \<open>null\<close>: the overlay has no canvas (never created, destroyed, or not
  created because \<open>create\<close> found the host canvas missing, which \<open>create\<close> reports too);
  the Tracer is not initialised; the Tracer rejects. A host canvas that is missing when
  the overlay has a canvas is no failure of \<open>traceToPaper\<close>.
\<close>

theorem traceToPaper_always_clears:
  "(overlayInv s \<longrightarrow>
    returned (fst (traceToPaper during s)) \<and>
    snd (traceToPaper during s) = wiped (snd (guardedTracing during s)) \<and>
    overlay (snd (traceToPaper during s)) = overlay (wiped (beforeClear during s)) \<and>
    canvas (overlay (snd (traceToPaper during s))) = map_option erased (canvas (overlay (beforeClear during s))) \<and>
    overlayInv (snd (traceToPaper during s))) \<and>
(canvas (overlay s1) = None \<longrightarrow>
    traceToPaper during s1 =
      (Inr None, s1\<lparr>console := console s1 @ [ConsoleWarn ''OverlayCanvas: No canvas to trace'']\<rparr>)) \<and>
(paperCanvas s4 = None \<and> canvas (overlay s4) = None \<longrightarrow>
    create s4 = (Inr None, s4\<lparr>console := console s4 @ [ConsoleWarn ''Paper canvas not found'']\<rparr>) \<and>
    traceToPaper during (snd (create s4)) =
      (Inr None,
       s4\<lparr>console := console s4 @
          [ConsoleWarn ''Paper canvas not found'', ConsoleWarn ''OverlayCanvas: No canvas to trace'']\<rparr>)) \<and>
(overlayInv s2 \<and> canvas (overlay s2) = Some c2 \<and> potrace s2 = None \<longrightarrow>
    traceToPaper during s2 =
      (Inr None,
       wiped (s2\<lparr>console := console s2 @
          [ConsoleError ''OverlayCanvas: Potrace is not initialised'' None]\<rparr>)) \<and>
    canvas (overlay (snd (traceToPaper during s2))) = Some (erased c2)) \<and>
(overlayInv s3 \<and> canvas (overlay s3) = Some c3 \<and> potrace s3 = Some tracer \<and> tracer c3 (potraceOptions (overlay s3)) = Inl x \<longrightarrow>
    traceToPaper during s3 =
      (Inr None,
       wiped ((meanwhile during s3)\<lparr>console := console (meanwhile during s3) @
          [ConsoleError ''OverlayCanvas: Potrace vectorisation failed'' (Some x)]\<rparr>)) \<and>
    canvas (overlay (snd (traceToPaper during s3))) = map_option erased (canvas (overlay (meanwhile during s3)))) \<and>
(overlayInv s5 \<and> canvas (overlay s5) = Some c5 \<and> potrace s5 = Some tracer5 \<and> tracer5 c5 (potraceOptions (overlay s5)) = Inr svg \<and> importSVG (meanwhile during s5) svg = Inr (Some imported) \<longrightarrow>
    traceToPaper during s5 =
      (Inr (Some (traced (meanwhile during s5) imported)),
       wiped ((meanwhile during s5)\<lparr>project := project (meanwhile during s5) @ [traced (meanwhile during s5) imported]\<rparr>)) \<and>
    canvas (overlay (snd (traceToPaper during s5))) = map_option erased (canvas (overlay (meanwhile during s5)))) \<and>
(overlay s0 = newOverlayCanvas scl opts \<longrightarrow>
    overlayInv (meanwhile earlier s0) \<and>
    returned (fst (traceToPaper during (meanwhile earlier s0))) \<and>
    snd (traceToPaper during (meanwhile earlier s0)) =
      wiped (snd (guardedTracing during (meanwhile earlier s0))) \<and>
    canvas (overlay (snd (traceToPaper during (meanwhile earlier s0)))) =
      map_option erased (canvas (overlay (beforeClear during (meanwhile earlier s0)))))"
proof -
  have p1: "(overlayInv s) \<longrightarrow>
        (returned (fst (traceToPaper during s)) \<and>
        snd (traceToPaper during s) = wiped (snd (guardedTracing during s)) \<and>
        overlay (snd (traceToPaper during s)) = overlay (wiped (beforeClear during s)) \<and>
        canvas (overlay (snd (traceToPaper during s))) = map_option erased (canvas (overlay (beforeClear during s))) \<and>
        overlayInv (snd (traceToPaper during s)))"
  proof (intro impI)
    assume i: "overlayInv s"
    note g = guardedTracing_inv[OF i, of during]
    note w = traceToPaper_wipes[OF i, of during]
    have o: "overlay (snd (traceToPaper during s)) = overlay (wiped (beforeClear during s))"
      using g by (simp add: w wiped_def)
    have c: "canvas (overlay (snd (traceToPaper during s))) =
        map_option erased (canvas (overlay (beforeClear during s)))"
      by (simp add: o) (simp add: wiped_def)
    have v: "overlayInv (snd (traceToPaper during s))"
      using g by (simp add: w wiped_inv)
    have r: "returned (fst (traceToPaper during s))"
      using g by (simp add: w)
    have e: "snd (traceToPaper during s) = wiped (snd (guardedTracing during s))"
      by (simp add: w)
    from r e o c v show "returned (fst (traceToPaper during s)) \<and>
      snd (traceToPaper during s) = wiped (snd (guardedTracing during s)) \<and>
      overlay (snd (traceToPaper during s)) = overlay (wiped (beforeClear during s)) \<and>
      canvas (overlay (snd (traceToPaper during s))) = map_option erased (canvas (overlay (beforeClear during s))) \<and>
      overlayInv (snd (traceToPaper during s))"
      by blast
  qed
  have p2: "(canvas (overlay s1) = None) \<longrightarrow>
        (traceToPaper during s1 =
          (Inr None, s1\<lparr>console := console s1 @ [ConsoleWarn ''OverlayCanvas: No canvas to trace'']\<rparr>))"
    by (simp add: traceToPaper_split guardedTracing_no_canvas clear_def split: option.splits)
  have p3: "(paperCanvas s4 = None \<and> canvas (overlay s4) = None) \<longrightarrow>
        (create s4 = (Inr None, s4\<lparr>console := console s4 @ [ConsoleWarn ''Paper canvas not found'']\<rparr>) \<and>
        traceToPaper during (snd (create s4)) =
          (Inr None,
           s4\<lparr>console := console s4 @
              [ConsoleWarn ''Paper canvas not found'', ConsoleWarn ''OverlayCanvas: No canvas to trace'']\<rparr>))"
  proof (intro impI)
    assume h: "paperCanvas s4 = None \<and> canvas (overlay s4) = None"
    then have cr: "create s4 = (Inr None, s4\<lparr>console := console s4 @ [ConsoleWarn ''Paper canvas not found'']\<rparr>)"
      by (simp add: create_hostless)
    have n: "canvas (overlay (s4\<lparr>console := console s4 @ [ConsoleWarn ''Paper canvas not found'']\<rparr>)) = None"
      using h by simp
    show "create s4 = (Inr None, s4\<lparr>console := console s4 @ [ConsoleWarn ''Paper canvas not found'']\<rparr>) \<and>
      traceToPaper during (snd (create s4)) =
        (Inr None,
         s4\<lparr>console := console s4 @
            [ConsoleWarn ''Paper canvas not found'', ConsoleWarn ''OverlayCanvas: No canvas to trace'']\<rparr>)"
      using n
      by (simp add: cr traceToPaper_split guardedTracing_no_canvas clear_def split: option.splits)
  qed
  have p4: "(overlayInv s2 \<and> canvas (overlay s2) = Some c2 \<and> potrace s2 = None) \<longrightarrow>
        (traceToPaper during s2 =
          (Inr None,
           wiped (s2\<lparr>console := console s2 @
              [ConsoleError ''OverlayCanvas: Potrace is not initialised'' None]\<rparr>)) \<and>
        canvas (overlay (snd (traceToPaper during s2))) = Some (erased c2))"
  proof (intro impI)
    assume h: "overlayInv s2 \<and> canvas (overlay s2) = Some c2 \<and> potrace s2 = None"
    then have i: "overlayInv s2" and c: "canvas (overlay s2) = Some c2" and p: "potrace s2 = None"
      by blast+
    note g = guardedTracing_no_tracer[OF c p, of during]
    show "traceToPaper during s2 =
      (Inr None,
       wiped (s2\<lparr>console := console s2 @
          [ConsoleError ''OverlayCanvas: Potrace is not initialised'' None]\<rparr>)) \<and>
      canvas (overlay (snd (traceToPaper during s2))) = Some (erased c2)"
      using c by (simp add: traceToPaper_wipes[OF i] g) (simp add: wiped_def)
  qed
  have p5: "(overlayInv s3 \<and> canvas (overlay s3) = Some c3 \<and> potrace s3 = Some tracer \<and> tracer c3 (potraceOptions (overlay s3)) = Inl x) \<longrightarrow>
        (traceToPaper during s3 =
          (Inr None,
           wiped ((meanwhile during s3)\<lparr>console := console (meanwhile during s3) @
              [ConsoleError ''OverlayCanvas: Potrace vectorisation failed'' (Some x)]\<rparr>)) \<and>
        canvas (overlay (snd (traceToPaper during s3))) = map_option erased (canvas (overlay (meanwhile during s3))))"
  proof (intro impI)
    assume h: "overlayInv s3 \<and> canvas (overlay s3) = Some c3 \<and> potrace s3 = Some tracer \<and> tracer c3 (potraceOptions (overlay s3)) = Inl x"
    then have i: "overlayInv s3" and c: "canvas (overlay s3) = Some c3"
      and p: "potrace s3 = Some tracer" and t: "tracer c3 (potraceOptions (overlay s3)) = Inl x"
      by blast+
    note g = guardedTracing_rejected[OF c p t, of during]
    show "traceToPaper during s3 =
      (Inr None,
       wiped ((meanwhile during s3)\<lparr>console := console (meanwhile during s3) @
          [ConsoleError ''OverlayCanvas: Potrace vectorisation failed'' (Some x)]\<rparr>)) \<and>
      canvas (overlay (snd (traceToPaper during s3))) = map_option erased (canvas (overlay (meanwhile during s3)))"
      by (simp add: traceToPaper_wipes[OF i] g) (simp add: wiped_def)
  qed
  have p6: "(overlayInv s5 \<and> canvas (overlay s5) = Some c5 \<and> potrace s5 = Some tracer5 \<and> tracer5 c5 (potraceOptions (overlay s5)) = Inr svg \<and> importSVG (meanwhile during s5) svg = Inr (Some imported)) \<longrightarrow>
        (traceToPaper during s5 =
          (Inr (Some (traced (meanwhile during s5) imported)),
           wiped ((meanwhile during s5)\<lparr>project := project (meanwhile during s5) @ [traced (meanwhile during s5) imported]\<rparr>)) \<and>
        canvas (overlay (snd (traceToPaper during s5))) = map_option erased (canvas (overlay (meanwhile during s5))))"
  proof (intro impI)
    assume h: "overlayInv s5 \<and> canvas (overlay s5) = Some c5 \<and> potrace s5 = Some tracer5 \<and> tracer5 c5 (potraceOptions (overlay s5)) = Inr svg \<and> importSVG (meanwhile during s5) svg = Inr (Some imported)"
    then have i: "overlayInv s5" and c: "canvas (overlay s5) = Some c5"
      and p: "potrace s5 = Some tracer5" and t: "tracer5 c5 (potraceOptions (overlay s5)) = Inr svg"
      and im: "importSVG (meanwhile during s5) svg = Inr (Some imported)"
      by blast+
    note g = guardedTracing_resolved[OF c p t, of during]
    show "traceToPaper during s5 =
      (Inr (Some (traced (meanwhile during s5) imported)),
       wiped ((meanwhile during s5)\<lparr>project := project (meanwhile during s5) @ [traced (meanwhile during s5) imported]\<rparr>)) \<and>
      canvas (overlay (snd (traceToPaper during s5))) = map_option erased (canvas (overlay (meanwhile during s5)))"
      by (simp add: traceToPaper_wipes[OF i] g im) (simp add: wiped_def)
  qed
  have p7: "(overlay s0 = newOverlayCanvas scl opts) \<longrightarrow>
        (overlayInv (meanwhile earlier s0) \<and>
        returned (fst (traceToPaper during (meanwhile earlier s0))) \<and>
        snd (traceToPaper during (meanwhile earlier s0)) =
          wiped (snd (guardedTracing during (meanwhile earlier s0))) \<and>
        canvas (overlay (snd (traceToPaper during (meanwhile earlier s0)))) =
          map_option erased (canvas (overlay (beforeClear during (meanwhile earlier s0)))))"
  proof (intro impI)
    assume "overlay s0 = newOverlayCanvas scl opts"
    then have "overlayInv s0"
      by (rule new_overlay_inv)
    then have i: "overlayInv (meanwhile earlier s0)"
      by (rule meanwhile_inv)
    note g = guardedTracing_inv[OF i, of during]
    note w = traceToPaper_wipes[OF i, of during]
    have c: "canvas (overlay (snd (traceToPaper during (meanwhile earlier s0)))) =
        map_option erased (canvas (overlay (beforeClear during (meanwhile earlier s0))))"
      using g by (simp add: w wiped_def)
    from i g c show "overlayInv (meanwhile earlier s0) \<and>
      returned (fst (traceToPaper during (meanwhile earlier s0))) \<and>
      snd (traceToPaper during (meanwhile earlier s0)) =
        wiped (snd (guardedTracing during (meanwhile earlier s0))) \<and>
      canvas (overlay (snd (traceToPaper during (meanwhile earlier s0)))) =
        map_option erased (canvas (overlay (beforeClear during (meanwhile earlier s0))))"
      by (simp add: w)
  qed
  from p1 p2 p3 p4 p5 p6 p7 show ?thesis
    by blast
qed

theorem traceToPaper_always_clears_witness:
  "(overlayInv paintedBridge) \<and>
(returned (fst (traceToPaper [DoPaint scribble] paintedBridge)) \<and>
snd (traceToPaper [DoPaint scribble] paintedBridge) = wiped (snd (guardedTracing [DoPaint scribble] paintedBridge)) \<and>
overlay (snd (traceToPaper [DoPaint scribble] paintedBridge)) = overlay (wiped (beforeClear [DoPaint scribble] paintedBridge)) \<and>
canvas (overlay (snd (traceToPaper [DoPaint scribble] paintedBridge))) = map_option erased (canvas (overlay (beforeClear [DoPaint scribble] paintedBridge))) \<and>
overlayInv (snd (traceToPaper [DoPaint scribble] paintedBridge))) \<and>
(canvas (overlay hostlessBridge) = None) \<and>
(traceToPaper [DoPaint scribble] hostlessBridge =
  (Inr None, hostlessBridge\<lparr>console := console hostlessBridge @ [ConsoleWarn ''OverlayCanvas: No canvas to trace'']\<rparr>)) \<and>
(paperCanvas hostlessBridge = None \<and> canvas (overlay hostlessBridge) = None) \<and>
(create hostlessBridge = (Inr None, hostlessBridge\<lparr>console := console hostlessBridge @ [ConsoleWarn ''Paper canvas not found'']\<rparr>) \<and>
traceToPaper [DoPaint scribble] (snd (create hostlessBridge)) =
  (Inr None,
   hostlessBridge\<lparr>console := console hostlessBridge @
      [ConsoleWarn ''Paper canvas not found'', ConsoleWarn ''OverlayCanvas: No canvas to trace'']\<rparr>)) \<and>
(overlayInv untracedBridge \<and> canvas (overlay untracedBridge) = Some paintedCanvas \<and> potrace untracedBridge = None) \<and>
(traceToPaper [DoPaint scribble] untracedBridge =
  (Inr None,
   wiped (untracedBridge\<lparr>console := console untracedBridge @
      [ConsoleError ''OverlayCanvas: Potrace is not initialised'' None]\<rparr>)) \<and>
canvas (overlay (snd (traceToPaper [DoPaint scribble] untracedBridge))) = Some (erased paintedCanvas)) \<and>
(overlayInv rejectingBridge \<and> canvas (overlay rejectingBridge) = Some paintedCanvas \<and> potrace rejectingBridge = Some badTracer \<and> badTracer paintedCanvas (potraceOptions (overlay rejectingBridge)) = Inl (Error ''potrace failed'')) \<and>
(traceToPaper [DoPaint scribble] rejectingBridge =
  (Inr None,
   wiped ((meanwhile [DoPaint scribble] rejectingBridge)\<lparr>console := console (meanwhile [DoPaint scribble] rejectingBridge) @
      [ConsoleError ''OverlayCanvas: Potrace vectorisation failed'' (Some (Error ''potrace failed''))]\<rparr>)) \<and>
canvas (overlay (snd (traceToPaper [DoPaint scribble] rejectingBridge))) = map_option erased (canvas (overlay (meanwhile [DoPaint scribble] rejectingBridge)))) \<and>
(overlayInv paintedBridge \<and> canvas (overlay paintedBridge) = Some paintedCanvas \<and> potrace paintedBridge = Some okTracer \<and> okTracer paintedCanvas (potraceOptions (overlay paintedBridge)) = Inr ''<svg/>'' \<and> importSVG (meanwhile [DoPaint scribble] paintedBridge) ''<svg/>'' = Inr (Some (Path () None None))) \<and>
(traceToPaper [DoPaint scribble] paintedBridge =
  (Inr (Some (traced (meanwhile [DoPaint scribble] paintedBridge) (Path () None None))),
   wiped ((meanwhile [DoPaint scribble] paintedBridge)\<lparr>project := project (meanwhile [DoPaint scribble] paintedBridge) @ [traced (meanwhile [DoPaint scribble] paintedBridge) (Path () None None)]\<rparr>)) \<and>
canvas (overlay (snd (traceToPaper [DoPaint scribble] paintedBridge))) = map_option erased (canvas (overlay (meanwhile [DoPaint scribble] paintedBridge)))) \<and>
(overlay hostlessBridge = newOverlayCanvas (1 / 4) [(''turdsize'', 2)]) \<and>
(overlayInv (meanwhile [DoResize \<lparr>rleft = 0, rtop = 0, rwidth = 8, rheight = 4\<rparr>, DoCreate, DoPaint scribble, DoRemoveHost] hostlessBridge) \<and>
returned (fst (traceToPaper [DoPaint scribble] (meanwhile [DoResize \<lparr>rleft = 0, rtop = 0, rwidth = 8, rheight = 4\<rparr>, DoCreate, DoPaint scribble, DoRemoveHost] hostlessBridge))) \<and>
snd (traceToPaper [DoPaint scribble] (meanwhile [DoResize \<lparr>rleft = 0, rtop = 0, rwidth = 8, rheight = 4\<rparr>, DoCreate, DoPaint scribble, DoRemoveHost] hostlessBridge)) =
  wiped (snd (guardedTracing [DoPaint scribble] (meanwhile [DoResize \<lparr>rleft = 0, rtop = 0, rwidth = 8, rheight = 4\<rparr>, DoCreate, DoPaint scribble, DoRemoveHost] hostlessBridge))) \<and>
canvas (overlay (snd (traceToPaper [DoPaint scribble] (meanwhile [DoResize \<lparr>rleft = 0, rtop = 0, rwidth = 8, rheight = 4\<rparr>, DoCreate, DoPaint scribble, DoRemoveHost] hostlessBridge)))) =
  map_option erased (canvas (overlay (beforeClear [DoPaint scribble] (meanwhile [DoResize \<lparr>rleft = 0, rtop = 0, rwidth = 8, rheight = 4\<rparr>, DoCreate, DoPaint scribble, DoRemoveHost] hostlessBridge))))) \<and>
(canvas (overlay (meanwhile [DoPaint scribble] paintedBridge)) =
  Some (paintedCanvas\<lparr>pixels := [255, 255, 255, 255, 255, 255, 255, 255]\<rparr>)) \<and>
(canvas (overlay (snd (traceToPaper [DoPaint scribble] paintedBridge))) =
  Some (paintedCanvas\<lparr>pixels := [0, 0, 0, 0, 0, 0, 0, 0]\<rparr>)) \<and>
(fst (traceToPaper [DoPaint scribble] paintedBridge) =
  Inr (Some (Path () (Some ''#007acc'') (Some ''#ff6b6b''))))"
proof -
  have h1: "overlayInv paintedBridge"
    by (rule paintedBridge_inv)
  have h2: "canvas (overlay hostlessBridge) = None"
    by (simp add: hostlessBridge_def paintedBridge_def)
  have h3: "paperCanvas hostlessBridge = None \<and> canvas (overlay hostlessBridge) = None"
    by (simp add: hostlessBridge_def paintedBridge_def)
  have h4: "overlayInv untracedBridge \<and> canvas (overlay untracedBridge) = Some paintedCanvas \<and> potrace untracedBridge = None"
    using paintedBridge_inv(3) by (simp add: untracedBridge_def paintedBridge_def)
  have h5: "overlayInv rejectingBridge \<and> canvas (overlay rejectingBridge) = Some paintedCanvas \<and> potrace rejectingBridge = Some badTracer \<and> badTracer paintedCanvas (potraceOptions (overlay rejectingBridge)) = Inl (Error ''potrace failed'')"
    using paintedBridge_inv(2)
    by (simp add: rejectingBridge_def paintedBridge_def badTracer_def)
  have h6: "overlayInv paintedBridge \<and> canvas (overlay paintedBridge) = Some paintedCanvas \<and> potrace paintedBridge = Some okTracer \<and> okTracer paintedCanvas (potraceOptions (overlay paintedBridge)) = Inr ''<svg/>'' \<and> importSVG (meanwhile [DoPaint scribble] paintedBridge) ''<svg/>'' = Inr (Some (Path () None None))"
    using paintedBridge_inv(1)
    by (simp add: paintedBridge_def okTracer_def importsPath_def paint_def)
  have h7: "overlay hostlessBridge = newOverlayCanvas (1 / 4) [(''turdsize'', 2)]"
    by (simp add: hostlessBridge_def paintedBridge_def newOverlayCanvas_def)
  note t = traceToPaper_always_clears[where s=paintedBridge and during="[DoPaint scribble]"
      and ?s1.0=hostlessBridge and ?s4.0=hostlessBridge
      and ?s2.0=untracedBridge and ?c2.0=paintedCanvas
      and ?s3.0=rejectingBridge and ?c3.0=paintedCanvas and tracer=badTracer
      and x="Error ''potrace failed''"
      and ?s5.0=paintedBridge and ?c5.0=paintedCanvas and ?tracer5.0=okTracer
      and svg="''<svg/>''" and imported="Path () None None"
      and ?s0.0=hostlessBridge and scl="1 / 4" and opts="[(''turdsize'', 2)]"
      and earlier="[DoResize \<lparr>rleft = 0, rtop = 0, rwidth = 8, rheight = 4\<rparr>, DoCreate, DoPaint scribble, DoRemoveHost]" ]
  have x1: "canvas (overlay (meanwhile [DoPaint scribble] paintedBridge)) =
      Some (paintedCanvas\<lparr>pixels := [255, 255, 255, 255, 255, 255, 255, 255]\<rparr>)"
    by (simp add: paintedBridge_def paintedCanvas_def paint_def scribble_def)
  have x2: "canvas (overlay (snd (traceToPaper [DoPaint scribble] paintedBridge))) =
      Some (paintedCanvas\<lparr>pixels := [0, 0, 0, 0, 0, 0, 0, 0]\<rparr>)"
  proof -
    from t h1 have "canvas (overlay (snd (traceToPaper [DoPaint scribble] paintedBridge))) =
        map_option erased (canvas (overlay (beforeClear [DoPaint scribble] paintedBridge)))"
      by blast
    moreover have "beforeClear [DoPaint scribble] paintedBridge =
        meanwhile [DoPaint scribble] paintedBridge"
      by (simp add: beforeClear_def paintedBridge_def)
    ultimately show ?thesis
      by (simp add: paintedBridge_def paintedCanvas_def paint_def scribble_def erased_def
          eight_zeros)
  qed
  have x3: "fst (traceToPaper [DoPaint scribble] paintedBridge) =
      Inr (Some (Path () (Some ''#007acc'') (Some ''#ff6b6b'')))"
  proof -
    from t h6 have "traceToPaper [DoPaint scribble] paintedBridge =
      (Inr (Some (traced (meanwhile [DoPaint scribble] paintedBridge) (Path () None None))),
       wiped ((meanwhile [DoPaint scribble] paintedBridge)\<lparr>project := project (meanwhile [DoPaint scribble] paintedBridge) @ [traced (meanwhile [DoPaint scribble] paintedBridge) (Path () None None)]\<rparr>))"
      by blast
    then show ?thesis
      by (simp add: traced_def paintedBridge_def paint_def primaryColour_def secondaryColour_def
          keepItem_def)
  qed
  show ?thesis
    using t h1 h2 h3 h4 h5 h6 h7 x1 x2 x3 by blast
qed


end
